theory Spec2Isabelle
  imports Main
begin

section \<open>Go strings and slices\<close>

text \<open>
  A Go \<open>string\<close> and a \<open>[]byte\<close> are both byte sequences; both are modelled as
  \<^typ>\<open>string\<close> (a list of 8-bit characters), so the conversions \<open>[]byte(s)\<close> and
  \<open>string(b)\<close> are the identity.

  \<open>strings.TrimSpace\<close> and \<open>strings.ToUpper\<close> are written as the library has them: a
  path on bytes for ASCII text, and a hand-over to the Unicode tables as soon as a byte
  from \<open>utf8.RuneSelf\<close> (0x80) on is met. The three table-driven functions they hand over
  to are the fields of the record \<open>unicode\<close>; every property below holds whatever these
  functions are.
\<close>

record unicode =
  TrimFuncIsSpace :: "string \<Rightarrow> string"
  TrimRightFuncIsSpace :: "string \<Rightarrow> string"
  MapToUpper :: "string \<Rightarrow> string"

definition RuneSelf :: nat where
  "RuneSelf = 128"

text \<open>The table \<open>asciiSpace\<close>: \<open>\t \n \v \f \r\<close> and the blank.\<close>

definition asciiSpace :: "char \<Rightarrow> bool" where
  "asciiSpace c = (let n = (of_char c :: nat) in (9 \<le> n \<and> n \<le> 13) \<or> n = 32)"

text \<open>
  \<open>TrimSpace\<close> scans from the left to the first byte that is no ASCII white space, then
  from the right; a scan that stops on a byte \<open>\<ge> RuneSelf\<close> returns \<open>TrimFunc\<close>
  (\<open>TrimRightFunc\<close> for the right scan) of what is left at that moment.
\<close>

definition TrimSpace :: "unicode \<Rightarrow> string \<Rightarrow> string" where
  "TrimSpace uc s =
     (case dropWhile asciiSpace s of
        [] \<Rightarrow> []
      | c # cs \<Rightarrow>
          if RuneSelf \<le> of_char c then TrimFuncIsSpace uc (c # cs)
          else (case dropWhile asciiSpace (rev (c # cs)) of
                  [] \<Rightarrow> []
                | d # ds \<Rightarrow>
                    if RuneSelf \<le> of_char d then TrimRightFuncIsSpace uc (rev (d # ds))
                    else rev (d # ds)))"

definition upperByte :: "char \<Rightarrow> char" where
  "upperByte c = (let n = (of_char c :: nat) in if 97 \<le> n \<and> n \<le> 122 then char_of (n - 32) else c)"

text \<open>\<open>ToUpper\<close>: a string of ASCII bytes only has its letters \<open>a..z\<close> shifted to
  \<open>A..Z\<close>; any other string goes through \<open>Map(unicode.ToUpper, s)\<close>.\<close>

definition ToUpper :: "unicode \<Rightarrow> string \<Rightarrow> string" where
  "ToUpper uc s =
     (if list_all (\<lambda>c. (of_char c :: nat) < RuneSelf) s then map upperByte s else MapToUpper uc s)"

definition HasPrefix :: "string \<Rightarrow> string \<Rightarrow> bool" where
  "HasPrefix s p = (length p \<le> length s \<and> take (length p) s = p)"

text \<open>\<open>strings.Contains(s, substr)\<close>: \<open>substr\<close> occurs at some offset of \<open>s\<close>.\<close>

fun Contains :: "string \<Rightarrow> string \<Rightarrow> bool" where
  "Contains [] sub = (sub = [])"
| "Contains (c # cs) sub = (HasPrefix (c # cs) sub \<or> Contains cs sub)"

text \<open>The verb \<open>%d\<close> of \<open>fmt.Sprintf\<close> on an \<open>int\<close>: decimal digits, a minus sign first
  for a negative number.\<close>

definition digitChar :: "nat \<Rightarrow> char" where
  "digitChar d = char_of (48 + d)"

fun natDigits :: "nat \<Rightarrow> string" where
  "natDigits n = (if n < 10 then [digitChar n] else natDigits (n div 10) @ [digitChar (n mod 10)])"

declare natDigits.simps [simp del]

definition formatInt :: "int \<Rightarrow> string" where
  "formatInt i = (if i < 0 then CHR ''-'' # natDigits (nat (- i)) else natDigits (nat i))"

text \<open>A Go slice is either \<open>nil\<close> or backed by an array; \<open>len\<close> of both may be 0, but
  \<open>encoding/json\<close> writes the first as \<open>null\<close> and the second as \<open>[]\<close>.\<close>

datatype 'a slice = NilSlice | Slice "'a list"

fun len :: "'a slice \<Rightarrow> nat" where
  "len NilSlice = 0"
| "len (Slice xs) = length xs"

fun elems :: "'a slice \<Rightarrow> 'a list" where
  "elems NilSlice = []"
| "elems (Slice xs) = xs"

text \<open>\<open>append(s, x)\<close>: the result is never \<open>nil\<close>.\<close>

definition append_slice :: "'a slice \<Rightarrow> 'a \<Rightarrow> 'a slice" where
  "append_slice s x = Slice (elems s @ [x])"

datatype json =
    JNull
  | JBool bool
  | JNum int
  | JStr string
  | JArr "json list"
  | JObj "(string \<times> json) list"

section \<open>QueryExecutor (handlers/sql\_playground.go)\<close>

record QueryOptions =
  Limit :: int
  Timeout :: int
  ExplainPlan :: bool
  DryRun :: bool

text \<open>A value as \<open>rows.Values()\<close> or a query parameter holds it: \<open>nil\<close>, a \<open>bool\<close>, an
  integer, a \<open>string\<close>, or a value of any other Go type, kept as its text.\<close>

datatype pg_value = PgNull | PgBool bool | PgInt int | PgText string | PgOther string

record QueryRequest =
  SQL :: string
  Params :: "pg_value list"
  Options :: QueryOptions

text \<open>\<open>QueryResult\<close> without \<open>ExecutionTime\<close>, a wall-clock measurement, and without
  \<open>Warnings\<close>, which no code sets.\<close>

record QueryResult =
  Columns :: "string list"
  Rows :: "pg_value list slice"
  RowCount :: int
  ExplainPlanResult :: "json slice"

text \<open>
  A \<open>pgx.Rows\<close> cursor as the handler sees it: the field descriptions, then one entry for
  each time \<open>Next()\<close> is true, holding what \<open>Values()\<close> returns there (an error or the
  row), and what \<open>Err()\<close> reports once \<open>Next()\<close> is false. \<open>RowsAffected\<close> is the
  count of the command tag, which the server sends and the handler never reads.
\<close>

record pgx_rows =
  FieldDescriptions :: "string list"
  Fetched :: "(string + pg_value list) list"
  Err :: "string option"
  RowsAffected :: int

type_synonym pool = nat

text \<open>The loop \<open>for rows.Next()\<close> of \<open>parseQueryResult\<close>, with the two variables it
  updates, \<open>data\<close> and \<open>explainPlan\<close>. The first argument is \<open>json.Unmarshal\<close> into
  a \<open>[]map[string]interface{}\<close>.\<close>

fun scanRows :: "(string \<Rightarrow> json slice option) \<Rightarrow> bool \<Rightarrow> (string + pg_value list) list \<Rightarrow>
    pg_value list slice \<Rightarrow> json slice \<Rightarrow> string + (pg_value list slice \<times> json slice)" where
  "scanRows unmarshal isExplain [] data explainPlan = Inr (data, explainPlan)"
| "scanRows unmarshal isExplain (Inl err # rest) data explainPlan =
     Inl (''failed to scan row: '' @ err)"
| "scanRows unmarshal isExplain (Inr values # rest) data explainPlan =
     scanRows unmarshal isExplain rest (append_slice data values)
       (if isExplain \<and> length values > 0 then
          (case hd values of
             PgText jsonStr \<Rightarrow>
               (case unmarshal jsonStr of Some plan \<Rightarrow> plan | None \<Rightarrow> explainPlan)
           | _ \<Rightarrow> explainPlan)
        else explainPlan)"

definition parseQueryResult :: "(string \<Rightarrow> json slice option) \<Rightarrow> pgx_rows \<Rightarrow> bool \<Rightarrow>
    string + QueryResult" where
  "parseQueryResult unmarshal rows isExplain =
     (let columns = FieldDescriptions rows in
      case scanRows unmarshal isExplain (Fetched rows) NilSlice NilSlice of
        Inl err \<Rightarrow> Inl err
      | Inr (data, explainPlan) \<Rightarrow>
          (case Err rows of
             Some err \<Rightarrow> Inl (''row iteration error: '' @ err)
           | None \<Rightarrow>
               Inr \<lparr>Columns = columns, Rows = data, RowCount = int (len data),
                    ExplainPlanResult = explainPlan\<rparr>))"

text \<open>What a handler does to the outside, in the order it does it.\<close>

datatype event =
    GetConnection string
  | PoolQuery pool string "pg_value list"
  | LogQueryExecution string string int

text \<open>The statement \<open>executeSQL\<close> hands to \<open>pool.Query\<close>.\<close>

definition buildSQL :: "unicode \<Rightarrow> QueryRequest \<Rightarrow> string" where
  "buildSQL uc req =
     (let sql = TrimSpace uc (SQL req);
          sql = (if ExplainPlan (Options req)
                 then ''EXPLAIN (FORMAT JSON, ANALYZE true) '' @ sql else sql)
      in if HasPrefix (ToUpper uc sql) ''SELECT'' \<and> \<not> Contains (ToUpper uc sql) ''LIMIT''
         then sql @ '' LIMIT '' @ formatInt (Limit (Options req))
         else sql)"

definition executeSQL :: "unicode \<Rightarrow> (pool \<Rightarrow> string \<Rightarrow> pg_value list \<Rightarrow> string + pgx_rows) \<Rightarrow>
    (string \<Rightarrow> json slice option) \<Rightarrow> pool \<Rightarrow> QueryRequest \<Rightarrow>
    (string + QueryResult) \<times> event list" where
  "executeSQL uc query unmarshal p req =
     (let sql = buildSQL uc req in
      (case query p sql (Params req) of
         Inl err \<Rightarrow> Inl (''query execution error: '' @ err)
       | Inr rows \<Rightarrow> parseQueryResult unmarshal rows (ExplainPlan (Options req)),
       [PoolQuery p sql (Params req)]))"

definition dangerous :: "string list" where
  "dangerous = [''DROP '', ''DELETE '', ''TRUNCATE '', ''ALTER '', ''CREATE USER'', ''DROP USER'',
     ''GRANT '', ''REVOKE '', ''INSERT '', ''UPDATE '', ''COPY '']"

text \<open>The loop of \<open>isDangerousQuery\<close> over the keywords, returning at the first hit.\<close>

fun containsAny :: "string \<Rightarrow> string list \<Rightarrow> bool" where
  "containsAny upperSQL [] = False"
| "containsAny upperSQL (keyword # rest) =
     (if Contains upperSQL keyword then True else containsAny upperSQL rest)"

definition isDangerousQuery :: "unicode \<Rightarrow> string \<Rightarrow> bool" where
  "isDangerousQuery uc sql = containsAny (ToUpper uc (TrimSpace uc sql)) dangerous"

record UserClaims =
  UserID :: string
  Email :: string
  Role :: string

datatype response =
    ErrorResponse nat string string
  | QueryResponse nat QueryResult

definition accessDenied :: "UserClaims option \<Rightarrow> string \<Rightarrow> bool" where
  "accessDenied claims userID =
     (case claims of None \<Rightarrow> True | Some c \<Rightarrow> UserID c \<noteq> userID \<and> Role c \<noteq> ''admin'')"

definition dangerousRejection :: response where
  "dangerousRejection = ErrorResponse 400 ''dangerous query detected''
     ''DROP, DELETE, TRUNCATE, and other destructive operations are restricted''"

definition withDefaults :: "QueryRequest \<Rightarrow> QueryRequest" where
  "withDefaults req =
     (let opts = Options req;
          opts = (if Limit opts = 0 then opts\<lparr>Limit := 1000\<rparr> else opts);
          opts = (if Timeout opts = 0 then opts\<lparr>Timeout := 30\<rparr> else opts)
      in req\<lparr>Options := opts\<rparr>)"

text \<open>
  \<open>ExecuteQuery\<close>. Its collaborators are arguments: \<open>uc\<close> holds the Unicode
  functions of package \<open>strings\<close>, \<open>getConn\<close> is
  \<open>GetUserDatabaseConnection\<close> as this handler sees it (an error or a pool),
  \<open>query\<close> is \<open>pool.Query\<close> on the user's database, \<open>unmarshal\<close> is
  \<open>json.Unmarshal\<close>. The request body is the outcome of decoding it: an error or a
  \<open>QueryRequest\<close>. The result is the response written and the trace of outside calls.
  The usage log is written by a goroutine that is started last; it is the last event.
\<close>

definition ExecuteQuery :: "unicode \<Rightarrow> (string \<Rightarrow> string + pool) \<Rightarrow>
    (pool \<Rightarrow> string \<Rightarrow> pg_value list \<Rightarrow> string + pgx_rows) \<Rightarrow>
    (string \<Rightarrow> json slice option) \<Rightarrow>
    UserClaims option \<Rightarrow> string \<Rightarrow> string + QueryRequest \<Rightarrow> response \<times> event list" where
  "ExecuteQuery uc getConn query unmarshal claims userID body =
     (if accessDenied claims userID then
        (ErrorResponse 403 ''access denied''
           ''You can only execute queries on your own database'', [])
      else case body of
        Inl err \<Rightarrow> (ErrorResponse 400 err ''Invalid request body'', [])
      | Inr req0 \<Rightarrow>
          if SQL req0 = [] then
            (ErrorResponse 400 ''missing SQL query'' ''SQL query is required'', [])
          else if isDangerousQuery uc (SQL req0) then (dangerousRejection, [])
          else
            let req = withDefaults req0 in
            (case getConn userID of
               Inl err \<Rightarrow>
                 (ErrorResponse 400 err ''Failed to connect to your database'',
                  [GetConnection userID])
             | Inr userPool \<Rightarrow>
                 (case executeSQL uc query unmarshal userPool req of
                    (Inl err, tr) \<Rightarrow>
                      (ErrorResponse 400 err ''Query execution failed'',
                       GetConnection userID # tr)
                  | (Inr result, tr) \<Rightarrow>
                      (QueryResponse 200 result,
                       GetConnection userID # tr @
                       [LogQueryExecution userID
                          (take (min 1000 (length (SQL req))) (SQL req)) (RowCount result)]))))"

text \<open>The statements a trace hands to \<open>pool.Query\<close>, in order.\<close>

fun statementsOf :: "event list \<Rightarrow> string list" where
  "statementsOf [] = []"
| "statementsOf (PoolQuery p sql params # es) = sql # statementsOf es"
| "statementsOf (e # es) = statementsOf es"

subsection \<open>Example collaborators and requests\<close>

text \<open>Unicode functions that leave every string as it is (the requests of the examples
  are ASCII text, which never reaches them).\<close>

definition demoUnicode :: unicode where
  "demoUnicode = \<lparr>TrimFuncIsSpace = (\<lambda>s. s), TrimRightFuncIsSpace = (\<lambda>s. s), MapToUpper = (\<lambda>s. s)\<rparr>"

definition noPlan :: "string \<Rightarrow> json slice option" where
  "noPlan s = None"

definition demoBroker :: "string \<Rightarrow> string + pool" where
  "demoBroker userID = Inr 1"

definition demoRows :: pgx_rows where
  "demoRows = \<lparr>FieldDescriptions = [''id''], Fetched = [Inr [PgInt 1], Inr [PgInt 2]], Err = None, RowsAffected = 7\<rparr>"

definition demoQuery :: "pool \<Rightarrow> string \<Rightarrow> pg_value list \<Rightarrow> string + pgx_rows" where
  "demoQuery p sql params = Inr demoRows"

definition demoClaims :: "UserClaims option" where
  "demoClaims = Some \<lparr>UserID = ''u1'', Email = ''u1@example.org'', Role = ''user''\<rparr>"

definition demoRequest :: "string \<Rightarrow> bool \<Rightarrow> int \<Rightarrow> QueryRequest" where
  "demoRequest sql explain limit = \<lparr>SQL = sql, Params = [],
     Options = \<lparr>Limit = limit, Timeout = 0, ExplainPlan = explain, DryRun = False\<rparr>\<rparr>"

section \<open>SchemaIntrospector (handlers/sql\_playground.go)\<close>

text \<open>
  \<open>ColumnInfo\<close>, \<open>TableInfo\<close> and \<open>ViewInfo\<close>. The Go structs share the field names
  \<open>Name\<close>, \<open>Schema\<close> and \<open>Columns\<close> (and \<open>QueryResult\<close> has \<open>Columns\<close> and
  \<open>RowCount\<close> too), so the fields carry the struct's name in front here.
\<close>

record ColumnInfo =
  ColumnName :: string
  ColumnType :: string
  Nullable :: bool
  DefaultValue :: string
  IsPrimaryKey :: bool
  IsForeignKey :: bool

record TableInfo =
  TableName :: string
  TableSchema :: string
  TableColumns :: "ColumnInfo slice"
  TableRowCount :: int
  Size :: string

record ViewInfo =
  ViewName :: string
  ViewSchema :: string
  Definition :: string
  ViewColumns :: "ColumnInfo slice"

record SchemaInfo =
  Tables :: "TableInfo slice"
  Views :: "ViewInfo slice"

text \<open>
  The user's database as the introspector sees it: what the tables query, the views query
  and the columns query (for a schema and a table name) answer, each an error or the rows
  for which \<open>Next()\<close> is true.
\<close>

record catalog =
  tablesRows :: "string + pg_value list list"
  viewsRows :: "string + pg_value list list"
  columnsRows :: "string \<Rightarrow> string \<Rightarrow> string + pg_value list list"

text \<open>\<open>rows.Scan\<close> into the destinations each loop names; \<open>None\<close> is a scan error (a
  \<open>NULL\<close> or a value of another type where a \<open>string\<close>, \<open>bool\<close> or \<open>int64\<close> is
  wanted). Only \<open>column_default\<close> is scanned into a \<open>*string\<close> and may be \<open>NULL\<close>.\<close>

fun scanColumn :: "pg_value list \<Rightarrow> ColumnInfo option" where
  "scanColumn [PgText name, PgText ty, PgBool nullable, PgNull, PgBool pk, PgBool fk] =
     Some \<lparr>ColumnName = name, ColumnType = ty, Nullable = nullable, DefaultValue = [],
           IsPrimaryKey = pk, IsForeignKey = fk\<rparr>"
| "scanColumn [PgText name, PgText ty, PgBool nullable, PgText dv, PgBool pk, PgBool fk] =
     Some \<lparr>ColumnName = name, ColumnType = ty, Nullable = nullable, DefaultValue = dv,
           IsPrimaryKey = pk, IsForeignKey = fk\<rparr>"
| "scanColumn row = None"

fun scanTable :: "pg_value list \<Rightarrow> (string \<times> string \<times> int) option" where
  "scanTable [PgText name, PgText schemaName, PgInt rowCount] = Some (name, schemaName, rowCount)"
| "scanTable row = None"

fun scanView :: "pg_value list \<Rightarrow> (string \<times> string \<times> string) option" where
  "scanView [PgText name, PgText schemaName, PgText def] = Some (name, schemaName, def)"
| "scanView row = None"

fun columnsLoop :: "pg_value list list \<Rightarrow> ColumnInfo slice \<Rightarrow> ColumnInfo slice" where
  "columnsLoop [] columns = columns"
| "columnsLoop (row # rest) columns =
     (case scanColumn row of
        None \<Rightarrow> columnsLoop rest columns
      | Some col \<Rightarrow> columnsLoop rest (append_slice columns col))"

definition getTableColumns :: "catalog \<Rightarrow> string \<Rightarrow> string \<Rightarrow> string + ColumnInfo slice" where
  "getTableColumns cat schemaName tableName =
     (case columnsRows cat schemaName tableName of
        Inl err \<Rightarrow> Inl (''failed to get columns: '' @ err)
      | Inr rows \<Rightarrow> Inr (columnsLoop rows NilSlice))"

fun tablesLoop :: "catalog \<Rightarrow> pg_value list list \<Rightarrow> TableInfo slice \<Rightarrow> TableInfo slice" where
  "tablesLoop cat [] tables = tables"
| "tablesLoop cat (row # rest) tables =
     (case scanTable row of
        None \<Rightarrow> tablesLoop cat rest tables
      | Some (name, schemaName, rowCount) \<Rightarrow>
          tablesLoop cat rest
            (append_slice tables
               \<lparr>TableName = name, TableSchema = schemaName,
                TableColumns =
                  (case getTableColumns cat schemaName name of
                     Inr columns \<Rightarrow> columns | Inl err \<Rightarrow> NilSlice),
                TableRowCount = rowCount, Size = []\<rparr>))"

fun viewsLoop :: "catalog \<Rightarrow> pg_value list list \<Rightarrow> ViewInfo slice \<Rightarrow> ViewInfo slice" where
  "viewsLoop cat [] views = views"
| "viewsLoop cat (row # rest) views =
     (case scanView row of
        None \<Rightarrow> viewsLoop cat rest views
      | Some (name, schemaName, def) \<Rightarrow>
          viewsLoop cat rest
            (append_slice views
               \<lparr>ViewName = name, ViewSchema = schemaName, Definition = def,
                ViewColumns =
                  (case getTableColumns cat schemaName name of
                     Inr columns \<Rightarrow> columns | Inl err \<Rightarrow> NilSlice)\<rparr>))"

text \<open>\<open>getDatabaseSchema\<close> starts from \<open>&SchemaInfo{}\<close>, whose two slices are \<open>nil\<close>, and
  only \<open>append\<close> ever sets them.\<close>

definition getDatabaseSchema :: "catalog \<Rightarrow> string + SchemaInfo" where
  "getDatabaseSchema cat =
     (case tablesRows cat of
        Inl err \<Rightarrow> Inl (''failed to get tables: '' @ err)
      | Inr rows \<Rightarrow>
          Inr \<lparr>Tables = tablesLoop cat rows NilSlice,
               Views = (case viewsRows cat of
                          Inl err \<Rightarrow> NilSlice
                        | Inr viewRows \<Rightarrow> viewsLoop cat viewRows NilSlice)\<rparr>)"

text \<open>\<open>encoding/json\<close> on the response structs: a \<open>nil\<close> slice is written \<open>null\<close>, any
  other slice an array; a field tagged \<open>omitempty\<close> is left out when it is \<open>0\<close> or
  \<open>""\<close>.\<close>

definition marshalSlice :: "('a \<Rightarrow> json) \<Rightarrow> 'a slice \<Rightarrow> json" where
  "marshalSlice f s = (case s of NilSlice \<Rightarrow> JNull | Slice xs \<Rightarrow> JArr (map f xs))"

definition marshalColumn :: "ColumnInfo \<Rightarrow> json" where
  "marshalColumn c = JObj
     ([(''name'', JStr (ColumnName c)), (''type'', JStr (ColumnType c)),
       (''nullable'', JBool (Nullable c))] @
      (if DefaultValue c = [] then [] else [(''default_value'', JStr (DefaultValue c))]) @
      [(''is_primary_key'', JBool (IsPrimaryKey c)), (''is_foreign_key'', JBool (IsForeignKey c))])"

definition marshalTable :: "TableInfo \<Rightarrow> json" where
  "marshalTable t = JObj
     ([(''name'', JStr (TableName t)), (''schema'', JStr (TableSchema t)),
       (''columns'', marshalSlice marshalColumn (TableColumns t))] @
      (if TableRowCount t = 0 then [] else [(''row_count'', JNum (TableRowCount t))]) @
      (if Size t = [] then [] else [(''size'', JStr (Size t))]))"

definition marshalView :: "ViewInfo \<Rightarrow> json" where
  "marshalView v = JObj
     [(''name'', JStr (ViewName v)), (''schema'', JStr (ViewSchema v)),
      (''definition'', JStr (Definition v)),
      (''columns'', marshalSlice marshalColumn (ViewColumns v))]"

definition marshalSchema :: "SchemaInfo \<Rightarrow> json" where
  "marshalSchema s = JObj
     [(''tables'', marshalSlice marshalTable (Tables s)),
      (''views'', marshalSlice marshalView (Views s))]"

datatype schema_response =
    SchemaError nat string string
  | SchemaJSON nat json

text \<open>\<open>GetDatabaseSchema\<close>; \<open>catalogOf\<close> is the database behind a pool.\<close>

definition GetDatabaseSchema :: "(string \<Rightarrow> string + pool) \<Rightarrow> (pool \<Rightarrow> catalog) \<Rightarrow>
    UserClaims option \<Rightarrow> string \<Rightarrow> schema_response" where
  "GetDatabaseSchema getConn catalogOf claims userID =
     (if accessDenied claims userID then
        SchemaError 403 ''access denied'' ''You can only access your own database schema''
      else case getConn userID of
        Inl err \<Rightarrow> SchemaError 400 err ''Failed to connect to your database''
      | Inr userPool \<Rightarrow>
          (case getDatabaseSchema (catalogOf userPool) of
             Inl err \<Rightarrow> SchemaError 500 err ''Failed to retrieve database schema''
           | Inr schema \<Rightarrow> SchemaJSON 200 (marshalSchema schema)))"

subsection \<open>Example databases\<close>

definition emptyCatalog :: catalog where
  "emptyCatalog = \<lparr>tablesRows = Inr [], viewsRows = Inr [], columnsRows = (\<lambda>s t. Inr [])\<rparr>"

definition emptyDatabase :: "pool \<Rightarrow> catalog" where
  "emptyDatabase p = emptyCatalog"

definition oneTableCatalog :: catalog where
  "oneTableCatalog =
     \<lparr>tablesRows = Inr [[PgText ''users'', PgText ''public'', PgInt 3]],
      viewsRows = Inr [],
      columnsRows = (\<lambda>s t. Inr [[PgText ''id'', PgText ''integer'', PgBool False, PgNull,
                                 PgBool True, PgBool False]])\<rparr>"

definition oneTableDatabase :: "pool \<Rightarrow> catalog" where
  "oneTableDatabase p = oneTableCatalog"

section \<open>ConfigStore encryption (auth/encryption.go)\<close>

subsection \<open>encoding/base64, StdEncoding\<close>

text \<open>
  \<open>base64.StdEncoding\<close> as the library has it: the alphabet \<open>encodeStd\<close>, padding with
  \<open>=\<close>, and a decoder that is not strict. The decoder skips \<open>\r\<close> and \<open>\n\<close> wherever
  they stand, wants whole quanta of four characters, takes padding only in the last
  quantum with nothing after it, and does not look at the bits of the last character
  that fall outside the decoded bytes (only \<open>Strict()\<close> would).
\<close>

definition encodeStd :: string where
  "encodeStd = ''ABCDEFGHIJKLMNOPQRSTUVWXYZabcdefghijklmnopqrstuvwxyz0123456789+/''"

definition sextet :: "nat \<Rightarrow> char" where
  "sextet n = encodeStd ! n"

fun indexOf :: "char \<Rightarrow> string \<Rightarrow> nat option" where
  "indexOf c [] = None"
| "indexOf c (x # xs) = (if c = x then Some 0 else map_option Suc (indexOf c xs))"

definition decodeMap :: "char \<Rightarrow> nat option" where
  "decodeMap c = indexOf c encodeStd"

definition byte :: "nat \<Rightarrow> char" where
  "byte n = char_of n"

fun EncodeToString :: "string \<Rightarrow> string" where
  "EncodeToString [] = []"
| "EncodeToString [a] =
     (let x = (of_char a :: nat)
      in [sextet (x div 4), sextet ((x mod 4) * 16), CHR ''='', CHR ''=''])"
| "EncodeToString [a, b] =
     (let x = (of_char a :: nat); y = (of_char b :: nat)
      in [sextet (x div 4), sextet ((x mod 4) * 16 + y div 16), sextet ((y mod 16) * 4),
          CHR ''=''])"
| "EncodeToString (a # b # c # rest) =
     (let x = (of_char a :: nat); y = (of_char b :: nat); z = (of_char c :: nat)
      in [sextet (x div 4), sextet ((x mod 4) * 16 + y div 16),
          sextet ((y mod 16) * 4 + z div 64), sextet (z mod 64)] @ EncodeToString rest)"

fun decodeQuanta :: "string \<Rightarrow> string option" where
  "decodeQuanta [] = Some []"
| "decodeQuanta (a # b # c # d # rest) =
     (case decodeMap a of
        None \<Rightarrow> None
      | Some p \<Rightarrow>
     (case decodeMap b of
        None \<Rightarrow> None
      | Some q \<Rightarrow>
     (case decodeMap c of
        None \<Rightarrow>
          if c = CHR ''='' \<and> d = CHR ''='' \<and> rest = []
          then Some [byte (p * 4 + q div 16)] else None
      | Some r \<Rightarrow>
     (case decodeMap d of
        None \<Rightarrow>
          if d = CHR ''='' \<and> rest = []
          then Some [byte (p * 4 + q div 16), byte ((q mod 16) * 16 + r div 4)] else None
      | Some s \<Rightarrow>
          map_option
            (\<lambda>out. [byte (p * 4 + q div 16), byte ((q mod 16) * 16 + r div 4),
                    byte ((r mod 4) * 64 + s)] @ out)
            (decodeQuanta rest)))))"
| "decodeQuanta short = None"

definition DecodeString :: "string \<Rightarrow> string option" where
  "DecodeString s = decodeQuanta (filter (\<lambda>c. c \<noteq> CHR 0x0D \<and> c \<noteq> CHR 0x0A) s)"

subsection \<open>The primitives of crypto/sha256, crypto/aes, crypto/cipher and crypto/rand\<close>

text \<open>
  SHA-256 and AES-GCM are arguments of the model: \<open>gcmSeal key nonce plaintext\<close> is the
  sealed text (ciphertext and 16-byte tag) and \<open>gcmOpen key nonce sealed\<close> the plaintext,
  or \<open>None\<close> when authentication fails; the additional data is \<open>nil\<close> at every call.
  What the theorems need of them is stated where it is needed:
  \<^item> \<open>digest32\<close>: a SHA-256 digest has 32 bytes;
  \<^item> \<open>aeadCorrect\<close>: \<open>Open\<close> undoes \<open>Seal\<close> under the same key and nonce;
  \<^item> \<open>aeadAuthentic\<close>: \<open>Open\<close> recomputes the tag over the text it is given, so a text
    it accepts as plaintext \<open>p\<close> is exactly \<open>Seal\<close> of \<open>p\<close> under that key and nonce.
  All three hold of the real primitives for a 32-byte key and a 12-byte nonce.
\<close>

record crypto =
  sha256 :: "string \<Rightarrow> string"
  gcmSeal :: "string \<Rightarrow> string \<Rightarrow> string \<Rightarrow> string"
  gcmOpen :: "string \<Rightarrow> string \<Rightarrow> string \<Rightarrow> string option"

definition digest32 :: "crypto \<Rightarrow> bool" where
  "digest32 cr = (\<forall>m. length (sha256 cr m) = 32)"

definition aeadCorrect :: "crypto \<Rightarrow> bool" where
  "aeadCorrect cr =
     (\<forall>k n p. length k = 32 \<longrightarrow> length n = 12 \<longrightarrow> gcmOpen cr k n (gcmSeal cr k n p) = Some p)"

definition aeadAuthentic :: "crypto \<Rightarrow> bool" where
  "aeadAuthentic cr =
     (\<forall>k n c p. length k = 32 \<longrightarrow> length n = 12 \<longrightarrow> gcmOpen cr k n c = Some p \<longrightarrow>
        c = gcmSeal cr k n p)"

text \<open>\<open>aes.NewCipher\<close> takes a key of 16, 24 or 32 bytes.\<close>

definition NewCipher :: "string \<Rightarrow> string + string" where
  "NewCipher key =
     (if length key = 16 \<or> length key = 24 \<or> length key = 32 then Inr key
      else Inl (''crypto/aes: invalid key size '' @ formatInt (int (length key))))"

definition NonceSize :: nat where
  "NonceSize = 12"

text \<open>\<open>gcm.Seal(dst, nonce, plaintext, nil)\<close> appends the sealed text to \<open>dst\<close>.\<close>

definition Seal :: "crypto \<Rightarrow> string \<Rightarrow> string \<Rightarrow> string \<Rightarrow> string \<Rightarrow> string" where
  "Seal cr block dst nonce plaintext = dst @ gcmSeal cr block nonce plaintext"

text \<open>\<open>io.ReadFull(rand.Reader, buf)\<close>: the entropy source is the list of bytes it will
  still deliver; the call takes \<open>n\<close> of them or fails.\<close>

definition ReadFull :: "string \<Rightarrow> nat \<Rightarrow> (string + string) \<times> string" where
  "ReadFull rnd n =
     (if length rnd < n then (Inl (if rnd = [] then ''EOF'' else ''unexpected EOF''), [])
      else (Inr (take n rnd), drop n rnd))"

subsection \<open>Encrypt and Decrypt with the process key\<close>

text \<open>\<open>encryptionKey\<close> is the package variable that \<open>init\<close> fills from the environment.
  The error text of a failed base64 decoding is given without the position
  (\<open>at input byte N\<close>) that the library appends to it, here and in \<open>DecryptConfig\<close>.\<close>

definition Encrypt :: "crypto \<Rightarrow> string \<Rightarrow> string \<Rightarrow> string \<Rightarrow> (string + string) \<times> string" where
  "Encrypt cr encryptionKey rnd plaintext =
     (if plaintext = [] then (Inr [], rnd)
      else case NewCipher encryptionKey of
        Inl err \<Rightarrow> (Inl err, rnd)
      | Inr block \<Rightarrow>
          (case ReadFull rnd NonceSize of
             (Inl err, rnd') \<Rightarrow> (Inl err, rnd')
           | (Inr nonce, rnd') \<Rightarrow>
               (Inr (EncodeToString (Seal cr block nonce nonce plaintext)), rnd')))"

definition Decrypt :: "crypto \<Rightarrow> string \<Rightarrow> string \<Rightarrow> string + string" where
  "Decrypt cr encryptionKey ciphertext =
     (if ciphertext = [] then Inr []
      else case DecodeString ciphertext of
        None \<Rightarrow> Inl ''illegal base64 data''
      | Some data \<Rightarrow>
          (case NewCipher encryptionKey of
             Inl err \<Rightarrow> Inl err
           | Inr block \<Rightarrow>
               if length data < NonceSize then Inl ''ciphertext too short''
               else
                 (case gcmOpen cr block (take NonceSize data) (drop NonceSize data) of
                    None \<Rightarrow> Inl ''cipher: message authentication failed''
                  | Some plaintext \<Rightarrow> Inr plaintext)))"

subsection \<open>ConfigEncryption\<close>

record ConfigEncryption =
  masterKey :: string

definition NewConfigEncryption :: "crypto \<Rightarrow> string \<Rightarrow> string + ConfigEncryption" where
  "NewConfigEncryption cr masterKeyEnv =
     (if masterKeyEnv = [] then Inl ''ENCRYPTION_KEY environment variable is required''
      else Inr \<lparr>masterKey = sha256 cr masterKeyEnv\<rparr>)"

definition deriveUserKey :: "crypto \<Rightarrow> ConfigEncryption \<Rightarrow> string \<Rightarrow> string \<Rightarrow> string" where
  "deriveUserKey cr ce userID configType =
     sha256 cr (masterKey ce @ '':'' @ userID @ '':'' @ configType)"

definition EncryptConfig :: "crypto \<Rightarrow> ConfigEncryption \<Rightarrow> string \<Rightarrow> string \<Rightarrow> string \<Rightarrow> string \<Rightarrow>
    (string + string) \<times> string" where
  "EncryptConfig cr ce rnd userID configType data =
     (let userKey = deriveUserKey cr ce userID configType in
      case NewCipher userKey of
        Inl err \<Rightarrow> (Inl (''failed to create cipher: '' @ err), rnd)
      | Inr block \<Rightarrow>
          (case ReadFull rnd NonceSize of
             (Inl err, rnd') \<Rightarrow> (Inl (''failed to generate nonce: '' @ err), rnd')
           | (Inr nonce, rnd') \<Rightarrow>
               (Inr (EncodeToString (Seal cr block nonce nonce data)), rnd')))"

definition DecryptConfig :: "crypto \<Rightarrow> ConfigEncryption \<Rightarrow> string \<Rightarrow> string \<Rightarrow> string \<Rightarrow>
    string + string" where
  "DecryptConfig cr ce userID configType encryptedData =
     (case DecodeString encryptedData of
        None \<Rightarrow> Inl ''failed to decode base64: illegal base64 data''
      | Some ciphertext \<Rightarrow>
          (let userKey = deriveUserKey cr ce userID configType in
           case NewCipher userKey of
             Inl err \<Rightarrow> Inl (''failed to create cipher: '' @ err)
           | Inr block \<Rightarrow>
               if length ciphertext < NonceSize then Inl ''ciphertext too short''
               else
                 (case gcmOpen cr block (take NonceSize ciphertext) (drop NonceSize ciphertext) of
                    None \<Rightarrow>
                      Inl ''failed to decrypt config: cipher: message authentication failed''
                  | Some plaintext \<Rightarrow> Inr plaintext)))"

subsection \<open>Stand-in primitives for examples\<close>

text \<open>
  A digest and a sealing function small enough to evaluate, with the three properties
  above: the digest is the message read backwards, cut or filled to 32 bytes; the sealed
  text is the plaintext, then the plaintext read backwards, the key and the nonce, and
  it opens only if it is exactly that. They serve the examples only; every theorem is
  stated for arbitrary primitives.
\<close>

definition toyDigest :: "string \<Rightarrow> string" where
  "toyDigest m = take 32 (rev m @ replicate 32 (CHR ''#''))"

definition toySeal :: "string \<Rightarrow> string \<Rightarrow> string \<Rightarrow> string" where
  "toySeal k n p = p @ rev p @ k @ n"

definition toyOpen :: "string \<Rightarrow> string \<Rightarrow> string \<Rightarrow> string option" where
  "toyOpen k n c =
     (let p = take ((length c - length k - length n) div 2) c
      in if c = toySeal k n p then Some p else None)"

definition toyCrypto :: crypto where
  "toyCrypto = \<lparr>sha256 = toyDigest, gcmSeal = toySeal, gcmOpen = toyOpen\<rparr>"

definition toyService :: ConfigEncryption where
  "toyService = \<lparr>masterKey = toyDigest ''0123456789abcdef0123456789abcdef''\<rparr>"

definition toyEntropy :: string where
  "toyEntropy = ''nonce-000001nonce-000002nonce-000003nonce-000004''"

section \<open>ConnectionBroker (handlers/database\_config.go, database/ssh\_tunnel.go)\<close>

record SSHConfig =
  Host :: string
  Port :: string
  User :: string
  KeyPath :: string

record WireguardConfig =
  Config :: string
  InternalDBURL :: string

record DatabaseConfig =
  ConnectionType :: string
  DatabaseURL :: string
  SSHConfig :: "SSHConfig option"
  WireguardConfig :: "WireguardConfig option"

text \<open>
  What \<open>pgxpool.ParseConfig\<close> returns, as far as the handler reads or sets it: the
  user, password, database and run-time parameters of the connection (the parameters in
  the order in which the handler's \<open>range\<close> meets them), and the four pool bounds, the
  life times in seconds.
\<close>

record poolConfig =
  ConnUser :: string
  ConnPassword :: string
  ConnDatabase :: string
  RuntimeParams :: "(string \<times> string) list"
  MaxConns :: int
  MinConns :: int
  MaxConnLifetime :: nat
  MaxConnIdleTime :: nat

type_synonym tunnel = nat

text \<open>
  The outside of the broker: the file system and the SSH server behind
  \<open>NewSSHTunnel\<close>, the URL parser, and the database server behind
  \<open>pgxpool.NewWithConfig\<close> and \<open>Ping\<close>. Each answers with an error text or with
  success. \<open>Ping\<close> is asked of a pool, named by its number.
\<close>

record network =
  ReadFile :: "string \<Rightarrow> string + string"
  ParsePrivateKey :: "string \<Rightarrow> string option"
  Dial :: "string \<Rightarrow> string \<Rightarrow> string \<Rightarrow> string option"
  ParseConfig :: "string \<Rightarrow> string + poolConfig"
  NewWithConfig :: "poolConfig \<Rightarrow> string option"
  Ping :: "pool \<Rightarrow> string option"

text \<open>
  The tunnels and pools that exist: how many of each were ever built (the next one gets
  that number as its name) and which are open, that is, built and \<open>Close()\<close> not yet
  called on them. \<open>SSHTunnel.Close()\<close> marks the tunnel closed and closes its SSH client;
  the goroutine that \<open>connect\<close> starts for the local listener is no part of this state.
\<close>

record resources =
  tunnelsBuilt :: nat
  poolsBuilt :: nat
  openTunnels :: "tunnel set"
  openPools :: "pool set"

definition closeTunnel :: "tunnel \<Rightarrow> resources \<Rightarrow> resources" where
  "closeTunnel t w = w\<lparr>openTunnels := openTunnels w - {t}\<rparr>"

definition closePool :: "pool \<Rightarrow> resources \<Rightarrow> resources" where
  "closePool p w = w\<lparr>openPools := openPools w - {p}\<rparr>"

text \<open>\<open>if sshTunnel != nil { sshTunnel.Close() }\<close>\<close>

definition closeIfTunnel :: "tunnel option \<Rightarrow> resources \<Rightarrow> resources" where
  "closeIfTunnel sshTunnel w = (case sshTunnel of None \<Rightarrow> w | Some t \<Rightarrow> closeTunnel t w)"

text \<open>\<open>net.JoinHostPort\<close>: a host with a colon is put in brackets.\<close>

definition JoinHostPort :: "string \<Rightarrow> string \<Rightarrow> string" where
  "JoinHostPort host port =
     (if CHR '':'' \<in> set host then ''['' @ host @ '']:'' @ port else host @ '':'' @ port)"

text \<open>\<open>NewSSHTunnel\<close>: \<open>createSSHConfig\<close> reads and parses the key, \<open>connect\<close> dials
  the server; a tunnel exists only when all three succeed.\<close>

definition NewSSHTunnel :: "network \<Rightarrow> resources \<Rightarrow> string \<Rightarrow> string \<Rightarrow> string \<Rightarrow> string \<Rightarrow>
    string \<Rightarrow> string \<Rightarrow> (string + tunnel) \<times> resources" where
  "NewSSHTunnel net w sshHost sshPort sshUser keyPath localAddr remoteAddr =
     (case ReadFile net keyPath of
        Inl err \<Rightarrow>
          (Inl (''failed to create SSH config: failed to read SSH key file: '' @ err), w)
      | Inr key \<Rightarrow>
          (case ParsePrivateKey net key of
             Some err \<Rightarrow>
               (Inl (''failed to create SSH config: failed to parse SSH private key: '' @ err), w)
           | None \<Rightarrow>
               (case Dial net (JoinHostPort sshHost sshPort) sshUser key of
                  Some err \<Rightarrow> (Inl (''failed to connect to SSH server: '' @ err), w)
                | None \<Rightarrow>
                    (Inr (tunnelsBuilt w),
                     w\<lparr>tunnelsBuilt := Suc (tunnelsBuilt w),
                       openTunnels := insert (tunnelsBuilt w) (openTunnels w)\<rparr>))))"

text \<open>The two caches of \<open>DatabaseConfigHandler\<close>, Go maps from user id, as association
  lists with one entry for a key.\<close>

type_synonym 'v gomap = "(string \<times> 'v) list"

definition mapStore :: "string \<Rightarrow> 'v \<Rightarrow> 'v gomap \<Rightarrow> 'v gomap" where
  "mapStore k v m = (k, v) # filter (\<lambda>e. fst e \<noteq> k) m"

definition mapDelete :: "string \<Rightarrow> 'v gomap \<Rightarrow> 'v gomap" where
  "mapDelete k m = filter (\<lambda>e. fst e \<noteq> k) m"

record DatabaseConfigHandler =
  userDBPools :: "pool gomap"
  userSSHTunnels :: "tunnel gomap"

text \<open>\<open>strings.Join\<close>\<close>

fun Join :: "string list \<Rightarrow> string \<Rightarrow> string" where
  "Join [] sep = []"
| "Join [x] sep = x"
| "Join (x # y # ys) sep = x @ sep @ Join (y # ys) sep"

definition joinParams :: "(string \<times> string) list \<Rightarrow> string" where
  "joinParams ps = Join (map (\<lambda>(key, value). key @ ''='' @ value) ps) ''&''"

text \<open>The part of \<open>createUserConnection\<close> after the \<open>switch\<close>: parse the URL, set the
  pool bounds, build the pool, ping it.\<close>

definition connectPool :: "network \<Rightarrow> resources \<Rightarrow> string \<Rightarrow> tunnel option \<Rightarrow>
    (string + pool \<times> tunnel option) \<times> resources" where
  "connectPool net w dbURL sshTunnel =
     (case ParseConfig net dbURL of
        Inl err \<Rightarrow> (Inl (''failed to parse database URL: '' @ err), closeIfTunnel sshTunnel w)
      | Inr parsed \<Rightarrow>
          (let poolConfig = parsed\<lparr>MaxConns := 10, MinConns := 2, MaxConnLifetime := 3600,
                                   MaxConnIdleTime := 900\<rparr>
           in case NewWithConfig net poolConfig of
                Some err \<Rightarrow>
                  (Inl (''failed to create connection pool: '' @ err), closeIfTunnel sshTunnel w)
              | None \<Rightarrow>
                  (let p = poolsBuilt w;
                       w1 = w\<lparr>poolsBuilt := Suc p, openPools := insert p (openPools w)\<rparr>
                   in case Ping net p of
                        Some err \<Rightarrow>
                          (Inl (''failed to ping database: '' @ err),
                           closeIfTunnel sshTunnel (closePool p w1))
                      | None \<Rightarrow> (Inr (p, sshTunnel), w1))))"

definition createUserConnection :: "network \<Rightarrow> DatabaseConfigHandler \<Rightarrow> resources \<Rightarrow> string \<Rightarrow>
    DatabaseConfig \<Rightarrow> (string + pool \<times> tunnel option) \<times> resources" where
  "createUserConnection net h w userID config =
     (if ConnectionType config = ''postgresql'' then
        connectPool net w (DatabaseURL config) None
      else if ConnectionType config = ''ssh'' then
        (case SSHConfig config of
           None \<Rightarrow> (Inl ''SSH configuration is required for SSH connection type'', w)
         | Some ssh \<Rightarrow>
             (let localPort = 15432 + int (length (userSSHTunnels h));
                  localAddr = ''localhost:'' @ formatInt localPort;
                  remoteAddr = ''localhost:5432''
              in case NewSSHTunnel net w (Host ssh) (Port ssh) (User ssh) (KeyPath ssh)
                        localAddr remoteAddr of
                   (Inl err, w1) \<Rightarrow> (Inl (''failed to create SSH tunnel: '' @ err), w1)
                 | (Inr sshTunnel, w1) \<Rightarrow>
                     (case ParseConfig net (DatabaseURL config) of
                        Inl err \<Rightarrow>
                          (Inl (''failed to parse original database URL: '' @ err),
                           closeTunnel sshTunnel w1)
                      | Inr poolConfig \<Rightarrow>
                          (let dbURL = ''postgresql://'' @ ConnUser poolConfig @ '':'' @
                                 ConnPassword poolConfig @ ''@localhost:'' @ formatInt localPort @
                                 ''/'' @ ConnDatabase poolConfig;
                               dbURL = (if length (RuntimeParams poolConfig) > 0
                                        then dbURL @ ''?'' @ joinParams (RuntimeParams poolConfig)
                                        else dbURL)
                           in connectPool net w1 dbURL (Some sshTunnel)))))
      else if ConnectionType config = ''wireguard'' then
        (case WireguardConfig config of
           None \<Rightarrow>
             (Inl ''WireGuard configuration is required for WireGuard connection type'', w)
         | Some wg \<Rightarrow>
             if InternalDBURL wg = [] then
               (Inl ''internal database URL is required for WireGuard connection'', w)
             else connectPool net w (InternalDBURL wg) None)
      else (Inl (''unsupported connection type: '' @ ConnectionType config), w))"

text \<open>The URL that the \<open>ssh\<close> case of \<open>createUserConnection\<close> builds for the pool
  behind the tunnel, from the parsed original URL and the local port.\<close>

definition tunnelURL :: "poolConfig \<Rightarrow> int \<Rightarrow> string" where
  "tunnelURL poolConfig localPort =
     (let dbURL = ''postgresql://'' @ ConnUser poolConfig @ '':'' @
            ConnPassword poolConfig @ ''@localhost:'' @ formatInt localPort @
            ''/'' @ ConnDatabase poolConfig
      in if length (RuntimeParams poolConfig) > 0
         then dbURL @ ''?'' @ joinParams (RuntimeParams poolConfig)
         else dbURL)"

text \<open>
  \<open>GetUserDatabaseConnection\<close>, run without interruption. \<open>getConfig\<close> is
  \<open>getUserDatabaseConfig\<close> on the application database as it is at the time of the call.
\<close>

definition GetUserDatabaseConnection :: "network \<Rightarrow> (string \<Rightarrow> string + DatabaseConfig) \<Rightarrow>
    DatabaseConfigHandler \<Rightarrow> resources \<Rightarrow> string \<Rightarrow>
    (string + pool) \<times> DatabaseConfigHandler \<times> resources" where
  "GetUserDatabaseConnection net getConfig h w userID =
     (case map_of (userDBPools h) userID of
        Some p \<Rightarrow> (Inr p, h, w)
      | None \<Rightarrow>
          (case getConfig userID of
             Inl err \<Rightarrow> (Inl (''failed to get user database config: '' @ err), h, w)
           | Inr config \<Rightarrow>
               (case createUserConnection net h w userID config of
                  (Inl err, w1) \<Rightarrow>
                    (Inl (''failed to create user database connection: '' @ err), h, w1)
                | (Inr (p, sshTunnel), w1) \<Rightarrow>
                    (Inr p,
                     h\<lparr>userDBPools := mapStore userID p (userDBPools h),
                       userSSHTunnels :=
                         (case sshTunnel of
                            None \<Rightarrow> userSSHTunnels h
                          | Some t \<Rightarrow> mapStore userID t (userSSHTunnels h))\<rparr>,
                     w1))))"

definition closeExistingUserConnection :: "DatabaseConfigHandler \<Rightarrow> resources \<Rightarrow> string \<Rightarrow>
    DatabaseConfigHandler \<times> resources" where
  "closeExistingUserConnection h w userID =
     (let (h1, w1) =
            (case map_of (userDBPools h) userID of
               Some p \<Rightarrow> (h\<lparr>userDBPools := mapDelete userID (userDBPools h)\<rparr>, closePool p w)
             | None \<Rightarrow> (h, w))
      in case map_of (userSSHTunnels h1) userID of
           Some t \<Rightarrow>
             (h1\<lparr>userSSHTunnels := mapDelete userID (userSSHTunnels h1)\<rparr>, closeTunnel t w1)
         | None \<Rightarrow> (h1, w1))"

text \<open>Names are given in the order of building, so whatever is open was built before.\<close>

definition fresh :: "resources \<Rightarrow> bool" where
  "fresh w = ((\<forall>p \<in> openPools w. p < poolsBuilt w) \<and> (\<forall>t \<in> openTunnels w. t < tunnelsBuilt w))"

subsection \<open>Calls that overlap\<close>

text \<open>
  \<open>GetUserDatabaseConnection\<close> holds the handler's lock twice: the read lock around the
  lookup, and the write lock around the two stores. Between them it loads the
  configuration and builds the connection with no lock held. A call in progress is
  therefore at one of these points: about to look up (\<open>Start\<close>), past a lookup that
  missed (\<open>Missed\<close>), holding a connection it built and has not stored
  (\<open>Built\<close>), or returned (\<open>Done\<close>). \<open>stepCall\<close> moves a call to its next point;
  whatever other calls do happens between two steps.
\<close>

datatype call =
    Start string
  | Missed string
  | Built string pool "tunnel option"
  | Done "string + pool"

fun stepCall :: "network \<Rightarrow> (string \<Rightarrow> string + DatabaseConfig) \<Rightarrow>
    DatabaseConfigHandler \<times> resources \<Rightarrow> call \<Rightarrow> (DatabaseConfigHandler \<times> resources) \<times> call" where
  "stepCall net getConfig (h, w) (Start userID) =
     (case map_of (userDBPools h) userID of
        Some p \<Rightarrow> ((h, w), Done (Inr p))
      | None \<Rightarrow> ((h, w), Missed userID))"
| "stepCall net getConfig (h, w) (Missed userID) =
     (case getConfig userID of
        Inl err \<Rightarrow> ((h, w), Done (Inl (''failed to get user database config: '' @ err)))
      | Inr config \<Rightarrow>
          (case createUserConnection net h w userID config of
             (Inl err, w1) \<Rightarrow>
               ((h, w1), Done (Inl (''failed to create user database connection: '' @ err)))
           | (Inr (p, sshTunnel), w1) \<Rightarrow> ((h, w1), Built userID p sshTunnel)))"
| "stepCall net getConfig (h, w) (Built userID p sshTunnel) =
     ((h\<lparr>userDBPools := mapStore userID p (userDBPools h),
         userSSHTunnels :=
           (case sshTunnel of
              None \<Rightarrow> userSSHTunnels h
            | Some t \<Rightarrow> mapStore userID t (userSSHTunnels h))\<rparr>, w),
      Done (Inr p))"
| "stepCall net getConfig (h, w) (Done r) = ((h, w), Done r)"

text \<open>A schedule names, step by step, the call that moves next.\<close>

fun runSchedule :: "network \<Rightarrow> (string \<Rightarrow> string + DatabaseConfig) \<Rightarrow> nat list \<Rightarrow>
    (DatabaseConfigHandler \<times> resources) \<times> call list \<Rightarrow>
    (DatabaseConfigHandler \<times> resources) \<times> call list" where
  "runSchedule net getConfig [] st = st"
| "runSchedule net getConfig (i # sched) (hw, calls) =
     (if i < length calls then
        (case stepCall net getConfig hw (calls ! i) of
           (hw1, c) \<Rightarrow> runSchedule net getConfig sched (hw1, calls[i := c]))
      else runSchedule net getConfig sched (hw, calls))"

text \<open>Calls made one after the other, each returning before the next starts.\<close>

fun callInTurn :: "network \<Rightarrow> (string \<Rightarrow> string + DatabaseConfig) \<Rightarrow> nat \<Rightarrow> string \<Rightarrow>
    DatabaseConfigHandler \<times> resources \<Rightarrow>
    (string + pool) list \<times> DatabaseConfigHandler \<times> resources" where
  "callInTurn net getConfig 0 userID (h, w) = ([], h, w)"
| "callInTurn net getConfig (Suc n) userID (h, w) =
     (case GetUserDatabaseConnection net getConfig h w userID of
        (r, h1, w1) \<Rightarrow>
          (case callInTurn net getConfig n userID (h1, w1) of
             (rs, h2, w2) \<Rightarrow> (r # rs, h2, w2)))"

subsection \<open>Example networks and configurations\<close>

definition defaultPoolConfig :: poolConfig where
  "defaultPoolConfig = \<lparr>ConnUser = ''app'', ConnPassword = ''pw'', ConnDatabase = ''db'',
     RuntimeParams = [], MaxConns = 4, MinConns = 0, MaxConnLifetime = 3600,
     MaxConnIdleTime = 1800\<rparr>"

definition goodNetwork :: network where
  "goodNetwork = \<lparr>ReadFile = (\<lambda>path. Inr ''key''), ParsePrivateKey = (\<lambda>key. None),
     Dial = (\<lambda>addr user key. None), ParseConfig = (\<lambda>url. Inr defaultPoolConfig),
     NewWithConfig = (\<lambda>cfg. None), Ping = (\<lambda>p. None)\<rparr>"

definition deafNetwork :: network where
  "deafNetwork = goodNetwork\<lparr>Ping := (\<lambda>p. Some ''connection refused'')\<rparr>"

definition unreachableNetwork :: network where
  "unreachableNetwork = goodNetwork\<lparr>Dial := (\<lambda>addr user key. Some ''i/o timeout'')\<rparr>"

definition fullNetwork :: network where
  "fullNetwork = goodNetwork\<lparr>NewWithConfig := (\<lambda>cfg. Some ''too many clients'')\<rparr>"

definition garbledNetwork :: network where
  "garbledNetwork = goodNetwork\<lparr>ParseConfig := (\<lambda>url. Inl ''invalid dsn'')\<rparr>"

definition sshConfigOf :: "string \<Rightarrow> string + DatabaseConfig" where
  "sshConfigOf userID = Inr \<lparr>ConnectionType = ''ssh'', DatabaseURL = ''postgresql://app:pw@db/db'',
     SSHConfig = Some \<lparr>Host = ''bastion'', Port = ''22'', User = ''ops'', KeyPath = ''/keys/id''\<rparr>,
     WireguardConfig = None\<rparr>"

definition coldHandler :: DatabaseConfigHandler where
  "coldHandler = \<lparr>userDBPools = [], userSSHTunnels = []\<rparr>"

definition noResources :: resources where
  "noResources = \<lparr>tunnelsBuilt = 0, poolsBuilt = 0, openTunnels = {}, openPools = {}\<rparr>"

section \<open>ConfigStore (handlers/database\_config.go)\<close>

text \<open>
  The application database, as far as the configuration handlers read or write it: the
  table \<open>users\<close> and the three configuration tables, each with at most one row for a
  user id (\<open>user_id\<close> is unique in all four). The columns \<open>is_active\<close> and
  \<open>database_url_encrypted\<close> exist in several tables and carry the table in front here.
\<close>

record userRow =
  email :: string
  role :: string
  has_database_url_config :: bool
  has_ssh_config :: bool
  has_wireguard_config :: bool
  active_connection_type :: "string option"
  total_connections :: int

record databaseConfigRow =
  db_database_url_encrypted :: string
  db_is_active :: bool

record sshConfigRow =
  host_encrypted :: string
  port :: int
  username_encrypted :: string
  key_path_encrypted :: string
  ssh_database_url_encrypted :: string
  ssh_is_active :: bool
  tunnel_status :: string

record wireguardConfigRow =
  config_content_encrypted :: string
  internal_db_url_encrypted :: string
  wg_is_active :: bool
  vpn_status :: string

record appdb =
  users :: "string \<rightharpoonup> userRow"
  database_configs :: "string \<rightharpoonup> databaseConfigRow"
  ssh_configs :: "string \<rightharpoonup> sshConfigRow"
  wireguard_configs :: "string \<rightharpoonup> wireguardConfigRow"

text \<open>
  What the database server adds: \<open>fault\<close> names the statements of a transaction that fail
  (by the labels used below) with their error text, and \<open>int4in\<close> is the server's reading
  of a text parameter for the integer column \<open>port\<close>.
\<close>

record server =
  fault :: "string \<Rightarrow> string option"
  int4in :: "string \<Rightarrow> int option"

subsection \<open>Reading the active configuration\<close>

definition loadDatabaseConfig :: "crypto \<Rightarrow> ConfigEncryption \<Rightarrow> appdb \<Rightarrow> string \<Rightarrow>
    string + DatabaseConfig" where
  "loadDatabaseConfig cr ce db userID =
     (case database_configs db userID of
        None \<Rightarrow> Inl ''database configuration not found: no rows in result set''
      | Some row \<Rightarrow>
          if \<not> db_is_active row
          then Inl ''database configuration not found: no rows in result set''
          else
            (case DecryptConfig cr ce userID ''postgresql'' (db_database_url_encrypted row) of
               Inl err \<Rightarrow> Inl (''failed to decrypt database URL: '' @ err)
             | Inr decryptedURL \<Rightarrow>
                 Inr \<lparr>ConnectionType = ''postgresql'', DatabaseURL = decryptedURL,
                      SSHConfig = None, WireguardConfig = None\<rparr>))"

definition loadSSHConfig :: "crypto \<Rightarrow> ConfigEncryption \<Rightarrow> appdb \<Rightarrow> string \<Rightarrow>
    string + DatabaseConfig" where
  "loadSSHConfig cr ce db userID =
     (case ssh_configs db userID of
        None \<Rightarrow> Inl ''SSH configuration not found: no rows in result set''
      | Some row \<Rightarrow>
          if \<not> ssh_is_active row then Inl ''SSH configuration not found: no rows in result set''
          else
            (case DecryptConfig cr ce userID ''ssh'' (host_encrypted row) of
               Inl err \<Rightarrow> Inl (''failed to decrypt SSH host: '' @ err)
             | Inr decryptedHost \<Rightarrow>
            (case DecryptConfig cr ce userID ''ssh'' (username_encrypted row) of
               Inl err \<Rightarrow> Inl (''failed to decrypt SSH username: '' @ err)
             | Inr decryptedUsername \<Rightarrow>
            (case DecryptConfig cr ce userID ''ssh'' (key_path_encrypted row) of
               Inl err \<Rightarrow> Inl (''failed to decrypt SSH key path: '' @ err)
             | Inr decryptedKeyPath \<Rightarrow>
            (case DecryptConfig cr ce userID ''ssh'' (ssh_database_url_encrypted row) of
               Inl err \<Rightarrow> Inl (''failed to decrypt SSH database URL: '' @ err)
             | Inr decryptedDBURL \<Rightarrow>
                 Inr \<lparr>ConnectionType = ''ssh'', DatabaseURL = decryptedDBURL,
                      SSHConfig = Some \<lparr>Host = decryptedHost, Port = formatInt (port row),
                                        User = decryptedUsername, KeyPath = decryptedKeyPath\<rparr>,
                      WireguardConfig = None\<rparr>)))))"

definition loadWireguardConfig :: "crypto \<Rightarrow> ConfigEncryption \<Rightarrow> appdb \<Rightarrow> string \<Rightarrow>
    string + DatabaseConfig" where
  "loadWireguardConfig cr ce db userID =
     (case wireguard_configs db userID of
        None \<Rightarrow> Inl ''WireGuard configuration not found: no rows in result set''
      | Some row \<Rightarrow>
          if \<not> wg_is_active row
          then Inl ''WireGuard configuration not found: no rows in result set''
          else
            (case DecryptConfig cr ce userID ''wireguard'' (config_content_encrypted row) of
               Inl err \<Rightarrow> Inl (''failed to decrypt WireGuard config: '' @ err)
             | Inr decryptedConfig \<Rightarrow>
            (case DecryptConfig cr ce userID ''wireguard'' (internal_db_url_encrypted row) of
               Inl err \<Rightarrow> Inl (''failed to decrypt WireGuard internal DB URL: '' @ err)
             | Inr decryptedDBURL \<Rightarrow>
                 Inr \<lparr>ConnectionType = ''wireguard'', DatabaseURL = [],
                      SSHConfig = None,
                      WireguardConfig = Some \<lparr>Config = decryptedConfig,
                                               InternalDBURL = decryptedDBURL\<rparr>\<rparr>)))"

text \<open>
  \<open>getUserDatabaseConfig\<close> asks the database twice, outside any transaction: first for
  \<open>active_connection_type\<close> of the user, then for the row of that type. Each statement sees
  the database as committed when it runs, so the two may see different states when a
  transaction commits between them: \<open>db1\<close> is what the first sees and \<open>db2\<close> what the
  second sees. A \<open>NULL\<close> type does not scan into a \<open>string\<close>, which is the first error.
\<close>

definition getUserDatabaseConfigAcross :: "crypto \<Rightarrow> ConfigEncryption \<Rightarrow> appdb \<Rightarrow> appdb \<Rightarrow>
    string \<Rightarrow> string + DatabaseConfig" where
  "getUserDatabaseConfigAcross cr ce db1 db2 userID =
     (case Option.bind (users db1 userID) active_connection_type of
        None \<Rightarrow> Inl (''user configuration not found for user '' @ userID)
      | Some activeConnectionType \<Rightarrow>
          if activeConnectionType = []
          then Inl (''no active connection configured for user '' @ userID)
          else if activeConnectionType = ''postgresql'' then loadDatabaseConfig cr ce db2 userID
          else if activeConnectionType = ''ssh'' then loadSSHConfig cr ce db2 userID
          else if activeConnectionType = ''wireguard'' then loadWireguardConfig cr ce db2 userID
          else Inl (''unknown connection type: '' @ activeConnectionType))"

text \<open>With nothing committed in between, both statements see the same state.\<close>

definition getUserDatabaseConfig :: "crypto \<Rightarrow> ConfigEncryption \<Rightarrow> appdb \<Rightarrow> string \<Rightarrow>
    string + DatabaseConfig" where
  "getUserDatabaseConfig cr ce db userID = getUserDatabaseConfigAcross cr ce db db userID"

subsection \<open>Saving a configuration\<close>

definition ensureUserExists :: "server \<Rightarrow> appdb \<Rightarrow> string \<Rightarrow> string \<Rightarrow> string + appdb" where
  "ensureUserExists srv db userID userEmail =
     (case fault srv ''select exists'' of
        Some err \<Rightarrow> Inl (''failed to check user existence: '' @ err)
      | None \<Rightarrow>
          (case users db userID of
             Some row \<Rightarrow> Inr db
           | None \<Rightarrow>
               (case fault srv ''insert user'' of
                  Some err \<Rightarrow> Inl (''failed to create user record: '' @ err)
                | None \<Rightarrow>
                    Inr (db\<lparr>users := (users db)(userID \<mapsto>
                           \<lparr>email = userEmail, role = ''user'', has_database_url_config = False,
                            has_ssh_config = False, has_wireguard_config = False,
                            active_connection_type = None, total_connections = 0\<rparr>)\<rparr>))))"

text \<open>The three \<open>save...\<close> functions encrypt field by field, each call drawing its nonce
  from the entropy source, and then insert the row or replace it.\<close>

definition saveDatabaseConfig :: "crypto \<Rightarrow> ConfigEncryption \<Rightarrow> server \<Rightarrow> string \<Rightarrow> appdb \<Rightarrow>
    string \<Rightarrow> DatabaseConfig \<Rightarrow> (string + appdb) \<times> string" where
  "saveDatabaseConfig cr ce srv rnd db userID config =
     (case EncryptConfig cr ce rnd userID ''postgresql'' (DatabaseURL config) of
        (Inl err, rnd1) \<Rightarrow> (Inl (''failed to encrypt database URL: '' @ err), rnd1)
      | (Inr encryptedURL, rnd1) \<Rightarrow>
          (case fault srv ''upsert database_configs'' of
             Some err \<Rightarrow> (Inl err, rnd1)
           | None \<Rightarrow>
               (Inr (db\<lparr>database_configs := (database_configs db)(userID \<mapsto>
                       \<lparr>db_database_url_encrypted = encryptedURL, db_is_active = True\<rparr>)\<rparr>),
                rnd1)))"

definition saveSSHConfig :: "crypto \<Rightarrow> ConfigEncryption \<Rightarrow> server \<Rightarrow> string \<Rightarrow> appdb \<Rightarrow>
    string \<Rightarrow> DatabaseConfig \<Rightarrow> SSHConfig \<Rightarrow> (string + appdb) \<times> string" where
  "saveSSHConfig cr ce srv rnd db userID config ssh =
     (case EncryptConfig cr ce rnd userID ''ssh'' (Host ssh) of
        (Inl err, rnd1) \<Rightarrow> (Inl (''failed to encrypt SSH host: '' @ err), rnd1)
      | (Inr encryptedHost, rnd1) \<Rightarrow>
     (case EncryptConfig cr ce rnd1 userID ''ssh'' (User ssh) of
        (Inl err, rnd2) \<Rightarrow> (Inl (''failed to encrypt SSH username: '' @ err), rnd2)
      | (Inr encryptedUsername, rnd2) \<Rightarrow>
     (case EncryptConfig cr ce rnd2 userID ''ssh'' (KeyPath ssh) of
        (Inl err, rnd3) \<Rightarrow> (Inl (''failed to encrypt SSH key path: '' @ err), rnd3)
      | (Inr encryptedKeyPath, rnd3) \<Rightarrow>
     (case EncryptConfig cr ce rnd3 userID ''ssh'' (DatabaseURL config) of
        (Inl err, rnd4) \<Rightarrow> (Inl (''failed to encrypt SSH database URL: '' @ err), rnd4)
      | (Inr encryptedDBURL, rnd4) \<Rightarrow>
          (case fault srv ''upsert ssh_configs'' of
             Some err \<Rightarrow> (Inl err, rnd4)
           | None \<Rightarrow>
               (case int4in srv (Port ssh) of
                  None \<Rightarrow> (Inl ''invalid input syntax for type integer'', rnd4)
                | Some portNumber \<Rightarrow>
                    (Inr (db\<lparr>ssh_configs := (ssh_configs db)(userID \<mapsto>
                            \<lparr>host_encrypted = encryptedHost, port = portNumber,
                             username_encrypted = encryptedUsername,
                             key_path_encrypted = encryptedKeyPath,
                             ssh_database_url_encrypted = encryptedDBURL,
                             ssh_is_active = True, tunnel_status = ''disconnected''\<rparr>)\<rparr>),
                     rnd4)))))))"

definition saveWireguardConfig :: "crypto \<Rightarrow> ConfigEncryption \<Rightarrow> server \<Rightarrow> string \<Rightarrow> appdb \<Rightarrow>
    string \<Rightarrow> WireguardConfig \<Rightarrow> (string + appdb) \<times> string" where
  "saveWireguardConfig cr ce srv rnd db userID wg =
     (case EncryptConfig cr ce rnd userID ''wireguard'' (Config wg) of
        (Inl err, rnd1) \<Rightarrow> (Inl (''failed to encrypt WireGuard config: '' @ err), rnd1)
      | (Inr encryptedConfig, rnd1) \<Rightarrow>
     (case EncryptConfig cr ce rnd1 userID ''wireguard'' (InternalDBURL wg) of
        (Inl err, rnd2) \<Rightarrow> (Inl (''failed to encrypt WireGuard internal DB URL: '' @ err), rnd2)
      | (Inr encryptedDBURL, rnd2) \<Rightarrow>
          (case fault srv ''upsert wireguard_configs'' of
             Some err \<Rightarrow> (Inl err, rnd2)
           | None \<Rightarrow>
               (Inr (db\<lparr>wireguard_configs := (wireguard_configs db)(userID \<mapsto>
                       \<lparr>config_content_encrypted = encryptedConfig,
                        internal_db_url_encrypted = encryptedDBURL,
                        wg_is_active = True, vpn_status = ''disconnected''\<rparr>)\<rparr>),
                rnd2))))"

text \<open>\<open>updateUserConnectionFlags\<close>: one \<open>UPDATE\<close> of the user's row (of no row, if there
  is none); \<open>total_connections\<close> is an \<open>integer\<close> column, so the server refuses the
  increment past its largest value.\<close>

definition updateUserConnectionFlags :: "server \<Rightarrow> appdb \<Rightarrow> string \<Rightarrow> string \<Rightarrow> string + appdb" where
  "updateUserConnectionFlags srv db userID connectionType =
     (if connectionType \<noteq> ''postgresql'' \<and> connectionType \<noteq> ''ssh'' \<and>
         connectionType \<noteq> ''wireguard''
      then Inl (''unknown connection type: '' @ connectionType)
      else case fault srv ''update users'' of
        Some err \<Rightarrow> Inl err
      | None \<Rightarrow>
          (case users db userID of
             None \<Rightarrow> Inr db
           | Some row \<Rightarrow>
               if total_connections row + 1 > 2147483647 then Inl ''integer out of range''
               else
                 (let flagged =
                        (if connectionType = ''postgresql''
                         then row\<lparr>has_database_url_config := True\<rparr>
                         else if connectionType = ''ssh'' then row\<lparr>has_ssh_config := True\<rparr>
                         else row\<lparr>has_wireguard_config := True\<rparr>)
                  in Inr (db\<lparr>users := (users db)(userID \<mapsto>
                            flagged\<lparr>active_connection_type := Some connectionType,
                                    total_connections := total_connections row + 1\<rparr>)\<rparr>))))"

text \<open>
  The \<open>switch\<close> of \<open>CreateDatabaseConfig\<close> that saves to the table of the connection
  type. It has no default case: for any other type nothing is saved and no error is set.
  The SSH and WireGuard cases read through \<open>config.SSHConfig\<close> and
  \<open>config.WireguardConfig\<close>, which the validation has found not to be \<open>nil\<close>; on
  \<open>nil\<close> the handler panics.
\<close>

definition saveByType :: "crypto \<Rightarrow> ConfigEncryption \<Rightarrow> server \<Rightarrow> string \<Rightarrow> appdb \<Rightarrow>
    string \<Rightarrow> DatabaseConfig \<Rightarrow> (string + appdb) \<times> string" where
  "saveByType cr ce srv rnd db userID config =
     (if ConnectionType config = ''postgresql''
      then saveDatabaseConfig cr ce srv rnd db userID config
      else if ConnectionType config = ''ssh'' then
        (case SSHConfig config of
           None \<Rightarrow> (Inl ''panic: nil pointer dereference'', rnd)
         | Some ssh \<Rightarrow> saveSSHConfig cr ce srv rnd db userID config ssh)
      else if ConnectionType config = ''wireguard'' then
        (case WireguardConfig config of
           None \<Rightarrow> (Inl ''panic: nil pointer dereference'', rnd)
         | Some wg \<Rightarrow> saveWireguardConfig cr ce srv rnd db userID wg)
      else (Inr db, rnd))"

text \<open>
  A transaction on the application database. \<open>Begin\<close> opens it on the committed
  database; from then on the statements of the transaction read and write its own view,
  which no other session sees. \<open>Commit\<close> makes the view the committed database;
  \<open>Rollback\<close> drops the view and leaves the committed database as it is.
\<close>

definition Begin :: "server \<Rightarrow> appdb \<Rightarrow> string + appdb" where
  "Begin srv committed = (case fault srv ''begin'' of Some err \<Rightarrow> Inl err | None \<Rightarrow> Inr committed)"

definition Commit :: "server \<Rightarrow> appdb \<Rightarrow> appdb \<Rightarrow> string option \<times> appdb" where
  "Commit srv committed tx =
     (case fault srv ''commit'' of Some err \<Rightarrow> (Some err, committed) | None \<Rightarrow> (None, tx))"

definition Rollback :: "appdb \<Rightarrow> appdb \<Rightarrow> appdb" where
  "Rollback committed tx = committed"

text \<open>
  The transaction of \<open>CreateDatabaseConfig\<close>, from \<open>Begin\<close> to \<open>Commit\<close>. The result is
  the status, error and message of the statement that failed, if one did, and the
  committed database at the return of the handler, that is, after the deferred
  \<open>Rollback\<close> has run on every return that follows \<open>Begin\<close> (after a \<open>Commit\<close> it finds
  the transaction closed and does nothing).
\<close>

definition saveTransaction :: "crypto \<Rightarrow> ConfigEncryption \<Rightarrow> server \<Rightarrow> string \<Rightarrow> appdb \<Rightarrow>
    string \<Rightarrow> string \<Rightarrow> DatabaseConfig \<Rightarrow> ((nat \<times> string \<times> string) option \<times> appdb) \<times> string" where
  "saveTransaction cr ce srv rnd db userID userEmail config =
     (case Begin srv db of
        Inl err \<Rightarrow> ((Some (500, err, ''Failed to start transaction''), db), rnd)
      | Inr tx \<Rightarrow>
     (case ensureUserExists srv tx userID userEmail of
        Inl err \<Rightarrow> ((Some (500, err, ''Failed to create user record''), Rollback db tx), rnd)
      | Inr tx1 \<Rightarrow>
     (case saveByType cr ce srv rnd tx1 userID config of
        (Inl err, rnd1) \<Rightarrow>
          ((Some (500, err, ''Failed to save database configuration''), Rollback db tx1), rnd1)
      | (Inr tx2, rnd1) \<Rightarrow>
     (case updateUserConnectionFlags srv tx2 userID (ConnectionType config) of
        Inl err \<Rightarrow>
          ((Some (500, err, ''Failed to update user configuration''), Rollback db tx2), rnd1)
      | Inr tx3 \<Rightarrow>
     (case Commit srv db tx3 of
        (Some err, db') \<Rightarrow> ((Some (500, err, ''Failed to commit configuration''), db'), rnd1)
      | (None, db') \<Rightarrow> ((None, db'), rnd1))))))"

text \<open>The checks of \<open>CreateDatabaseConfig\<close> on the decoded request.\<close>

definition validateConfig :: "DatabaseConfig \<Rightarrow> (nat \<times> string \<times> string) option" where
  "validateConfig config =
     (if ConnectionType config = [] then
        Some (400, ''missing required fields'', ''connection_type is required'')
      else if ConnectionType config = ''postgresql'' then
        (if DatabaseURL config = [] then
           Some (400, ''missing required fields'',
                 ''database_url is required for PostgreSQL connection'')
         else None)
      else if ConnectionType config = ''ssh'' then
        (if DatabaseURL config = [] \<or> SSHConfig config = None then
           Some (400, ''missing required fields'',
                 ''database_url and ssh_config are required for SSH connection'')
         else None)
      else if ConnectionType config = ''wireguard'' then
        (case WireguardConfig config of
           None \<Rightarrow>
             Some (400, ''missing required fields'',
                   ''wireguard_config with internal_db_url is required for WireGuard connection'')
         | Some wg \<Rightarrow>
             if InternalDBURL wg = [] then
               Some (400, ''missing required fields'',
                     ''wireguard_config with internal_db_url is required for WireGuard connection'')
             else None)
      else Some (400, ''invalid connection type'',
                 ''supported connection types: postgresql, ssh, wireguard''))"

datatype config_response =
    ConfigError nat string string
  | ConfigSaved nat string

text \<open>The whole state \<open>CreateDatabaseConfig\<close> works on: the application database, the
  broker's caches, the tunnels and pools, and the entropy source.\<close>

record system =
  appDB :: appdb
  handler :: DatabaseConfigHandler
  res :: resources
  entropy :: string

definition CreateDatabaseConfig :: "crypto \<Rightarrow> ConfigEncryption \<Rightarrow> server \<Rightarrow> system \<Rightarrow>
    UserClaims option \<Rightarrow> string \<Rightarrow> string + DatabaseConfig \<Rightarrow> config_response \<times> system" where
  "CreateDatabaseConfig cr ce srv sys claims userID body =
     (case claims of
        None \<Rightarrow>
          (ConfigError 403 ''access denied'' ''You can only configure your own database'', sys)
      | Some c \<Rightarrow>
          if UserID c \<noteq> userID \<and> Role c \<noteq> ''admin'' then
            (ConfigError 403 ''access denied'' ''You can only configure your own database'', sys)
          else
            (case body of
               Inl err \<Rightarrow> (ConfigError 400 err ''Invalid request body'', sys)
             | Inr config \<Rightarrow>
                 (case validateConfig config of
                    Some (code, err, msg) \<Rightarrow> (ConfigError code err msg, sys)
                  | None \<Rightarrow>
                      (case saveTransaction cr ce srv (entropy sys) (appDB sys) userID (Email c)
                              config of
                         ((Some (code, err, msg), db1), rnd1) \<Rightarrow>
                           (ConfigError code err msg, sys\<lparr>appDB := db1, entropy := rnd1\<rparr>)
                       | ((None, db1), rnd1) \<Rightarrow>
                           (case closeExistingUserConnection (handler sys) (res sys) userID of
                              (h1, w1) \<Rightarrow>
                                (ConfigSaved 200 (ConnectionType config),
                                 sys\<lparr>appDB := db1, handler := h1, res := w1,
                                     entropy := rnd1\<rparr>))))))"

subsection \<open>Example databases and requests\<close>

definition plainServer :: server where
  "plainServer = \<lparr>fault = (\<lambda>statement. None),
                  int4in = (\<lambda>s. if s = ''22'' then Some 22 else None)\<rparr>"

text \<open>A server on which every statement goes through and the commit is refused.\<close>

definition refusingServer :: server where
  "refusingServer = plainServer\<lparr>fault := (\<lambda>statement.
     if statement = ''commit'' then Some ''could not serialize access'' else None)\<rparr>"

definition emptyDB :: appdb where
  "emptyDB = \<lparr>users = Map.empty, database_configs = Map.empty, ssh_configs = Map.empty,
              wireguard_configs = Map.empty\<rparr>"

definition startSystem :: system where
  "startSystem = \<lparr>appDB = emptyDB, handler = coldHandler, res = noResources,
                  entropy = toyEntropy @ toyEntropy\<rparr>"

definition directRequest :: DatabaseConfig where
  "directRequest = \<lparr>ConnectionType = ''postgresql'', DatabaseURL = ''pg://a'',
                    SSHConfig = None, WireguardConfig = None\<rparr>"

definition sshRequest :: DatabaseConfig where
  "sshRequest = \<lparr>ConnectionType = ''ssh'', DatabaseURL = ''pg://b'',
     SSHConfig = Some \<lparr>Host = ''h'', Port = ''22'', User = ''u'', KeyPath = ''k''\<rparr>,
     WireguardConfig = None\<rparr>"

text \<open>The system after user \<open>u1\<close> saved a direct configuration and then an SSH one.\<close>

definition afterDirect :: system where
  "afterDirect =
     snd (CreateDatabaseConfig toyCrypto toyService plainServer startSystem demoClaims ''u1''
            (Inr directRequest))"

definition afterSwitch :: system where
  "afterSwitch =
     snd (CreateDatabaseConfig toyCrypto toyService plainServer afterDirect demoClaims ''u1''
            (Inr sshRequest))"

section \<open>Properties of the query executor\<close>

lemma HasPrefix_iff: "HasPrefix s p \<longleftrightarrow> (\<exists>post. s = p @ post)"
proof
  assume "HasPrefix s p"
  then have "s = p @ drop (length p) s"
    by (metis HasPrefix_def append_take_drop_id)
  then show "\<exists>post. s = p @ post" ..
next
  assume "\<exists>post. s = p @ post"
  then show "HasPrefix s p" by (auto simp: HasPrefix_def)
qed

lemma Contains_iff: "Contains s sub \<longleftrightarrow> (\<exists>pre post. s = pre @ sub @ post)"
proof (induction s)
  case Nil
  show ?case by auto
next
  case (Cons c cs)
  show ?case
  proof
    assume "Contains (c # cs) sub"
    then consider "HasPrefix (c # cs) sub" | "Contains cs sub" by auto
    then show "\<exists>pre post. c # cs = pre @ sub @ post"
    proof cases
      case 1
      then obtain post where "c # cs = sub @ post" by (auto simp: HasPrefix_iff)
      then have "c # cs = [] @ sub @ post" by simp
      then show ?thesis by blast
    next
      case 2
      then obtain pre post where "cs = pre @ sub @ post" using Cons.IH by auto
      then have "c # cs = (c # pre) @ sub @ post" by simp
      then show ?thesis by blast
    qed
  next
    assume "\<exists>pre post. c # cs = pre @ sub @ post"
    then obtain pre post where eq: "c # cs = pre @ sub @ post" by auto
    show "Contains (c # cs) sub"
    proof (cases pre)
      case Nil
      with eq have "HasPrefix (c # cs) sub" by (auto simp: HasPrefix_iff)
      then show ?thesis by simp
    next
      case (Cons a pre')
      with eq have "cs = pre' @ sub @ post" by simp
      then have "Contains cs sub" using Cons.IH by blast
      then show ?thesis by simp
    qed
  qed
qed

lemma containsAny_iff: "containsAny s ks \<longleftrightarrow> (\<exists>k \<in> set ks. Contains s k)"
  by (induction ks) auto

lemma scanRows_elems:
  "scanRows um ex items data plan = Inr (data', plan') \<Longrightarrow>
   elems data' = elems data @ map projr items \<and> list_all (\<lambda>r. \<not> isl r) items"
proof (induction items arbitrary: data plan)
  case Nil
  then show ?case by simp
next
  case (Cons it items)
  show ?case
  proof (cases it)
    case (Inl e)
    with Cons.prems show ?thesis by simp
  next
    case (Inr vals)
    with Cons.prems Cons.IH show ?thesis
      by (fastforce simp: append_slice_def)
  qed
qed

text \<open>
  Claim C10. Whenever \<open>parseQueryResult\<close> succeeds, \<open>RowCount\<close> is the length of
  \<open>Rows\<close>, and \<open>Rows\<close> holds exactly the rows the cursor delivered, in order. The
  count of the command tag (rows affected or matched in the database) plays no part: the
  result is the same whatever that count is.
\<close>

theorem rowcount_is_fetched_rows:
  "parseQueryResult unmarshal rows isExplain = Inr result \<Longrightarrow>
     RowCount result = int (len (Rows result)) \<and>
     elems (Rows result) = map projr (Fetched rows) \<and>
     parseQueryResult unmarshal (rows\<lparr>RowsAffected := k\<rparr>) isExplain = Inr result"
proof -
  assume h: "parseQueryResult unmarshal rows isExplain = Inr result"
  then obtain data plan where
    s: "scanRows unmarshal isExplain (Fetched rows) NilSlice NilSlice = Inr (data, plan)" and
    e: "Err rows = None" and
    r: "result = \<lparr>Columns = FieldDescriptions rows, Rows = data, RowCount = int (len data),
                   ExplainPlanResult = plan\<rparr>"
    by (auto simp: parseQueryResult_def split: sum.splits option.splits)
  from scanRows_elems [OF s] have "elems data = map projr (Fetched rows)" by simp
  moreover have "parseQueryResult unmarshal (rows\<lparr>RowsAffected := k\<rparr>) isExplain = Inr result"
    using s e r by (simp add: parseQueryResult_def)
  ultimately show ?thesis using r by simp
qed

text \<open>A cursor that delivers two rows while its command tag says 7.\<close>

theorem rowcount_is_fetched_rows_witness:
  "parseQueryResult noPlan demoRows False =
     Inr \<lparr>Columns = [''id''], Rows = Slice [[PgInt 1], [PgInt 2]], RowCount = 2, ExplainPlanResult = NilSlice\<rparr>
   \<and> RowsAffected demoRows = 7"
proof -
  have h: "parseQueryResult noPlan demoRows False =
     Inr \<lparr>Columns = [''id''], Rows = Slice [[PgInt 1], [PgInt 2]], RowCount = 2, ExplainPlanResult = NilSlice\<rparr>"
    by (simp add: parseQueryResult_def demoRows_def append_slice_def)
  from rowcount_is_fetched_rows [OF h, of 0] show ?thesis using h by (simp add: demoRows_def)
qed

lemma dangerous_nonempty: "k \<in> set dangerous \<Longrightarrow> k \<noteq> []"
  by (auto simp: dangerous_def)

lemma isDangerousQuery_iff:
  "isDangerousQuery uc sql \<longleftrightarrow> (\<exists>k \<in> set dangerous. \<exists>pre post. ToUpper uc (TrimSpace uc sql) = pre @ k @ post)"
  by (simp add: isDangerousQuery_def containsAny_iff Contains_iff)

lemma ToUpper_TrimSpace_Nil: "ToUpper uc (TrimSpace uc []) = []"
  by (simp add: TrimSpace_def ToUpper_def)

lemma isDangerousQuery_nonempty: "isDangerousQuery uc sql \<Longrightarrow> sql \<noteq> []"
  by (auto simp: isDangerousQuery_iff ToUpper_TrimSpace_Nil dest: dangerous_nonempty)

lemma dangerous_keyword: "k \<in> set dangerous \<Longrightarrow> \<exists>blank. k = TrimSpace uc k @ blank"
  by (auto simp: dangerous_def TrimSpace_def asciiSpace_def RuneSelf_def)

text \<open>
  Claim C1, as the code has it. The denylist entries carry a trailing blank
  (\<open>"DROP "\<close>, \<open>"DELETE "\<close>, ...), except \<open>"CREATE USER"\<close> and \<open>"DROP USER"\<close>.
  For an authorised caller and a decoded request: if the trimmed, upper-cased SQL contains
  one of these entries, \<open>ExecuteQuery\<close> answers 400 "dangerous query detected" and has
  made no outside call at all; if it contains none of the keywords (the entries without
  their blank), the answer is not that rejection, and for a non-empty SQL text the first
  outside call is \<open>GetUserDatabaseConnection\<close>.
\<close>

theorem isDangerousQuery_gate:
  assumes "\<not> accessDenied claims userID" and "body = Inr req"
  shows "((\<exists>k \<in> set dangerous. \<exists>pre post. ToUpper uc (TrimSpace uc (SQL req)) = pre @ k @ post) \<longrightarrow>
            ExecuteQuery uc getConn query unmarshal claims userID body = (dangerousRejection, []))
       \<and> ((\<forall>k \<in> set dangerous. \<forall>pre post.
               ToUpper uc (TrimSpace uc (SQL req)) \<noteq> pre @ TrimSpace uc k @ post) \<longrightarrow>
            fst (ExecuteQuery uc getConn query unmarshal claims userID body) \<noteq> dangerousRejection
            \<and> (SQL req \<noteq> [] \<longrightarrow>
                 take 1 (snd (ExecuteQuery uc getConn query unmarshal claims userID body)) =
                   [GetConnection userID]))"
proof (intro conjI impI)
  assume "\<exists>k \<in> set dangerous. \<exists>pre post. ToUpper uc (TrimSpace uc (SQL req)) = pre @ k @ post"
  then have d: "isDangerousQuery uc (SQL req)" by (simp add: isDangerousQuery_iff)
  then have "SQL req \<noteq> []" by (rule isDangerousQuery_nonempty)
  with d assms show "ExecuteQuery uc getConn query unmarshal claims userID body = (dangerousRejection, [])"
    by (simp add: ExecuteQuery_def)
next
  assume none: "\<forall>k \<in> set dangerous. \<forall>pre post.
                  ToUpper uc (TrimSpace uc (SQL req)) \<noteq> pre @ TrimSpace uc k @ post"
  have d: "\<not> isDangerousQuery uc (SQL req)"
  proof
    assume "isDangerousQuery uc (SQL req)"
    then obtain k pre post where k: "k \<in> set dangerous"
      and u: "ToUpper uc (TrimSpace uc (SQL req)) = pre @ k @ post"
      by (auto simp: isDangerousQuery_iff)
    from dangerous_keyword [OF k] obtain blank where "k = TrimSpace uc k @ blank" ..
    with u have "ToUpper uc (TrimSpace uc (SQL req)) = pre @ TrimSpace uc k @ (blank @ post)"
      by (metis append.assoc)
    with none k show False by blast
  qed
  with assms show "fst (ExecuteQuery uc getConn query unmarshal claims userID body) \<noteq> dangerousRejection"
    by (auto simp: ExecuteQuery_def dangerousRejection_def Let_def split: sum.splits prod.splits)
  assume "SQL req \<noteq> []"
  with d assms show "take 1 (snd (ExecuteQuery uc getConn query unmarshal claims userID body)) = [GetConnection userID]"
    by (auto simp: ExecuteQuery_def Let_def split: sum.splits prod.splits)
qed

lemma demo_access: "\<not> accessDenied demoClaims ''u1''"
  by (simp add: accessDenied_def demoClaims_def)

text \<open>One request of each kind.\<close>

theorem isDangerousQuery_gate_witness:
  "ExecuteQuery demoUnicode demoBroker demoQuery noPlan demoClaims ''u1'' (Inr (demoRequest ''drop table t'' False 0))
     = (dangerousRejection, [])
   \<and> take 1 (snd (ExecuteQuery demoUnicode demoBroker demoQuery noPlan demoClaims ''u1''
         (Inr (demoRequest ''select 1'' False 0)))) = [GetConnection ''u1'']"
proof -
  have d: "isDangerousQuery demoUnicode (SQL (demoRequest ''drop table t'' False 0))"
    by code_simp
  have "\<forall>k \<in> set dangerous.
          \<not> Contains (ToUpper demoUnicode (TrimSpace demoUnicode (SQL (demoRequest ''select 1'' False 0)))) (TrimSpace demoUnicode k)"
    by code_simp
  then have n: "\<forall>k \<in> set dangerous. \<forall>pre post.
          ToUpper demoUnicode (TrimSpace demoUnicode (SQL (demoRequest ''select 1'' False 0))) \<noteq> pre @ TrimSpace demoUnicode k @ post"
    by (simp add: Contains_iff)
  have ne: "SQL (demoRequest ''select 1'' False 0) \<noteq> []"
    by (simp add: demoRequest_def)
  from isDangerousQuery_gate [where req = "demoRequest ''drop table t'' False 0" and uc = demoUnicode
           and getConn = demoBroker and query = demoQuery and unmarshal = noPlan, OF demo_access refl]
       isDangerousQuery_gate [where req = "demoRequest ''select 1'' False 0" and uc = demoUnicode
           and getConn = demoBroker and query = demoQuery and unmarshal = noPlan, OF demo_access refl]
       d n ne
  show ?thesis unfolding isDangerousQuery_iff by blast
qed

text \<open>
  Claim C1 as stated fails: the text \<open>DROP/**/TABLE users\<close> contains the keyword
  \<open>DROP\<close>, yet it passes the denylist, the connection is fetched and the statement is handed
  to \<open>pool.Query\<close>, because no blank follows the keyword.
\<close>

theorem bare_keyword_not_rejected:
  "Contains (ToUpper demoUnicode (TrimSpace demoUnicode ''DROP/**/TABLE users'')) ''DROP'' \<and>
   ExecuteQuery demoUnicode demoBroker demoQuery noPlan demoClaims ''u1''
       (Inr (demoRequest ''DROP/**/TABLE users'' False 0)) =
     (QueryResponse 200
        \<lparr>Columns = [''id''], Rows = Slice [[PgInt 1], [PgInt 2]], RowCount = 2,
         ExplainPlanResult = NilSlice\<rparr>,
      [GetConnection ''u1'', PoolQuery 1 ''DROP/**/TABLE users'' [],
       LogQueryExecution ''u1'' ''DROP/**/TABLE users'' 2])"
  by code_simp

lemma formatInt_1000: "formatInt 1000 = ''1000''"
  by code_simp

text \<open>
  Claim C5, as the code has it. For a request that reaches execution (authorised, decoded,
  past the denylist, connection available) with \<open>explain_plan\<close> unset, whose trimmed SQL
  starts with \<open>SELECT\<close> in any letter case: exactly one statement is handed to
  \<open>pool.Query\<close>. It is the trimmed SQL unchanged when its upper-cased text contains the
  characters \<open>LIMIT\<close> anywhere, and the trimmed SQL followed by \<open>" LIMIT n"\<close> otherwise,
  with \<open>n = 1000\<close> when \<open>options.limit\<close> is 0 and \<open>n = options.limit\<close> when not.
\<close>

theorem select_limit_appended:
  assumes "\<not> accessDenied claims userID" and "body = Inr req"
    and "\<not> isDangerousQuery uc (SQL req)" and "getConn userID = Inr p"
    and "\<not> ExplainPlan (Options req)"
    and "HasPrefix (ToUpper uc (TrimSpace uc (SQL req))) ''SELECT''"
  shows "statementsOf (snd (ExecuteQuery uc getConn query unmarshal claims userID body)) =
     [if Contains (ToUpper uc (TrimSpace uc (SQL req))) ''LIMIT'' then TrimSpace uc (SQL req)
      else if Limit (Options req) = 0 then TrimSpace uc (SQL req) @ '' LIMIT 1000''
      else TrimSpace uc (SQL req) @ '' LIMIT '' @ formatInt (Limit (Options req))]"
proof -
  have ne: "SQL req \<noteq> []"
    using assms(6) by (auto simp: HasPrefix_def ToUpper_TrimSpace_Nil)
  have b: "buildSQL uc (withDefaults req) =
     (if Contains (ToUpper uc (TrimSpace uc (SQL req))) ''LIMIT'' then TrimSpace uc (SQL req)
      else if Limit (Options req) = 0 then TrimSpace uc (SQL req) @ '' LIMIT 1000''
      else TrimSpace uc (SQL req) @ '' LIMIT '' @ formatInt (Limit (Options req)))"
    using assms(5,6) by (simp add: buildSQL_def withDefaults_def Let_def formatInt_1000)
  show ?thesis
    using assms(1-4) ne
    by (simp add: ExecuteQuery_def executeSQL_def Let_def b split: sum.splits prod.splits)
qed

text \<open>A default limit, a given limit, and a statement that has its own.\<close>

theorem select_limit_appended_witness:
  "statementsOf (snd (ExecuteQuery demoUnicode demoBroker demoQuery noPlan demoClaims ''u1''
      (Inr (demoRequest ''  select * from t '' False 0)))) = [''select * from t LIMIT 1000'']
   \<and> statementsOf (snd (ExecuteQuery demoUnicode demoBroker demoQuery noPlan demoClaims ''u1''
      (Inr (demoRequest ''select * from t'' False 25)))) = [''select * from t LIMIT 25'']
   \<and> statementsOf (snd (ExecuteQuery demoUnicode demoBroker demoQuery noPlan demoClaims ''u1''
      (Inr (demoRequest ''select * from t limit 5'' False 0)))) = [''select * from t limit 5'']"
proof -
  have n: "\<not> isDangerousQuery demoUnicode (SQL (demoRequest ''  select * from t '' False 0))"
          "\<not> isDangerousQuery demoUnicode (SQL (demoRequest ''select * from t'' False 25))"
          "\<not> isDangerousQuery demoUnicode (SQL (demoRequest ''select * from t limit 5'' False 0))"
    by code_simp+
  have e: "\<not> ExplainPlan (Options (demoRequest ''  select * from t '' False 0))"
          "\<not> ExplainPlan (Options (demoRequest ''select * from t'' False 25))"
          "\<not> ExplainPlan (Options (demoRequest ''select * from t limit 5'' False 0))"
    by (simp_all add: demoRequest_def)
  have s: "HasPrefix (ToUpper demoUnicode (TrimSpace demoUnicode (SQL (demoRequest ''  select * from t '' False 0)))) ''SELECT''"
          "HasPrefix (ToUpper demoUnicode (TrimSpace demoUnicode (SQL (demoRequest ''select * from t'' False 25)))) ''SELECT''"
          "HasPrefix (ToUpper demoUnicode (TrimSpace demoUnicode (SQL (demoRequest ''select * from t limit 5'' False 0)))) ''SELECT''"
    by code_simp+
  have c: "demoBroker ''u1'' = Inr 1" by (simp add: demoBroker_def)
  have v: "(if Contains (ToUpper demoUnicode (TrimSpace demoUnicode (SQL (demoRequest ''  select * from t '' False 0)))) ''LIMIT''
            then TrimSpace demoUnicode (SQL (demoRequest ''  select * from t '' False 0))
            else if Limit (Options (demoRequest ''  select * from t '' False 0)) = 0
            then TrimSpace demoUnicode (SQL (demoRequest ''  select * from t '' False 0)) @ '' LIMIT 1000''
            else TrimSpace demoUnicode (SQL (demoRequest ''  select * from t '' False 0)) @ '' LIMIT '' @
                 formatInt (Limit (Options (demoRequest ''  select * from t '' False 0))))
           = ''select * from t LIMIT 1000''"
          "(if Contains (ToUpper demoUnicode (TrimSpace demoUnicode (SQL (demoRequest ''select * from t'' False 25)))) ''LIMIT''
            then TrimSpace demoUnicode (SQL (demoRequest ''select * from t'' False 25))
            else if Limit (Options (demoRequest ''select * from t'' False 25)) = 0
            then TrimSpace demoUnicode (SQL (demoRequest ''select * from t'' False 25)) @ '' LIMIT 1000''
            else TrimSpace demoUnicode (SQL (demoRequest ''select * from t'' False 25)) @ '' LIMIT '' @
                 formatInt (Limit (Options (demoRequest ''select * from t'' False 25))))
           = ''select * from t LIMIT 25''"
          "(if Contains (ToUpper demoUnicode (TrimSpace demoUnicode (SQL (demoRequest ''select * from t limit 5'' False 0)))) ''LIMIT''
            then TrimSpace demoUnicode (SQL (demoRequest ''select * from t limit 5'' False 0))
            else if Limit (Options (demoRequest ''select * from t limit 5'' False 0)) = 0
            then TrimSpace demoUnicode (SQL (demoRequest ''select * from t limit 5'' False 0)) @ '' LIMIT 1000''
            else TrimSpace demoUnicode (SQL (demoRequest ''select * from t limit 5'' False 0)) @ '' LIMIT '' @
                 formatInt (Limit (Options (demoRequest ''select * from t limit 5'' False 0))))
           = ''select * from t limit 5''"
    by code_simp+
  show ?thesis
    using select_limit_appended [where uc = demoUnicode and getConn = demoBroker and query = demoQuery and unmarshal = noPlan,
                    OF demo_access refl n(1) c e(1) s(1)]
          select_limit_appended [where uc = demoUnicode and getConn = demoBroker and query = demoQuery and unmarshal = noPlan,
                    OF demo_access refl n(2) c e(2) s(2)]
          select_limit_appended [where uc = demoUnicode and getConn = demoBroker and query = demoQuery and unmarshal = noPlan,
                    OF demo_access refl n(3) c e(3) s(3)]
    unfolding v by simp
qed

text \<open>
  Claim C5 as stated fails. With \<open>explain_plan\<close> set, \<open>SELECT 1\<close> (no \<open>LIMIT\<close>
  anywhere) is executed as \<open>EXPLAIN (FORMAT JSON, ANALYZE true) SELECT 1\<close> with nothing
  appended, since the prefix test is made on the wrapped text. And
  \<open>SELECT * FROM limits\<close>, which has no \<open>LIMIT\<close> clause, is executed as it is, since
  the table name contains the characters \<open>LIMIT\<close>.
\<close>

theorem select_without_limit_unbounded:
  "HasPrefix (ToUpper demoUnicode (TrimSpace demoUnicode ''SELECT 1'')) ''SELECT'' \<and>
   \<not> Contains (ToUpper demoUnicode (TrimSpace demoUnicode ''SELECT 1'')) ''LIMIT'' \<and>
   statementsOf (snd (ExecuteQuery demoUnicode demoBroker demoQuery noPlan demoClaims ''u1''
      (Inr (demoRequest ''SELECT 1'' True 0)))) = [''EXPLAIN (FORMAT JSON, ANALYZE true) SELECT 1''] \<and>
   HasPrefix (ToUpper demoUnicode (TrimSpace demoUnicode ''SELECT * FROM limits'')) ''SELECT'' \<and>
   statementsOf (snd (ExecuteQuery demoUnicode demoBroker demoQuery noPlan demoClaims ''u1''
      (Inr (demoRequest ''SELECT * FROM limits'' False 0)))) = [''SELECT * FROM limits'']"
  by code_simp

section \<open>Properties of the schema introspector\<close>

text \<open>
  Claim C8, on the code. For an authorised caller whose pool is available and whose
  database answers both catalog queries with no rows, \<open>GetDatabaseSchema\<close> succeeds with
  status 200, and the body it writes is \<open>{"tables": null, "views": null}\<close>: both slices are
  still \<open>nil\<close> when they are marshalled. The claim asks for \<open>[]\<close> there.
\<close>

theorem empty_schema_marshals_null:
  assumes "\<not> accessDenied claims userID" and "getConn userID = Inr p"
    and "tablesRows (catalogOf p) = Inr []" and "viewsRows (catalogOf p) = Inr []"
  shows "GetDatabaseSchema getConn catalogOf claims userID =
           SchemaJSON 200 (JObj [(''tables'', JNull), (''views'', JNull)])"
  using assms
  by (simp add: GetDatabaseSchema_def getDatabaseSchema_def marshalSchema_def marshalSlice_def)

theorem empty_schema_marshals_null_witness:
  "GetDatabaseSchema demoBroker emptyDatabase demoClaims ''u1'' =
     SchemaJSON 200 (JObj [(''tables'', JNull), (''views'', JNull)])"
proof -
  have c: "demoBroker ''u1'' = Inr 1" by (simp add: demoBroker_def)
  have t: "tablesRows (emptyDatabase 1) = Inr []" "viewsRows (emptyDatabase 1) = Inr []"
    by (simp_all add: emptyDatabase_def emptyCatalog_def)
  show ?thesis
    by (rule empty_schema_marshals_null
          [where getConn = demoBroker and catalogOf = emptyDatabase, OF demo_access c t])
qed

text \<open>With one table the same field is an array, so a consumer sees the type of
  \<open>tables\<close> change with the number of rows.\<close>

lemma one_table_schema:
  "GetDatabaseSchema demoBroker oneTableDatabase demoClaims ''u1'' =
     SchemaJSON 200 (JObj
       [(''tables'', JArr [JObj
           [(''name'', JStr ''users''), (''schema'', JStr ''public''),
            (''columns'', JArr [JObj
               [(''name'', JStr ''id''), (''type'', JStr ''integer''),
                (''nullable'', JBool False), (''is_primary_key'', JBool True),
                (''is_foreign_key'', JBool False)]]),
            (''row_count'', JNum 3)]]),
        (''views'', JNull)])"
  by code_simp

section \<open>Properties of the configuration encryption\<close>

lemma indexOf_nth: "distinct xs \<Longrightarrow> n < length xs \<Longrightarrow> indexOf (xs ! n) xs = Some n"
proof (induction xs arbitrary: n)
  case Nil
  then show ?case by simp
next
  case (Cons x xs)
  show ?case
  proof (cases n)
    case 0
    then show ?thesis by simp
  next
    case (Suc m)
    with Cons.prems have "xs ! m \<noteq> x" by auto
    with Suc Cons show ?thesis by auto
  qed
qed

lemma indexOf_None: "c \<notin> set xs \<Longrightarrow> indexOf c xs = None"
  by (induction xs) auto

lemma length_encodeStd: "length encodeStd = 64"
  by (simp add: encodeStd_def)

lemma distinct_encodeStd: "distinct encodeStd"
  by (simp add: encodeStd_def)

lemma decodeMap_sextet: "n < 64 \<Longrightarrow> decodeMap (sextet n) = Some n"
  by (simp add: decodeMap_def sextet_def indexOf_nth distinct_encodeStd length_encodeStd)

lemma decodeMap_pad: "decodeMap (CHR ''='') = None"
  by (simp add: decodeMap_def indexOf_None encodeStd_def)

lemma sextet_in_alphabet: "n < 64 \<Longrightarrow> sextet n \<in> set encodeStd"
  by (simp add: sextet_def length_encodeStd)

lemma sextet_not_newline: "n < 64 \<Longrightarrow> sextet n \<noteq> CHR 0x0D \<and> sextet n \<noteq> CHR 0x0A"
proof -
  assume "n < 64"
  then have "sextet n \<in> set encodeStd" by (rule sextet_in_alphabet)
  moreover have "CHR 0x0D \<notin> set encodeStd" "CHR 0x0A \<notin> set encodeStd"
    by (simp_all add: encodeStd_def)
  ultimately show ?thesis by metis
qed

lemma byte_bounds:
  fixes x y z :: nat
  assumes "x < 256" "y < 256" "z < 256"
  shows "x div 4 < 64" "x mod 4 * 16 + y div 16 < 64" "y mod 16 * 4 + z div 64 < 64"
        "z mod 64 < 64" "x mod 4 * 16 < 64" "y mod 16 * 4 < 64"
proof -
  have a: "x mod 4 < 4" "y mod 16 < 16" by simp_all
  have b: "y div 16 < 16" "z div 64 < 4" using assms by simp_all
  show "x div 4 < 64" using assms by simp
  show "x mod 4 * 16 + y div 16 < 64" using a b by linarith
  show "y mod 16 * 4 + z div 64 < 64" using a b by linarith
  show "z mod 64 < 64" by simp
  show "x mod 4 * 16 < 64" using a by linarith
  show "y mod 16 * 4 < 64" using a by linarith
qed

lemma regroup:
  fixes x y z :: nat
  assumes "y < 256" "z < 256"
  shows "x div 4 * 4 + (x mod 4 * 16 + y div 16) div 16 = x"
    and "(x mod 4 * 16 + y div 16) mod 16 * 16 + (y mod 16 * 4 + z div 64) div 4 = y"
    and "(y mod 16 * 4 + z div 64) mod 4 * 64 + z mod 64 = z"
    and "x div 4 * 4 + (x mod 4 * 16) div 16 = x"
    and "(x mod 4 * 16 + y div 16) mod 16 * 16 + (y mod 16 * 4) div 4 = y"
proof -
  have y16: "y div 16 < 16" and z64: "z div 64 < 4" using assms by simp_all
  have a: "(x mod 4 * 16 + y div 16) div 16 = x mod 4" using y16 by simp
  have b: "(x mod 4 * 16 + y div 16) mod 16 = y div 16" using y16 by simp
  have c: "(y mod 16 * 4 + z div 64) div 4 = y mod 16" using z64 by simp
  have d: "(y mod 16 * 4 + z div 64) mod 4 = z div 64" using z64 by simp
  show "x div 4 * 4 + (x mod 4 * 16 + y div 16) div 16 = x" using a by simp
  show "(x mod 4 * 16 + y div 16) mod 16 * 16 + (y mod 16 * 4 + z div 64) div 4 = y"
    using b c by simp
  show "(y mod 16 * 4 + z div 64) mod 4 * 64 + z mod 64 = z" using d by simp
  show "x div 4 * 4 + (x mod 4 * 16) div 16 = x" by simp
  show "(x mod 4 * 16 + y div 16) mod 16 * 16 + (y mod 16 * 4) div 4 = y" using b by simp
qed

lemma decodeQuanta_EncodeToString: "decodeQuanta (EncodeToString bs) = Some bs"
proof (induction bs rule: EncodeToString.induct)
  case 1
  show ?case by simp
next
  case (2 a)
  have b: "(of_char a :: nat) < 256" by (rule nat_of_char_less_256)
  show ?case
    using byte_bounds [OF b b b] regroup(4) [OF b b]
    by (simp add: Let_def decodeMap_sextet decodeMap_pad byte_def)
next
  case (3 a b)
  have x: "(of_char a :: nat) < 256" and y: "(of_char b :: nat) < 256"
    by (rule nat_of_char_less_256)+
  show ?case
    using byte_bounds [OF x y y] regroup(1,5) [OF y y]
    by (simp add: Let_def decodeMap_sextet decodeMap_pad byte_def)
next
  case (4 a b c rest)
  have x: "(of_char a :: nat) < 256" and y: "(of_char b :: nat) < 256"
    and z: "(of_char c :: nat) < 256"
    by (rule nat_of_char_less_256)+
  show ?case
    using byte_bounds [OF x y z] regroup(1-3) [OF y z] 4
    by (simp add: Let_def decodeMap_sextet byte_def)
qed

lemma EncodeToString_no_newline:
  "filter (\<lambda>c. c \<noteq> CHR 0x0D \<and> c \<noteq> CHR 0x0A) (EncodeToString bs) = EncodeToString bs"
proof (induction bs rule: EncodeToString.induct)
  case 1
  show ?case by simp
next
  case (2 a)
  have b: "(of_char a :: nat) < 256" by (rule nat_of_char_less_256)
  show ?case
    using byte_bounds [OF b b b] by (simp add: Let_def sextet_not_newline)
next
  case (3 a b)
  have x: "(of_char a :: nat) < 256" and y: "(of_char b :: nat) < 256"
    by (rule nat_of_char_less_256)+
  show ?case
    using byte_bounds [OF x y y] by (simp add: Let_def sextet_not_newline)
next
  case (4 a b c rest)
  have x: "(of_char a :: nat) < 256" and y: "(of_char b :: nat) < 256"
    and z: "(of_char c :: nat) < 256"
    by (rule nat_of_char_less_256)+
  show ?case
    using byte_bounds [OF x y z] 4 by (simp add: Let_def sextet_not_newline)
qed

lemma base64_roundtrip: "DecodeString (EncodeToString bs) = Some bs"
  by (simp add: DecodeString_def EncodeToString_no_newline decodeQuanta_EncodeToString)


lemma deriveUserKey_length: "digest32 cr \<Longrightarrow> length (deriveUserKey cr ce userID configType) = 32"
  by (simp add: deriveUserKey_def digest32_def)

lemma NewCipher_32: "length k = 32 \<Longrightarrow> NewCipher k = Inr k"
  by (simp add: NewCipher_def)

lemma EncryptConfig_Inr:
  assumes "digest32 cr"
  shows "EncryptConfig cr ce rnd userID configType x = (Inr c, rnd') \<longleftrightarrow>
     NonceSize \<le> length rnd \<and> rnd' = drop NonceSize rnd \<and>
     c = EncodeToString (take NonceSize rnd @
           gcmSeal cr (deriveUserKey cr ce userID configType) (take NonceSize rnd) x)"
  using deriveUserKey_length [OF assms, of ce userID configType]
  by (auto simp: EncryptConfig_def NewCipher_32 ReadFull_def Seal_def Let_def)

lemma EncryptConfig_then_DecryptConfig:
  assumes "digest32 cr" and "aeadCorrect cr"
    and "EncryptConfig cr ce rnd userID configType x = (Inr c, rnd')"
  shows "DecryptConfig cr ce userID configType c = Inr x"
proof -
  from assms(3) have n: "NonceSize \<le> length rnd"
    and c: "c = EncodeToString (take NonceSize rnd @
           gcmSeal cr (deriveUserKey cr ce userID configType) (take NonceSize rnd) x)"
    by (simp_all add: EncryptConfig_Inr [OF assms(1)])
  let ?key = "deriveUserKey cr ce userID configType"
  let ?nonce = "take NonceSize rnd"
  have k: "length ?key = 32" by (rule deriveUserKey_length [OF assms(1)])
  have l: "length ?nonce = 12" using n by (simp add: NonceSize_def)
  have "gcmOpen cr ?key ?nonce (gcmSeal cr ?key ?nonce x) = Some x"
    using assms(2) k l by (simp add: aeadCorrect_def)
  then show ?thesis
    using k l n by (simp add: DecryptConfig_def c base64_roundtrip NewCipher_32 NonceSize_def)
qed

text \<open>
  Claim C3. With a 32-byte digest and an AEAD whose \<open>Open\<close> undoes \<open>Seal\<close>:
  \<open>EncryptConfig\<close> succeeds whenever the entropy source delivers the 12 bytes of the
  nonce, and whatever ciphertext it returns for \<open>x\<close>, \<open>DecryptConfig\<close> with the same
  \<open>userID\<close> and \<open>configType\<close> succeeds on it and returns exactly \<open>x\<close>.
\<close>

theorem EncryptConfig_DecryptConfig_roundtrip:
  assumes "digest32 cr" and "aeadCorrect cr"
  shows "(NonceSize \<le> length rnd \<longrightarrow>
            (\<exists>c. EncryptConfig cr ce rnd userID configType x = (Inr c, drop NonceSize rnd)))
       \<and> (\<forall>c rnd'. EncryptConfig cr ce rnd userID configType x = (Inr c, rnd') \<longrightarrow>
            DecryptConfig cr ce userID configType c = Inr x)"
  using assms
  by (auto simp: EncryptConfig_Inr [OF assms(1)] intro: EncryptConfig_then_DecryptConfig)

text \<open>The stand-in primitives have the three properties.\<close>

lemma toy_digest32: "digest32 toyCrypto"
  by (simp add: digest32_def toyCrypto_def toyDigest_def min_def)

lemma toy_aeadCorrect: "aeadCorrect toyCrypto"
  by (simp add: aeadCorrect_def toyCrypto_def toySeal_def toyOpen_def)

lemma toy_aeadAuthentic: "aeadAuthentic toyCrypto"
  by (auto simp: aeadAuthentic_def toyCrypto_def toyOpen_def Let_def split: if_splits)

lemma toy_ciphertext:
  "EncryptConfig toyCrypto toyService toyEntropy ''u1'' ''ssh'' ''h/d'' =
     (Inr ''bm9uY2UtMDAwMDAxaC9kZC9oaHNzOjF1OjAxMjM0NTY3ODlhYmNkZWYwMTIzNDU2Nzhub25jZS0wMDAwMDE='', ''nonce-000002nonce-000003nonce-000004'')"
  by code_simp

lemma toy_plaintext:
  "DecryptConfig toyCrypto toyService ''u1'' ''ssh'' ''bm9uY2UtMDAwMDAxaC9kZC9oaHNzOjF1OjAxMjM0NTY3ODlhYmNkZWYwMTIzNDU2Nzhub25jZS0wMDAwMDE='' = Inr ''h/d''"
  by (rule EncryptConfig_then_DecryptConfig [OF toy_digest32 toy_aeadCorrect toy_ciphertext])

text \<open>A key path of three bytes, sealed for user \<open>u1\<close> and type \<open>ssh\<close>, and opened
  again.\<close>

theorem EncryptConfig_DecryptConfig_roundtrip_witness:
  "EncryptConfig toyCrypto toyService toyEntropy ''u1'' ''ssh'' ''h/d'' =
     (Inr ''bm9uY2UtMDAwMDAxaC9kZC9oaHNzOjF1OjAxMjM0NTY3ODlhYmNkZWYwMTIzNDU2Nzhub25jZS0wMDAwMDE='', ''nonce-000002nonce-000003nonce-000004'')
   \<and> DecryptConfig toyCrypto toyService ''u1'' ''ssh'' ''bm9uY2UtMDAwMDAxaC9kZC9oaHNzOjF1OjAxMjM0NTY3ODlhYmNkZWYwMTIzNDU2Nzhub25jZS0wMDAwMDE='' = Inr ''h/d''"
  using EncryptConfig_DecryptConfig_roundtrip [OF toy_digest32 toy_aeadCorrect,
         of toyEntropy toyService "''u1''" "''ssh''" "''h/d''"] toy_ciphertext
  by blast

text \<open>\<open>DecryptConfig\<close> reads the stored text only through its base64 decoding.\<close>

lemma DecryptConfig_decoded:
  "DecodeString s' = DecodeString s \<Longrightarrow>
   DecryptConfig cr ce userID configType s' = DecryptConfig cr ce userID configType s"
  by (simp add: DecryptConfig_def)

text \<open>
  Claim C4, as the code has it. With a 32-byte digest and an AEAD that accepts a text as
  plaintext \<open>p\<close> only if the text is the sealing of \<open>p\<close>: whenever \<open>DecryptConfig\<close>
  returns a plaintext, the stored text decodes to a 12-byte nonce followed by exactly the
  sealing of that plaintext under the key derived from \<open>userID\<close> and \<open>configType\<close> and
  that nonce. So what is returned is always a whole, authenticated plaintext for the key
  in use; in every other case the result is an error and carries no plaintext.
\<close>

theorem DecryptConfig_only_authenticated:
  assumes "digest32 cr" and "aeadAuthentic cr"
    and "DecryptConfig cr ce userID configType stored = Inr plaintext"
  shows "\<exists>nonce. length nonce = NonceSize \<and>
           DecodeString stored =
             Some (nonce @ gcmSeal cr (deriveUserKey cr ce userID configType) nonce plaintext)"
proof -
  let ?key = "deriveUserKey cr ce userID configType"
  have k: "length ?key = 32" by (rule deriveUserKey_length [OF assms(1)])
  from assms(3) obtain raw where
    d: "DecodeString stored = Some raw" and l: "NonceSize \<le> length raw" and
    o: "gcmOpen cr ?key (take NonceSize raw) (drop NonceSize raw) = Some plaintext"
    using k
    by (auto simp: DecryptConfig_def NewCipher_32 Let_def split: option.splits if_splits)
  have n: "length (take NonceSize raw) = 12" using l by (simp add: NonceSize_def)
  from assms(2) k n o have "drop NonceSize raw = gcmSeal cr ?key (take NonceSize raw) plaintext"
    by (simp add: aeadAuthentic_def)
  then have "raw = take NonceSize raw @ gcmSeal cr ?key (take NonceSize raw) plaintext"
    by (metis append_take_drop_id)
  with d n show ?thesis by (metis NonceSize_def)
qed

theorem DecryptConfig_only_authenticated_witness:
  "DecryptConfig toyCrypto toyService ''u1'' ''ssh'' ''bm9uY2UtMDAwMDAxaC9kZC9oaHNzOjF1OjAxMjM0NTY3ODlhYmNkZWYwMTIzNDU2Nzhub25jZS0wMDAwMDE='' = Inr ''h/d''
   \<and> (\<exists>nonce. length nonce = NonceSize \<and>
         DecodeString ''bm9uY2UtMDAwMDAxaC9kZC9oaHNzOjF1OjAxMjM0NTY3ODlhYmNkZWYwMTIzNDU2Nzhub25jZS0wMDAwMDE='' =
           Some (nonce @ gcmSeal toyCrypto (deriveUserKey toyCrypto toyService ''u1'' ''ssh'')
                           nonce ''h/d''))"
  using DecryptConfig_only_authenticated [OF toy_digest32 toy_aeadAuthentic toy_plaintext]
        toy_plaintext
  by blast

text \<open>
  Claim C4 as stated fails. The stored ciphertext below ends in the quantum \<open>MDE=\<close>, whose
  third character carries two bits that belong to no byte. Writing \<open>F\<close> for \<open>E\<close> there
  changes one byte of the stored text and none of the decoded bytes, so \<open>DecryptConfig\<close>
  returns the plaintext and no error, whatever the AEAD is.
\<close>

theorem padding_bits_not_authenticated:
  "fst (EncryptConfig toyCrypto toyService toyEntropy ''u1'' ''ssh'' ''h/d'') = Inr ''bm9uY2UtMDAwMDAxaC9kZC9oaHNzOjF1OjAxMjM0NTY3ODlhYmNkZWYwMTIzNDU2Nzhub25jZS0wMDAwMDE=''
   \<and> ''bm9uY2UtMDAwMDAxaC9kZC9oaHNzOjF1OjAxMjM0NTY3ODlhYmNkZWYwMTIzNDU2Nzhub25jZS0wMDAwMDE=''[82 := CHR ''F''] = ''bm9uY2UtMDAwMDAxaC9kZC9oaHNzOjF1OjAxMjM0NTY3ODlhYmNkZWYwMTIzNDU2Nzhub25jZS0wMDAwMDF=''
   \<and> DecodeString ''bm9uY2UtMDAwMDAxaC9kZC9oaHNzOjF1OjAxMjM0NTY3ODlhYmNkZWYwMTIzNDU2Nzhub25jZS0wMDAwMDF='' = DecodeString ''bm9uY2UtMDAwMDAxaC9kZC9oaHNzOjF1OjAxMjM0NTY3ODlhYmNkZWYwMTIzNDU2Nzhub25jZS0wMDAwMDE=''
   \<and> DecryptConfig toyCrypto toyService ''u1'' ''ssh'' ''bm9uY2UtMDAwMDAxaC9kZC9oaHNzOjF1OjAxMjM0NTY3ODlhYmNkZWYwMTIzNDU2Nzhub25jZS0wMDAwMDF='' = Inr ''h/d''"
  by code_simp

text \<open>
  The derived key does not always differ either: \<open>deriveUserKey\<close> joins its parts with
  \<open>:\<close>, so a colon may move from \<open>userID\<close> to \<open>configType\<close> and the digest is taken
  of the same bytes. The three configuration types of the handlers contain no colon.
\<close>

lemma deriveUserKey_separator:
  "deriveUserKey cr ce ''a:b'' ''c'' = deriveUserKey cr ce ''a'' ''b:c''"
  by (simp add: deriveUserKey_def)

text \<open>
  Claim C9. \<open>Encrypt\<close> of the empty string is the empty string, with no error and no byte
  taken from the entropy source (so no nonce, and no tag either); \<open>Decrypt\<close> of the empty
  string is the empty string, with no error.
\<close>

theorem Encrypt_Decrypt_empty:
  "Encrypt cr encryptionKey rnd [] = (Inr [], rnd) \<and> Decrypt cr encryptionKey [] = Inr []"
  by (simp add: Encrypt_def Decrypt_def)

section \<open>Properties of the connection broker\<close>

lemma NewSSHTunnel_Inl:
  "NewSSHTunnel net w a b c d e f = (Inl err, w1) \<Longrightarrow> w1 = w"
  by (auto simp: NewSSHTunnel_def split: sum.splits option.splits)

lemma NewSSHTunnel_Inr:
  "NewSSHTunnel net w a b c d e f = (Inr t, w1) \<Longrightarrow>
   t = tunnelsBuilt w \<and>
   w1 = w\<lparr>tunnelsBuilt := Suc (tunnelsBuilt w), openTunnels := insert (tunnelsBuilt w) (openTunnels w)\<rparr>"
  by (auto simp: NewSSHTunnel_def split: sum.splits option.splits)

lemma connectPool_Inl:
  assumes "connectPool net w dbURL sshTunnel = (Inl err, w')" and "poolsBuilt w \<notin> openPools w"
  shows "openPools w' = openPools w \<and> openTunnels w' = openTunnels (closeIfTunnel sshTunnel w)"
  using assms
  by (auto simp: connectPool_def Let_def closeIfTunnel_def closeTunnel_def closePool_def
           split: sum.splits option.splits)

lemma connectPool_Inr:
  assumes "connectPool net w dbURL sshTunnel = (Inr (p, t), w')"
  shows "p = poolsBuilt w \<and> t = sshTunnel \<and> Ping net p = None \<and>
         w' = w\<lparr>poolsBuilt := Suc (poolsBuilt w), openPools := insert (poolsBuilt w) (openPools w)\<rparr>"
  using assms
  by (auto simp: connectPool_def Let_def split: sum.splits option.splits)

lemma createUserConnection_Inl:
  assumes "createUserConnection net h w userID config = (Inl err, w')" and "fresh w"
  shows "openPools w' = openPools w \<and> openTunnels w' = openTunnels w"
proof -
  have p: "poolsBuilt w \<notin> openPools w" and t: "tunnelsBuilt w \<notin> openTunnels w"
    using assms(2) by (auto simp: fresh_def)
  consider (pg) "ConnectionType config = ''postgresql''"
    | (ssh) "ConnectionType config \<noteq> ''postgresql''" "ConnectionType config = ''ssh''"
    | (wg) "ConnectionType config \<noteq> ''postgresql''" "ConnectionType config \<noteq> ''ssh''"
           "ConnectionType config = ''wireguard''"
    | (other) "ConnectionType config \<noteq> ''postgresql''" "ConnectionType config \<noteq> ''ssh''"
           "ConnectionType config \<noteq> ''wireguard''"
    by blast
  then show ?thesis
  proof cases
    case pg
    with assms(1) have "connectPool net w (DatabaseURL config) None = (Inl err, w')"
      by (simp add: createUserConnection_def)
    from connectPool_Inl [OF this p] show ?thesis by (simp add: closeIfTunnel_def)
  next
    case ssh
    show ?thesis
    proof (cases "SSHConfig config")
      case None
      with ssh assms(1) show ?thesis by (simp add: createUserConnection_def)
    next
      case (Some sc)
      let ?port = "15432 + int (length (userSSHTunnels h))"
      obtain r w1 where n: "NewSSHTunnel net w (Host sc) (Port sc) (User sc) (KeyPath sc)
          (''localhost:'' @ formatInt ?port) ''localhost:5432'' = (r, w1)"
        by (cases "NewSSHTunnel net w (Host sc) (Port sc) (User sc) (KeyPath sc)
          (''localhost:'' @ formatInt ?port) ''localhost:5432''") auto
      show ?thesis
      proof (cases r)
        case (Inl e)
        with n have "w1 = w" by (auto dest: NewSSHTunnel_Inl)
        moreover from ssh Some n Inl assms(1) have "w' = w1"
          by (simp add: createUserConnection_def Let_def)
        ultimately show ?thesis by simp
      next
        case (Inr tn)
        with n have tn: "tn = tunnelsBuilt w" and w1: "w1 = w\<lparr>tunnelsBuilt := Suc (tunnelsBuilt w),
            openTunnels := insert (tunnelsBuilt w) (openTunnels w)\<rparr>"
          by (auto dest: NewSSHTunnel_Inr)
        show ?thesis
        proof (cases "ParseConfig net (DatabaseURL config)")
          case (Inl e)
          with ssh Some n Inr assms(1) have "w' = closeTunnel tn w1"
            by (simp add: createUserConnection_def Let_def)
          with tn w1 t show ?thesis by (auto simp: closeTunnel_def)
        next
          case (Inr pc)
          with ssh Some n \<open>r = Inr tn\<close> assms(1) obtain url where
            c: "connectPool net w1 url (Some tn) = (Inl err, w')"
            by (simp add: createUserConnection_def Let_def)
          have "poolsBuilt w1 \<notin> openPools w1" using p w1 by simp
          from connectPool_Inl [OF c this] tn w1 t show ?thesis
            by (auto simp: closeIfTunnel_def closeTunnel_def)
        qed
      qed
    qed
  next
    case wg
    show ?thesis
    proof (cases "WireguardConfig config")
      case None
      with wg assms(1) show ?thesis by (simp add: createUserConnection_def)
    next
      case (Some wc)
      show ?thesis
      proof (cases "InternalDBURL wc = []")
        case True
        with wg Some assms(1) show ?thesis by (simp add: createUserConnection_def)
      next
        case False
        with wg Some assms(1) have "connectPool net w (InternalDBURL wc) None = (Inl err, w')"
          by (simp add: createUserConnection_def)
        from connectPool_Inl [OF this p] show ?thesis by (simp add: closeIfTunnel_def)
      qed
    qed
  next
    case other
    with assms(1) show ?thesis by (simp add: createUserConnection_def)
  qed
qed


lemma createUserConnection_Inr:
  assumes "createUserConnection net h w userID config = (Inr (p, st), w')"
  shows "p = poolsBuilt w \<and> Ping net p = None \<and> p \<in> openPools w' \<and>
         poolsBuilt w' = Suc (poolsBuilt w) \<and> tunnelsBuilt w' \<le> Suc (tunnelsBuilt w) \<and>
         (case st of None \<Rightarrow> True | Some tn \<Rightarrow> tn \<in> openTunnels w')"
proof -
  consider (pg) "ConnectionType config = ''postgresql''"
    | (ssh) "ConnectionType config \<noteq> ''postgresql''" "ConnectionType config = ''ssh''"
    | (wg) "ConnectionType config \<noteq> ''postgresql''" "ConnectionType config \<noteq> ''ssh''"
           "ConnectionType config = ''wireguard''"
    | (other) "ConnectionType config \<noteq> ''postgresql''" "ConnectionType config \<noteq> ''ssh''"
           "ConnectionType config \<noteq> ''wireguard''"
    by blast
  then show ?thesis
  proof cases
    case pg
    with assms have "connectPool net w (DatabaseURL config) None = (Inr (p, st), w')"
      by (simp add: createUserConnection_def)
    from connectPool_Inr [OF this] show ?thesis by auto
  next
    case ssh
    show ?thesis
    proof (cases "SSHConfig config")
      case None
      with ssh assms show ?thesis by (simp add: createUserConnection_def)
    next
      case (Some sc)
      let ?port = "15432 + int (length (userSSHTunnels h))"
      obtain r w1 where n: "NewSSHTunnel net w (Host sc) (Port sc) (User sc) (KeyPath sc)
          (''localhost:'' @ formatInt ?port) ''localhost:5432'' = (r, w1)"
        by (cases "NewSSHTunnel net w (Host sc) (Port sc) (User sc) (KeyPath sc)
          (''localhost:'' @ formatInt ?port) ''localhost:5432''") auto
      show ?thesis
      proof (cases r)
        case (Inl e)
        with ssh Some n assms show ?thesis by (simp add: createUserConnection_def Let_def)
      next
        case (Inr tn)
        with n have tn: "tn = tunnelsBuilt w" and w1: "w1 = w\<lparr>tunnelsBuilt := Suc (tunnelsBuilt w),
            openTunnels := insert (tunnelsBuilt w) (openTunnels w)\<rparr>"
          by (auto dest: NewSSHTunnel_Inr)
        show ?thesis
        proof (cases "ParseConfig net (DatabaseURL config)")
          case (Inl e)
          with ssh Some n Inr assms show ?thesis by (simp add: createUserConnection_def Let_def)
        next
          case (Inr pc)
          with ssh Some n \<open>r = Inr tn\<close> assms obtain url where
            c: "connectPool net w1 url (Some tn) = (Inr (p, st), w')"
            by (simp add: createUserConnection_def Let_def)
          from connectPool_Inr [OF c] tn w1 show ?thesis by auto
        qed
      qed
    qed
  next
    case wg
    show ?thesis
    proof (cases "WireguardConfig config")
      case None
      with wg assms show ?thesis by (simp add: createUserConnection_def)
    next
      case (Some wc)
      show ?thesis
      proof (cases "InternalDBURL wc = []")
        case True
        with wg Some assms show ?thesis by (simp add: createUserConnection_def)
      next
        case False
        with wg Some assms have "connectPool net w (InternalDBURL wc) None = (Inr (p, st), w')"
          by (simp add: createUserConnection_def)
        from connectPool_Inr [OF this] show ?thesis by auto
      qed
    qed
  next
    case other
    with assms show ?thesis by (simp add: createUserConnection_def)
  qed
qed

lemma map_of_mapStore: "map_of (mapStore k v m) k = Some v"
  by (simp add: mapStore_def)

lemma GetUserDatabaseConnection_hit:
  "map_of (userDBPools h) userID = Some p \<Longrightarrow>
   GetUserDatabaseConnection net getConfig h w userID = (Inr p, h, w)"
  by (simp add: GetUserDatabaseConnection_def)

lemma GetUserDatabaseConnection_Inl:
  assumes "GetUserDatabaseConnection net getConfig h w userID = (Inl err, h', w')" and "fresh w"
  shows "h' = h \<and> openPools w' = openPools w \<and> openTunnels w' = openTunnels w"
  using assms
  by (auto simp: GetUserDatabaseConnection_def split: option.splits sum.splits prod.splits
           dest: createUserConnection_Inl)

lemma GetUserDatabaseConnection_miss_Inr:
  assumes "GetUserDatabaseConnection net getConfig h w userID = (Inr p, h', w')"
    and "map_of (userDBPools h) userID = None"
  shows "Ping net p = None \<and> p \<in> openPools w' \<and> map_of (userDBPools h') userID = Some p \<and>
         poolsBuilt w' = Suc (poolsBuilt w) \<and> tunnelsBuilt w' \<le> Suc (tunnelsBuilt w)"
  using assms
  by (auto simp: GetUserDatabaseConnection_def map_of_mapStore
           split: option.splits sum.splits prod.splits dest!: createUserConnection_Inr)

text \<open>What the steps answer when they fail, and what is built when they succeed.\<close>

lemma NewSSHTunnel_down:
  assumes "isl (ReadFile net d) \<or>
           (\<exists>key. ReadFile net d = Inr key \<and>
              (ParsePrivateKey net key \<noteq> None \<or> Dial net (JoinHostPort a b) c key \<noteq> None))"
  shows "\<exists>err. NewSSHTunnel net w a b c d e f = (Inl err, w)"
  using assms
  by (cases "ReadFile net d") (auto simp: NewSSHTunnel_def split: option.splits)

lemma NewSSHTunnel_up:
  assumes "ReadFile net d = Inr key" and "ParsePrivateKey net key = None"
    and "Dial net (JoinHostPort a b) c key = None"
  shows "NewSSHTunnel net w a b c d e f =
           (Inr (tunnelsBuilt w),
            w\<lparr>tunnelsBuilt := Suc (tunnelsBuilt w),
              openTunnels := insert (tunnelsBuilt w) (openTunnels w)\<rparr>)"
  using assms by (simp add: NewSSHTunnel_def)

lemma connectPool_steps:
  "ParseConfig net dbURL = Inl e \<Longrightarrow>
     fst (connectPool net w dbURL t) = Inl (''failed to parse database URL: '' @ e)"
  "ParseConfig net dbURL = Inr pc \<Longrightarrow>
   NewWithConfig net (pc\<lparr>MaxConns := 10, MinConns := 2, MaxConnLifetime := 3600,
                        MaxConnIdleTime := 900\<rparr>) = Some e \<Longrightarrow>
     fst (connectPool net w dbURL t) = Inl (''failed to create connection pool: '' @ e)"
  "ParseConfig net dbURL = Inr pc \<Longrightarrow>
   NewWithConfig net (pc\<lparr>MaxConns := 10, MinConns := 2, MaxConnLifetime := 3600,
                        MaxConnIdleTime := 900\<rparr>) = None \<Longrightarrow>
   Ping net (poolsBuilt w) = Some e \<Longrightarrow>
     fst (connectPool net w dbURL t) = Inl (''failed to ping database: '' @ e)"
  by (simp_all add: connectPool_def Let_def)

text \<open>After the \<open>switch\<close> on the connection type, the URL of that type goes to the common
  part; no pool has been built by then.\<close>

lemma createUserConnection_tail:
  assumes "(ConnectionType config = ''postgresql'' \<and> dbURL = DatabaseURL config)
         \<or> (ConnectionType config = ''wireguard'' \<and>
              (\<exists>wg. WireguardConfig config = Some wg \<and> InternalDBURL wg \<noteq> [] \<and>
                    dbURL = InternalDBURL wg))
         \<or> (ConnectionType config = ''ssh'' \<and>
              (\<exists>ssh key pc0. SSHConfig config = Some ssh \<and>
                 ReadFile net (KeyPath ssh) = Inr key \<and> ParsePrivateKey net key = None \<and>
                 Dial net (JoinHostPort (Host ssh) (Port ssh)) (User ssh) key = None \<and>
                 ParseConfig net (DatabaseURL config) = Inr pc0 \<and>
                 dbURL = tunnelURL pc0 (15432 + int (length (userSSHTunnels h)))))"
  shows "\<exists>w1 t. createUserConnection net h w userID config = connectPool net w1 dbURL t \<and>
                poolsBuilt w1 = poolsBuilt w"
  using assms
proof (elim disjE conjE exE)
  assume "ConnectionType config = ''postgresql''" and "dbURL = DatabaseURL config"
  then have "createUserConnection net h w userID config = connectPool net w dbURL None"
    by (simp add: createUserConnection_def)
  then show ?thesis by blast
next
  fix wg
  assume "ConnectionType config = ''wireguard''" and "WireguardConfig config = Some wg"
    and "InternalDBURL wg \<noteq> []" and "dbURL = InternalDBURL wg"
  then have "createUserConnection net h w userID config = connectPool net w dbURL None"
    by (simp add: createUserConnection_def)
  then show ?thesis by blast
next
  fix ssh key pc0
  let ?w1 = "w\<lparr>tunnelsBuilt := Suc (tunnelsBuilt w),
               openTunnels := insert (tunnelsBuilt w) (openTunnels w)\<rparr>"
  assume t: "ConnectionType config = ''ssh''" and s: "SSHConfig config = Some ssh"
    and k: "ReadFile net (KeyPath ssh) = Inr key" "ParsePrivateKey net key = None"
           "Dial net (JoinHostPort (Host ssh) (Port ssh)) (User ssh) key = None"
    and p: "ParseConfig net (DatabaseURL config) = Inr pc0"
    and u: "dbURL = tunnelURL pc0 (15432 + int (length (userSSHTunnels h)))"
  have "createUserConnection net h w userID config =
          connectPool net ?w1 dbURL (Some (tunnelsBuilt w))"
    using t s p u
    by (simp add: createUserConnection_def NewSSHTunnel_up [OF k] tunnelURL_def Let_def)
  moreover have "poolsBuilt ?w1 = poolsBuilt w" by simp
  ultimately show ?thesis by blast
qed

lemma GetUserDatabaseConnection_error:
  assumes "map_of (userDBPools h) userID = None" and "getConfig userID = Inr config"
    and "fst (createUserConnection net h w userID config) = Inl e"
  shows "GetUserDatabaseConnection net getConfig h w userID =
           (Inl (''failed to create user database connection: '' @ e), h,
            snd (createUserConnection net h w userID config))"
  using assms
  by (cases "createUserConnection net h w userID config")
     (simp add: GetUserDatabaseConnection_def)

text \<open>
  Claim C6. A resource counts as closed when \<open>Close()\<close> has been called on it. Starting
  from resources named in order of building:
  \<^item> when \<open>createUserConnection\<close> returns an error, whichever step failed, the open pools
    and the open tunnels are what they were before the call, so whatever it built it has
    closed;
  \<^item> when it returns a pool, that pool is open and its ping succeeded;
  \<^item> when \<open>GetUserDatabaseConnection\<close> returns an error, both caches are unchanged and
    again nothing more is open;
  \<^item> when it returns a pool on a miss, that pool is open, its ping succeeded, and it is
    the pool now cached for the user;
  \<^item> a step that fails makes \<open>createUserConnection\<close> return an error: the tunnel creation
    (the key file cannot be read or parsed, or the SSH server cannot be dialled), the
    parse of the original URL behind a tunnel, and, for the URL of the connection type,
    its parse, the construction of the pool and the ping;
  \<^item> on a miss, an error of \<open>createUserConnection\<close> is the error of
    \<open>GetUserDatabaseConnection\<close>, with the caches as they were.
  So a pool whose ping failed is neither cached nor returned.
\<close>

theorem failed_connection_releases_and_caches_nothing:
  assumes "fresh w"
  shows "(\<forall>err w'. createUserConnection net h w userID config = (Inl err, w') \<longrightarrow>
            openPools w' = openPools w \<and> openTunnels w' = openTunnels w)
       \<and> (\<forall>p st w'. createUserConnection net h w userID config = (Inr (p, st), w') \<longrightarrow>
            Ping net p = None \<and> p \<in> openPools w')
       \<and> (\<forall>err h' w'. GetUserDatabaseConnection net getConfig h w userID = (Inl err, h', w') \<longrightarrow>
            h' = h \<and> openPools w' = openPools w \<and> openTunnels w' = openTunnels w)
       \<and> (\<forall>p h' w'. map_of (userDBPools h) userID = None \<longrightarrow>
            GetUserDatabaseConnection net getConfig h w userID = (Inr p, h', w') \<longrightarrow>
            Ping net p = None \<and> p \<in> openPools w' \<and> map_of (userDBPools h') userID = Some p)
       \<and> (\<forall>ssh. ConnectionType config = ''ssh'' \<longrightarrow> SSHConfig config = Some ssh \<longrightarrow>
            (isl (ReadFile net (KeyPath ssh)) \<or>
             (\<exists>key. ReadFile net (KeyPath ssh) = Inr key \<and>
                (ParsePrivateKey net key \<noteq> None \<or>
                 Dial net (JoinHostPort (Host ssh) (Port ssh)) (User ssh) key \<noteq> None))) \<longrightarrow>
            (\<exists>err. createUserConnection net h w userID config =
                     (Inl (''failed to create SSH tunnel: '' @ err), w)))
       \<and> (\<forall>ssh key e. ConnectionType config = ''ssh'' \<longrightarrow> SSHConfig config = Some ssh \<longrightarrow>
            ReadFile net (KeyPath ssh) = Inr key \<longrightarrow> ParsePrivateKey net key = None \<longrightarrow>
            Dial net (JoinHostPort (Host ssh) (Port ssh)) (User ssh) key = None \<longrightarrow>
            ParseConfig net (DatabaseURL config) = Inl e \<longrightarrow>
            fst (createUserConnection net h w userID config) =
              Inl (''failed to parse original database URL: '' @ e))
       \<and> (\<forall>dbURL.
            (ConnectionType config = ''postgresql'' \<and> dbURL = DatabaseURL config)
          \<or> (ConnectionType config = ''wireguard'' \<and>
               (\<exists>wg. WireguardConfig config = Some wg \<and> InternalDBURL wg \<noteq> [] \<and>
                     dbURL = InternalDBURL wg))
          \<or> (ConnectionType config = ''ssh'' \<and>
               (\<exists>ssh key pc0. SSHConfig config = Some ssh \<and>
                  ReadFile net (KeyPath ssh) = Inr key \<and> ParsePrivateKey net key = None \<and>
                  Dial net (JoinHostPort (Host ssh) (Port ssh)) (User ssh) key = None \<and>
                  ParseConfig net (DatabaseURL config) = Inr pc0 \<and>
                  dbURL = tunnelURL pc0 (15432 + int (length (userSSHTunnels h))))) \<longrightarrow>
            (\<forall>e. ParseConfig net dbURL = Inl e \<longrightarrow>
               fst (createUserConnection net h w userID config) =
                 Inl (''failed to parse database URL: '' @ e))
          \<and> (\<forall>pc e. ParseConfig net dbURL = Inr pc \<longrightarrow>
               NewWithConfig net (pc\<lparr>MaxConns := 10, MinConns := 2, MaxConnLifetime := 3600,
                                    MaxConnIdleTime := 900\<rparr>) = Some e \<longrightarrow>
               fst (createUserConnection net h w userID config) =
                 Inl (''failed to create connection pool: '' @ e))
          \<and> (\<forall>pc e. ParseConfig net dbURL = Inr pc \<longrightarrow>
               NewWithConfig net (pc\<lparr>MaxConns := 10, MinConns := 2, MaxConnLifetime := 3600,
                                    MaxConnIdleTime := 900\<rparr>) = None \<longrightarrow>
               Ping net (poolsBuilt w) = Some e \<longrightarrow>
               fst (createUserConnection net h w userID config) =
                 Inl (''failed to ping database: '' @ e)))
       \<and> (\<forall>e. map_of (userDBPools h) userID = None \<longrightarrow> getConfig userID = Inr config \<longrightarrow>
            fst (createUserConnection net h w userID config) = Inl e \<longrightarrow>
            GetUserDatabaseConnection net getConfig h w userID =
              (Inl (''failed to create user database connection: '' @ e), h,
               snd (createUserConnection net h w userID config)))"
proof -
  have c1: "openPools w' = openPools w \<and> openTunnels w' = openTunnels w"
    if "createUserConnection net h w userID config = (Inl err, w')" for err w'
    using createUserConnection_Inl [OF that assms] .
  have c2: "Ping net p = None \<and> p \<in> openPools w'"
    if "createUserConnection net h w userID config = (Inr (p, st), w')" for p st w'
    using createUserConnection_Inr [OF that] by blast
  have c3: "h' = h \<and> openPools w' = openPools w \<and> openTunnels w' = openTunnels w"
    if "GetUserDatabaseConnection net getConfig h w userID = (Inl err, h', w')" for err h' w'
    using GetUserDatabaseConnection_Inl [OF that assms] .
  have c4: "Ping net p = None \<and> p \<in> openPools w' \<and> map_of (userDBPools h') userID = Some p"
    if "map_of (userDBPools h) userID = None"
      and "GetUserDatabaseConnection net getConfig h w userID = (Inr p, h', w')" for p h' w'
    using GetUserDatabaseConnection_miss_Inr [OF that(2,1)] by blast
  have c5: "\<exists>err. createUserConnection net h w userID config =
                   (Inl (''failed to create SSH tunnel: '' @ err), w)"
    if t: "ConnectionType config = ''ssh''" and s: "SSHConfig config = Some ssh"
      and d: "isl (ReadFile net (KeyPath ssh)) \<or>
             (\<exists>key. ReadFile net (KeyPath ssh) = Inr key \<and>
                (ParsePrivateKey net key \<noteq> None \<or>
                 Dial net (JoinHostPort (Host ssh) (Port ssh)) (User ssh) key \<noteq> None))" for ssh
  proof -
    from NewSSHTunnel_down [OF d] obtain err where
      "NewSSHTunnel net w (Host ssh) (Port ssh) (User ssh) (KeyPath ssh)
         (''localhost:'' @ formatInt (15432 + int (length (userSSHTunnels h)))) ''localhost:5432''
       = (Inl err, w)"
      by blast
    with t s have "createUserConnection net h w userID config =
                     (Inl (''failed to create SSH tunnel: '' @ err), w)"
      by (simp add: createUserConnection_def Let_def)
    then show ?thesis ..
  qed
  have c6: "fst (createUserConnection net h w userID config) =
              Inl (''failed to parse original database URL: '' @ e)"
    if t: "ConnectionType config = ''ssh''" and s: "SSHConfig config = Some ssh"
      and k: "ReadFile net (KeyPath ssh) = Inr key" "ParsePrivateKey net key = None"
             "Dial net (JoinHostPort (Host ssh) (Port ssh)) (User ssh) key = None"
      and p: "ParseConfig net (DatabaseURL config) = Inl e" for ssh key e
    using t s p by (simp add: createUserConnection_def NewSSHTunnel_up [OF k] Let_def)
  have c7: "(\<forall>e. ParseConfig net dbURL = Inl e \<longrightarrow>
               fst (createUserConnection net h w userID config) =
                 Inl (''failed to parse database URL: '' @ e))
          \<and> (\<forall>pc e. ParseConfig net dbURL = Inr pc \<longrightarrow>
               NewWithConfig net (pc\<lparr>MaxConns := 10, MinConns := 2, MaxConnLifetime := 3600,
                                    MaxConnIdleTime := 900\<rparr>) = Some e \<longrightarrow>
               fst (createUserConnection net h w userID config) =
                 Inl (''failed to create connection pool: '' @ e))
          \<and> (\<forall>pc e. ParseConfig net dbURL = Inr pc \<longrightarrow>
               NewWithConfig net (pc\<lparr>MaxConns := 10, MinConns := 2, MaxConnLifetime := 3600,
                                    MaxConnIdleTime := 900\<rparr>) = None \<longrightarrow>
               Ping net (poolsBuilt w) = Some e \<longrightarrow>
               fst (createUserConnection net h w userID config) =
                 Inl (''failed to ping database: '' @ e))"
    if u: "(ConnectionType config = ''postgresql'' \<and> dbURL = DatabaseURL config)
          \<or> (ConnectionType config = ''wireguard'' \<and>
               (\<exists>wg. WireguardConfig config = Some wg \<and> InternalDBURL wg \<noteq> [] \<and>
                     dbURL = InternalDBURL wg))
          \<or> (ConnectionType config = ''ssh'' \<and>
               (\<exists>ssh key pc0. SSHConfig config = Some ssh \<and>
                  ReadFile net (KeyPath ssh) = Inr key \<and> ParsePrivateKey net key = None \<and>
                  Dial net (JoinHostPort (Host ssh) (Port ssh)) (User ssh) key = None \<and>
                  ParseConfig net (DatabaseURL config) = Inr pc0 \<and>
                  dbURL = tunnelURL pc0 (15432 + int (length (userSSHTunnels h)))))" for dbURL
  proof -
    from createUserConnection_tail [OF u] obtain w1 t where
      e: "createUserConnection net h w userID config = connectPool net w1 dbURL t"
      and b: "poolsBuilt w1 = poolsBuilt w"
      by blast
    show ?thesis
      unfolding e using connectPool_steps [where net = net and dbURL = dbURL and w = w1 and t = t] b by simp
  qed
  have c8: "GetUserDatabaseConnection net getConfig h w userID =
              (Inl (''failed to create user database connection: '' @ e), h,
               snd (createUserConnection net h w userID config))"
    if "map_of (userDBPools h) userID = None" and "getConfig userID = Inr config"
      and "fst (createUserConnection net h w userID config) = Inl e" for e
    using that by (rule GetUserDatabaseConnection_error [where getConfig = getConfig])
  show ?thesis
    apply (intro conjI allI impI)
    using c1 apply blast
    using c1 apply blast
    using c2 apply blast
    using c2 apply blast
    using c3 apply blast
    using c3 apply blast
    using c3 apply blast
    using c4 apply blast
    using c4 apply blast
    using c4 apply blast
    using c5 apply blast
    using c6 apply blast
    using c7 apply blast
    using c7 apply blast
    using c7 apply blast
    using c8 apply blast
    done
qed

lemmas broker_defs = GetUserDatabaseConnection_def createUserConnection_def connectPool_def
  NewSSHTunnel_def closeIfTunnel_def closeTunnel_def closePool_def mapStore_def JoinHostPort_def
  goodNetwork_def deafNetwork_def unreachableNetwork_def fullNetwork_def garbledNetwork_def
  sshConfigOf_def coldHandler_def noResources_def
  defaultPoolConfig_def joinParams_def tunnelURL_def Let_def

lemma fresh_noResources: "fresh noResources"
  by (simp add: fresh_def noResources_def)

lemma deaf_call:
  "GetUserDatabaseConnection deafNetwork sshConfigOf coldHandler noResources ''u1'' =
     (Inl ''failed to create user database connection: failed to ping database: connection refused'',
      coldHandler,
      \<lparr>tunnelsBuilt = 1, poolsBuilt = 1, openTunnels = {}, openPools = {}\<rparr>)"
  by (simp add: broker_defs)

lemma first_call:
  "GetUserDatabaseConnection goodNetwork sshConfigOf coldHandler noResources ''u1'' =
     (Inr 0, \<lparr>userDBPools = [(''u1'', 0)], userSSHTunnels = [(''u1'', 0)]\<rparr>,
      \<lparr>tunnelsBuilt = 1, poolsBuilt = 1, openTunnels = {0}, openPools = {0}\<rparr>)"
  by (simp add: broker_defs)

lemma cold_miss: "map_of (userDBPools coldHandler) ''u1'' = None"
  by (simp add: coldHandler_def)

lemma sshConfigOf_u1:
  "sshConfigOf ''u1'' = Inr (projr (sshConfigOf ''u1''))"
  "ConnectionType (projr (sshConfigOf ''u1'')) = ''ssh''"
  "SSHConfig (projr (sshConfigOf ''u1'')) =
     Some \<lparr>Host = ''bastion'', Port = ''22'', User = ''ops'', KeyPath = ''/keys/id''\<rparr>"
  by (simp_all add: sshConfigOf_def)

text \<open>
  An SSH configuration on four networks with a cold cache. Where the ping is refused,
  tunnel 0 and pool 0 are built and closed again and nothing is cached. Where the ping
  is answered, pool 0 is returned, open and cached. Where the SSH server cannot be
  dialled, and where the pool cannot be constructed behind the tunnel, the call returns
  the error of that step, with nothing open and nothing cached.
\<close>

theorem failed_connection_releases_and_caches_nothing_witness:
  "GetUserDatabaseConnection deafNetwork sshConfigOf coldHandler noResources ''u1'' =
     (Inl ''failed to create user database connection: failed to ping database: connection refused'',
      coldHandler,
      \<lparr>tunnelsBuilt = 1, poolsBuilt = 1, openTunnels = {}, openPools = {}\<rparr>)
   \<and> openPools \<lparr>tunnelsBuilt = 1, poolsBuilt = 1, openTunnels = {}, openPools = {}\<rparr> =
       openPools noResources
   \<and> openTunnels \<lparr>tunnelsBuilt = 1, poolsBuilt = 1, openTunnels = {}, openPools = {}\<rparr> =
       openTunnels noResources
   \<and> GetUserDatabaseConnection goodNetwork sshConfigOf coldHandler noResources ''u1'' =
     (Inr 0, \<lparr>userDBPools = [(''u1'', 0)], userSSHTunnels = [(''u1'', 0)]\<rparr>,
      \<lparr>tunnelsBuilt = 1, poolsBuilt = 1, openTunnels = {0}, openPools = {0}\<rparr>)
   \<and> Ping goodNetwork 0 = None
   \<and> map_of (userDBPools \<lparr>userDBPools = [(''u1'', 0)], userSSHTunnels = [(''u1'', 0)]\<rparr>) ''u1'' =
       Some 0
   \<and> (\<exists>err. createUserConnection unreachableNetwork coldHandler noResources ''u1''
               (projr (sshConfigOf ''u1'')) =
             (Inl (''failed to create SSH tunnel: '' @ err), noResources))
   \<and> GetUserDatabaseConnection fullNetwork sshConfigOf coldHandler noResources ''u1'' =
       (Inl ''failed to create user database connection: failed to create connection pool: too many clients'',
        coldHandler,
        \<lparr>tunnelsBuilt = 1, poolsBuilt = 0, openTunnels = {}, openPools = {}\<rparr>)"
proof -
  note deaf = failed_connection_releases_and_caches_nothing [OF fresh_noResources,
            where net = deafNetwork and h = coldHandler and userID = "''u1''"
              and config = "projr (sshConfigOf ''u1'')" and getConfig = sshConfigOf]
  note good = failed_connection_releases_and_caches_nothing [OF fresh_noResources,
            where net = goodNetwork and h = coldHandler and userID = "''u1''"
              and config = "projr (sshConfigOf ''u1'')" and getConfig = sshConfigOf]
  note unreachable = failed_connection_releases_and_caches_nothing [OF fresh_noResources,
            where net = unreachableNetwork and h = coldHandler and userID = "''u1''"
              and config = "projr (sshConfigOf ''u1'')" and getConfig = sshConfigOf]
  note full = failed_connection_releases_and_caches_nothing [OF fresh_noResources,
            where net = fullNetwork and h = coldHandler and userID = "''u1''"
              and config = "projr (sshConfigOf ''u1'')" and getConfig = sshConfigOf]
  have a: "openPools \<lparr>tunnelsBuilt = 1, poolsBuilt = 1, openTunnels = {}, openPools = {}\<rparr> =
             openPools noResources
         \<and> openTunnels \<lparr>tunnelsBuilt = 1, poolsBuilt = 1, openTunnels = {}, openPools = {}\<rparr> =
             openTunnels noResources"
    using deaf [THEN conjunct2, THEN conjunct2, THEN conjunct1, rule_format, OF deaf_call]
    by simp
  have b: "Ping goodNetwork 0 = None
         \<and> map_of (userDBPools \<lparr>userDBPools = [(''u1'', 0)], userSSHTunnels = [(''u1'', 0)]\<rparr>)
               ''u1'' = Some 0"
    using good [THEN conjunct2, THEN conjunct2, THEN conjunct2, THEN conjunct1, rule_format,
                OF cold_miss first_call]
    by simp
  have d: "isl (ReadFile unreachableNetwork
                  (KeyPath \<lparr>Host = ''bastion'', Port = ''22'', User = ''ops'', KeyPath = ''/keys/id''\<rparr>))
         \<or> (\<exists>key. ReadFile unreachableNetwork
                  (KeyPath \<lparr>Host = ''bastion'', Port = ''22'', User = ''ops'', KeyPath = ''/keys/id''\<rparr>)
                = Inr key \<and>
               (ParsePrivateKey unreachableNetwork key \<noteq> None \<or>
                Dial unreachableNetwork
                  (JoinHostPort (Host \<lparr>Host = ''bastion'', Port = ''22'', User = ''ops'', KeyPath = ''/keys/id''\<rparr>)
                                (Port \<lparr>Host = ''bastion'', Port = ''22'', User = ''ops'', KeyPath = ''/keys/id''\<rparr>))
                  (User \<lparr>Host = ''bastion'', Port = ''22'', User = ''ops'', KeyPath = ''/keys/id''\<rparr>) key
                \<noteq> None))"
    by (simp add: unreachableNetwork_def goodNetwork_def)
  have c: "\<exists>err. createUserConnection unreachableNetwork coldHandler noResources ''u1''
               (projr (sshConfigOf ''u1'')) =
             (Inl (''failed to create SSH tunnel: '' @ err), noResources)"
    by (rule unreachable [THEN conjunct2, THEN conjunct2, THEN conjunct2, THEN conjunct2,
                          THEN conjunct1, rule_format, OF sshConfigOf_u1(2) sshConfigOf_u1(3) d])
  have f: "fst (createUserConnection fullNetwork coldHandler noResources ''u1''
                  (projr (sshConfigOf ''u1''))) =
             Inl ''failed to create connection pool: too many clients''"
          "snd (createUserConnection fullNetwork coldHandler noResources ''u1''
                  (projr (sshConfigOf ''u1''))) =
             \<lparr>tunnelsBuilt = 1, poolsBuilt = 0, openTunnels = {}, openPools = {}\<rparr>"
    by (simp_all add: broker_defs)
  have g: "GetUserDatabaseConnection fullNetwork sshConfigOf coldHandler noResources ''u1'' =
       (Inl ''failed to create user database connection: failed to create connection pool: too many clients'',
        coldHandler,
        \<lparr>tunnelsBuilt = 1, poolsBuilt = 0, openTunnels = {}, openPools = {}\<rparr>)"
    using full [THEN conjunct2, THEN conjunct2, THEN conjunct2, THEN conjunct2, THEN conjunct2,
                THEN conjunct2, THEN conjunct2, rule_format,
                OF cold_miss sshConfigOf_u1(1) f(1)]
    by (simp add: f(2))
  from a b c g deaf_call first_call show ?thesis by simp
qed

lemma callInTurn_hit:
  "map_of (userDBPools h) userID = Some p \<Longrightarrow>
   callInTurn net getConfig n userID (h, w) = (replicate n (Inr p), h, w)"
  by (induction n) (simp_all add: GetUserDatabaseConnection_hit)

text \<open>
  Claim C2, as the code has it. Construction is not serialized per user; what the cache
  gives is this. When calls for one user are made one after the other, each returning
  before the next starts, from a cache with no pool for that user, and the first call
  succeeds, then every call returns the pool of the first, exactly one pool was built,
  and at most one tunnel.
\<close>

theorem calls_in_turn_build_once:
  assumes "map_of (userDBPools h) userID = None"
    and "GetUserDatabaseConnection net getConfig h w userID = (Inr p, h1, w1)"
  shows "callInTurn net getConfig (Suc n) userID (h, w) = (replicate (Suc n) (Inr p), h1, w1)
       \<and> poolsBuilt w1 = Suc (poolsBuilt w) \<and> tunnelsBuilt w1 \<le> Suc (tunnelsBuilt w)"
proof -
  from GetUserDatabaseConnection_miss_Inr [OF assms(2,1)]
  have c: "map_of (userDBPools h1) userID = Some p"
    and b: "poolsBuilt w1 = Suc (poolsBuilt w)" "tunnelsBuilt w1 \<le> Suc (tunnelsBuilt w)"
    by simp_all
  show ?thesis using assms(2) b by (simp add: callInTurn_hit [OF c])
qed

text \<open>Three calls in turn.\<close>

theorem calls_in_turn_build_once_witness:
  "callInTurn goodNetwork sshConfigOf 3 ''u1'' (coldHandler, noResources) =
     ([Inr 0, Inr 0, Inr 0], \<lparr>userDBPools = [(''u1'', 0)], userSSHTunnels = [(''u1'', 0)]\<rparr>,
      \<lparr>tunnelsBuilt = 1, poolsBuilt = 1, openTunnels = {0}, openPools = {0}\<rparr>)"
proof -
  from calls_in_turn_build_once [OF cold_miss first_call, of 2] show ?thesis
    by (simp add: numeral_3_eq_3 numeral_2_eq_2)
qed

text \<open>
  Claim C2 as stated fails. Two calls for the same user overlap: both look up and miss
  before either has stored. Each builds a tunnel and a pool; the first caller gets pool
  0, the second pool 1, the cache keeps pool 1 and tunnel 1, and pool 0 and tunnel 0
  stay open with no entry in the cache.
\<close>

theorem overlapping_calls_build_twice:
  "runSchedule goodNetwork sshConfigOf [0, 1, 0, 1, 0, 1]
       ((coldHandler, noResources), [Start ''u1'', Start ''u1'']) =
     ((\<lparr>userDBPools = [(''u1'', 1)], userSSHTunnels = [(''u1'', 1)]\<rparr>,
       \<lparr>tunnelsBuilt = 2, poolsBuilt = 2, openTunnels = {0, 1}, openPools = {0, 1}\<rparr>),
      [Done (Inr 0), Done (Inr 1)])"
  by (simp add: createUserConnection_def connectPool_def
  NewSSHTunnel_def closeIfTunnel_def closeTunnel_def closePool_def mapStore_def JoinHostPort_def
  goodNetwork_def sshConfigOf_def coldHandler_def noResources_def
  defaultPoolConfig_def joinParams_def Let_def insert_commute)

text \<open>The three steps of a call that no other call interrupts are
  \<open>GetUserDatabaseConnection\<close>.\<close>

lemma call_alone:
  "runSchedule net getConfig [0, 0, 0] ((h, w), [Start userID]) =
     (case GetUserDatabaseConnection net getConfig h w userID of
        (r, h', w') \<Rightarrow> ((h', w'), [Done r]))"
  by (auto simp: GetUserDatabaseConnection_def split: option.splits sum.splits prod.splits)

section \<open>Properties of the configuration store\<close>

text \<open>What each step of the transaction leaves alone.\<close>

lemma ensureUserExists_Inr:
  assumes "ensureUserExists srv db userID userEmail = Inr db1"
  shows "database_configs db1 = database_configs db \<and> ssh_configs db1 = ssh_configs db \<and>
         wireguard_configs db1 = wireguard_configs db \<and> users db1 userID \<noteq> None \<and>
         fault srv ''select exists'' = None \<and>
         (users db userID = None \<longrightarrow> fault srv ''insert user'' = None)"
  using assms
  by (auto simp: ensureUserExists_def split: option.splits)

lemma saveDatabaseConfig_Inr:
  assumes "saveDatabaseConfig cr ce srv rnd db userID config = (Inr db2, rnd1)"
  shows "users db2 = users db \<and> ssh_configs db2 = ssh_configs db \<and>
         wireguard_configs db2 = wireguard_configs db"
  using assms
  by (auto simp: saveDatabaseConfig_def split: option.splits sum.splits prod.splits)

lemma saveSSHConfig_Inr:
  assumes "saveSSHConfig cr ce srv rnd db userID config ssh = (Inr db2, rnd1)"
  shows "users db2 = users db \<and> database_configs db2 = database_configs db \<and>
         wireguard_configs db2 = wireguard_configs db"
  using assms
  by (auto simp: saveSSHConfig_def split: option.splits sum.splits prod.splits)

lemma saveWireguardConfig_Inr:
  assumes "saveWireguardConfig cr ce srv rnd db userID wg = (Inr db2, rnd1)"
  shows "users db2 = users db \<and> database_configs db2 = database_configs db \<and>
         ssh_configs db2 = ssh_configs db"
  using assms
  by (auto simp: saveWireguardConfig_def split: option.splits sum.splits prod.splits)

lemma updateUserConnectionFlags_Inr:
  assumes "updateUserConnectionFlags srv db userID t = Inr db3" and "users db userID \<noteq> None"
  shows "database_configs db3 = database_configs db \<and> ssh_configs db3 = ssh_configs db \<and>
         wireguard_configs db3 = wireguard_configs db \<and>
         Option.bind (users db3 userID) active_connection_type = Some t \<and>
         (t = ''postgresql'' \<or> t = ''ssh'' \<or> t = ''wireguard'') \<and>
         fault srv ''update users'' = None"
  using assms
  by (auto simp: updateUserConnectionFlags_def Let_def split: option.splits if_splits)

text \<open>What each save writes, and what it needs to succeed.\<close>

lemma EncryptConfig_entropy:
  "EncryptConfig cr ce rnd userID configType x = (Inr c, rnd') \<Longrightarrow> NonceSize \<le> length rnd"
  by (auto simp: EncryptConfig_def ReadFull_def Let_def split: sum.splits if_splits)

lemma saveDatabaseConfig_row:
  assumes "saveDatabaseConfig cr ce srv rnd db userID config = (Inr db2, rnd1)"
  shows "\<exists>enc. EncryptConfig cr ce rnd userID ''postgresql'' (DatabaseURL config) = (Inr enc, rnd1) \<and>
           fault srv ''upsert database_configs'' = None \<and>
           database_configs db2 userID =
             Some \<lparr>db_database_url_encrypted = enc, db_is_active = True\<rparr>"
proof -
  obtain r rnd' where e: "EncryptConfig cr ce rnd userID ''postgresql'' (DatabaseURL config) = (r, rnd')"
    by (cases "EncryptConfig cr ce rnd userID ''postgresql'' (DatabaseURL config)") auto
  obtain enc where r: "r = Inr enc"
    using assms e by (cases r) (simp_all add: saveDatabaseConfig_def)
  have f: "fault srv ''upsert database_configs'' = None"
    using assms e r by (cases "fault srv ''upsert database_configs''") (simp_all add: saveDatabaseConfig_def)
  from assms e r f show ?thesis by (auto simp: saveDatabaseConfig_def)
qed

lemma saveSSHConfig_row:
  assumes "saveSSHConfig cr ce srv rnd db userID config ssh = (Inr db2, rnd4)"
  shows "\<exists>eh eu ek ed n r1 r2 r3.
           EncryptConfig cr ce rnd userID ''ssh'' (Host ssh) = (Inr eh, r1) \<and>
           EncryptConfig cr ce r1 userID ''ssh'' (User ssh) = (Inr eu, r2) \<and>
           EncryptConfig cr ce r2 userID ''ssh'' (KeyPath ssh) = (Inr ek, r3) \<and>
           EncryptConfig cr ce r3 userID ''ssh'' (DatabaseURL config) = (Inr ed, rnd4) \<and>
           fault srv ''upsert ssh_configs'' = None \<and> int4in srv (Port ssh) = Some n \<and>
           ssh_configs db2 userID =
             Some \<lparr>host_encrypted = eh, port = n, username_encrypted = eu,
                   key_path_encrypted = ek, ssh_database_url_encrypted = ed,
                   ssh_is_active = True, tunnel_status = ''disconnected''\<rparr>"
proof -
  obtain x1 r1 where e1: "EncryptConfig cr ce rnd userID ''ssh'' (Host ssh) = (x1, r1)"
    by (cases "EncryptConfig cr ce rnd userID ''ssh'' (Host ssh)") auto
  obtain eh where h: "x1 = Inr eh"
    using assms e1 by (cases x1) (simp_all add: saveSSHConfig_def)
  obtain x2 r2 where e2: "EncryptConfig cr ce r1 userID ''ssh'' (User ssh) = (x2, r2)"
    by (cases "EncryptConfig cr ce r1 userID ''ssh'' (User ssh)") auto
  obtain eu where u: "x2 = Inr eu"
    using assms e1 h e2 by (cases x2) (simp_all add: saveSSHConfig_def)
  obtain x3 r3 where e3: "EncryptConfig cr ce r2 userID ''ssh'' (KeyPath ssh) = (x3, r3)"
    by (cases "EncryptConfig cr ce r2 userID ''ssh'' (KeyPath ssh)") auto
  obtain ek where k: "x3 = Inr ek"
    using assms e1 h e2 u e3 by (cases x3) (simp_all add: saveSSHConfig_def)
  obtain x4 r4 where e4: "EncryptConfig cr ce r3 userID ''ssh'' (DatabaseURL config) = (x4, r4)"
    by (cases "EncryptConfig cr ce r3 userID ''ssh'' (DatabaseURL config)") auto
  obtain ed where d: "x4 = Inr ed"
    using assms e1 h e2 u e3 k e4 by (cases x4) (simp_all add: saveSSHConfig_def)
  have f: "fault srv ''upsert ssh_configs'' = None"
    using assms e1 h e2 u e3 k e4 d
    by (cases "fault srv ''upsert ssh_configs''") (simp_all add: saveSSHConfig_def)
  obtain n where n: "int4in srv (Port ssh) = Some n"
    using assms e1 h e2 u e3 k e4 d f
    by (cases "int4in srv (Port ssh)") (simp_all add: saveSSHConfig_def)
  have "r4 = rnd4" and "ssh_configs db2 userID =
             Some \<lparr>host_encrypted = eh, port = n, username_encrypted = eu,
                   key_path_encrypted = ek, ssh_database_url_encrypted = ed,
                   ssh_is_active = True, tunnel_status = ''disconnected''\<rparr>"
    using assms e1 h e2 u e3 k e4 d f n by (auto simp: saveSSHConfig_def)
  with e1 h e2 u e3 k e4 d f n show ?thesis by blast
qed

lemma saveWireguardConfig_row:
  assumes "saveWireguardConfig cr ce srv rnd db userID wg = (Inr db2, rnd2)"
  shows "\<exists>ec ed r1.
           EncryptConfig cr ce rnd userID ''wireguard'' (Config wg) = (Inr ec, r1) \<and>
           EncryptConfig cr ce r1 userID ''wireguard'' (InternalDBURL wg) = (Inr ed, rnd2) \<and>
           fault srv ''upsert wireguard_configs'' = None \<and>
           wireguard_configs db2 userID =
             Some \<lparr>config_content_encrypted = ec, internal_db_url_encrypted = ed,
                   wg_is_active = True, vpn_status = ''disconnected''\<rparr>"
proof -
  obtain x1 r1 where e1: "EncryptConfig cr ce rnd userID ''wireguard'' (Config wg) = (x1, r1)"
    by (cases "EncryptConfig cr ce rnd userID ''wireguard'' (Config wg)") auto
  obtain ec where c: "x1 = Inr ec"
    using assms e1 by (cases x1) (simp_all add: saveWireguardConfig_def)
  obtain x2 r2 where e2: "EncryptConfig cr ce r1 userID ''wireguard'' (InternalDBURL wg) = (x2, r2)"
    by (cases "EncryptConfig cr ce r1 userID ''wireguard'' (InternalDBURL wg)") auto
  obtain ed where d: "x2 = Inr ed"
    using assms e1 c e2 by (cases x2) (simp_all add: saveWireguardConfig_def)
  have f: "fault srv ''upsert wireguard_configs'' = None"
    using assms e1 c e2 d
    by (cases "fault srv ''upsert wireguard_configs''") (simp_all add: saveWireguardConfig_def)
  have "r2 = rnd2" and "wireguard_configs db2 userID =
             Some \<lparr>config_content_encrypted = ec, internal_db_url_encrypted = ed,
                   wg_is_active = True, vpn_status = ''disconnected''\<rparr>"
    using assms e1 c e2 d f by (auto simp: saveWireguardConfig_def)
  with e1 c e2 d f show ?thesis by blast
qed

text \<open>With an AEAD whose \<open>Open\<close> undoes \<open>Seal\<close>, each loader returns what was saved.\<close>

lemma loadDatabaseConfig_saved:
  assumes "digest32 cr" and "aeadCorrect cr"
    and "EncryptConfig cr ce rnd userID ''postgresql'' url = (Inr enc, rnd1)"
    and "database_configs db userID = Some \<lparr>db_database_url_encrypted = enc, db_is_active = True\<rparr>"
  shows "loadDatabaseConfig cr ce db userID =
           Inr \<lparr>ConnectionType = ''postgresql'', DatabaseURL = url, SSHConfig = None,
                WireguardConfig = None\<rparr>"
  using assms(4) EncryptConfig_then_DecryptConfig [OF assms(1,2,3)]
  by (simp add: loadDatabaseConfig_def)

lemma loadSSHConfig_saved:
  assumes "digest32 cr" and "aeadCorrect cr"
    and "EncryptConfig cr ce rnd userID ''ssh'' host = (Inr eh, r1)"
    and "EncryptConfig cr ce r1 userID ''ssh'' user = (Inr eu, r2)"
    and "EncryptConfig cr ce r2 userID ''ssh'' keyPath = (Inr ek, r3)"
    and "EncryptConfig cr ce r3 userID ''ssh'' url = (Inr ed, r4)"
    and "ssh_configs db userID =
           Some \<lparr>host_encrypted = eh, port = n, username_encrypted = eu,
                 key_path_encrypted = ek, ssh_database_url_encrypted = ed,
                 ssh_is_active = True, tunnel_status = ''disconnected''\<rparr>"
  shows "loadSSHConfig cr ce db userID =
           Inr \<lparr>ConnectionType = ''ssh'', DatabaseURL = url,
                SSHConfig = Some \<lparr>Host = host, Port = formatInt n, User = user, KeyPath = keyPath\<rparr>,
                WireguardConfig = None\<rparr>"
  using assms(7) EncryptConfig_then_DecryptConfig [OF assms(1,2,3)]
    EncryptConfig_then_DecryptConfig [OF assms(1,2,4)]
    EncryptConfig_then_DecryptConfig [OF assms(1,2,5)]
    EncryptConfig_then_DecryptConfig [OF assms(1,2,6)]
  by (simp add: loadSSHConfig_def)

lemma loadWireguardConfig_saved:
  assumes "digest32 cr" and "aeadCorrect cr"
    and "EncryptConfig cr ce rnd userID ''wireguard'' content = (Inr ec, r1)"
    and "EncryptConfig cr ce r1 userID ''wireguard'' url = (Inr ed, r2)"
    and "wireguard_configs db userID =
           Some \<lparr>config_content_encrypted = ec, internal_db_url_encrypted = ed,
                 wg_is_active = True, vpn_status = ''disconnected''\<rparr>"
  shows "loadWireguardConfig cr ce db userID =
           Inr \<lparr>ConnectionType = ''wireguard'', DatabaseURL = [], SSHConfig = None,
                WireguardConfig = Some \<lparr>Config = content, InternalDBURL = url\<rparr>\<rparr>"
  using assms(5) EncryptConfig_then_DecryptConfig [OF assms(1,2,3)]
    EncryptConfig_then_DecryptConfig [OF assms(1,2,4)]
  by (simp add: loadWireguardConfig_def)


lemma saveByType_Inr:
  assumes "saveByType cr ce srv rnd db userID config = (Inr db2, rnd1)"
  shows "users db2 = users db"
    and "ConnectionType config \<noteq> ''postgresql'' \<Longrightarrow> database_configs db2 = database_configs db"
    and "ConnectionType config \<noteq> ''ssh'' \<Longrightarrow> ssh_configs db2 = ssh_configs db"
    and "ConnectionType config \<noteq> ''wireguard'' \<Longrightarrow> wireguard_configs db2 = wireguard_configs db"
proof -
  consider (pg) "ConnectionType config = ''postgresql''"
    | (ssh) "ConnectionType config \<noteq> ''postgresql''" "ConnectionType config = ''ssh''"
    | (wg) "ConnectionType config \<noteq> ''postgresql''" "ConnectionType config \<noteq> ''ssh''"
           "ConnectionType config = ''wireguard''"
    | (other) "ConnectionType config \<noteq> ''postgresql''" "ConnectionType config \<noteq> ''ssh''"
           "ConnectionType config \<noteq> ''wireguard''"
    by blast
  then have "users db2 = users db \<and>
     (ConnectionType config \<noteq> ''postgresql'' \<longrightarrow> database_configs db2 = database_configs db) \<and>
     (ConnectionType config \<noteq> ''ssh'' \<longrightarrow> ssh_configs db2 = ssh_configs db) \<and>
     (ConnectionType config \<noteq> ''wireguard'' \<longrightarrow> wireguard_configs db2 = wireguard_configs db)"
  proof cases
    case pg
    with assms have "saveDatabaseConfig cr ce srv rnd db userID config = (Inr db2, rnd1)"
      by (simp add: saveByType_def)
    from saveDatabaseConfig_Inr [OF this] pg show ?thesis by simp
  next
    case ssh
    with assms obtain sc where "saveSSHConfig cr ce srv rnd db userID config sc = (Inr db2, rnd1)"
      by (cases "SSHConfig config") (simp_all add: saveByType_def)
    from saveSSHConfig_Inr [OF this] ssh show ?thesis by simp
  next
    case wg
    with assms obtain wc where "saveWireguardConfig cr ce srv rnd db userID wc = (Inr db2, rnd1)"
      by (cases "WireguardConfig config") (simp_all add: saveByType_def)
    from saveWireguardConfig_Inr [OF this] wg show ?thesis by simp
  next
    case other
    with assms show ?thesis by (simp add: saveByType_def)
  qed
  then show "users db2 = users db"
    and "ConnectionType config \<noteq> ''postgresql'' \<Longrightarrow> database_configs db2 = database_configs db"
    and "ConnectionType config \<noteq> ''ssh'' \<Longrightarrow> ssh_configs db2 = ssh_configs db"
    and "ConnectionType config \<noteq> ''wireguard'' \<Longrightarrow> wireguard_configs db2 = wireguard_configs db"
    by blast+
qed

text \<open>The two ways the transaction ends.\<close>

lemma saveTransaction_error:
  assumes "saveTransaction cr ce srv rnd db userID userEmail config = ((Some e, db'), rnd')"
  shows "db' = db"
proof (cases "Begin srv db")
  case (Inl err)
  with assms show ?thesis by (simp add: saveTransaction_def)
next
  case (Inr tx)
  show ?thesis
  proof (cases "ensureUserExists srv tx userID userEmail")
    case (Inl err)
    with assms Inr show ?thesis by (simp add: saveTransaction_def Rollback_def)
  next
    case e1: (Inr tx1)
    obtain r rnd1 where sr: "saveByType cr ce srv rnd tx1 userID config = (r, rnd1)"
      by (cases "saveByType cr ce srv rnd tx1 userID config") auto
    show ?thesis
    proof (cases r)
      case (Inl err)
      with assms Inr e1 sr show ?thesis by (simp add: saveTransaction_def Rollback_def)
    next
      case r: (Inr tx2)
      show ?thesis
      proof (cases "updateUserConnectionFlags srv tx2 userID (ConnectionType config)")
        case (Inl err)
        with assms Inr e1 sr r show ?thesis by (simp add: saveTransaction_def Rollback_def)
      next
        case u: (Inr tx3)
        show ?thesis
        proof (cases "fault srv ''commit''")
          case None
          with assms Inr e1 sr r u show ?thesis by (simp add: saveTransaction_def Commit_def)
        next
          case (Some err)
          with assms Inr e1 sr r u show ?thesis by (simp add: saveTransaction_def Commit_def)
        qed
      qed
    qed
  qed
qed

lemma saveTransaction_ok:
  assumes "saveTransaction cr ce srv rnd db userID userEmail config = ((None, db'), rnd')"
  shows "\<exists>tx1 tx2. fault srv ''begin'' = None \<and>
           ensureUserExists srv db userID userEmail = Inr tx1 \<and>
           saveByType cr ce srv rnd tx1 userID config = (Inr tx2, rnd') \<and>
           updateUserConnectionFlags srv tx2 userID (ConnectionType config) = Inr db' \<and>
           fault srv ''commit'' = None"
proof -
  have b: "fault srv ''begin'' = None"
    using assms by (cases "fault srv ''begin''") (simp_all add: saveTransaction_def Begin_def)
  then have bg: "Begin srv db = Inr db" by (simp add: Begin_def)
  obtain tx1 where e: "ensureUserExists srv db userID userEmail = Inr tx1"
    using assms bg
    by (cases "ensureUserExists srv db userID userEmail") (simp_all add: saveTransaction_def)
  obtain r rnd1 where sr: "saveByType cr ce srv rnd tx1 userID config = (r, rnd1)"
    by (cases "saveByType cr ce srv rnd tx1 userID config") auto
  obtain tx2 where r: "r = Inr tx2"
    using assms bg e sr by (cases r) (simp_all add: saveTransaction_def)
  obtain tx3 where u: "updateUserConnectionFlags srv tx2 userID (ConnectionType config) = Inr tx3"
    using assms bg e sr r
    by (cases "updateUserConnectionFlags srv tx2 userID (ConnectionType config)")
       (simp_all add: saveTransaction_def)
  have c: "fault srv ''commit'' = None"
    using assms bg e sr r u
    by (cases "fault srv ''commit''") (simp_all add: saveTransaction_def Commit_def)
  have "tx3 = db'" and "rnd1 = rnd'"
    using assms bg e sr r u c by (simp_all add: saveTransaction_def Commit_def)
  with b e sr r u c show ?thesis by simp
qed

text \<open>Each loader reads one table only, and names its own connection type.\<close>

lemma load_frame:
  "database_configs db' = database_configs db \<Longrightarrow>
     loadDatabaseConfig cr ce db' userID = loadDatabaseConfig cr ce db userID"
  "ssh_configs db' = ssh_configs db \<Longrightarrow>
     loadSSHConfig cr ce db' userID = loadSSHConfig cr ce db userID"
  "wireguard_configs db' = wireguard_configs db \<Longrightarrow>
     loadWireguardConfig cr ce db' userID = loadWireguardConfig cr ce db userID"
  by (simp_all add: loadDatabaseConfig_def loadSSHConfig_def loadWireguardConfig_def)

lemma load_type:
  "loadDatabaseConfig cr ce db userID = Inr cfg \<Longrightarrow> ConnectionType cfg = ''postgresql''"
  "loadSSHConfig cr ce db userID = Inr cfg \<Longrightarrow> ConnectionType cfg = ''ssh''"
  "loadWireguardConfig cr ce db userID = Inr cfg \<Longrightarrow> ConnectionType cfg = ''wireguard''"
  by (auto simp: loadDatabaseConfig_def loadSSHConfig_def loadWireguardConfig_def
           split: option.splits sum.splits if_splits)

lemma getUserDatabaseConfig_type:
  assumes "Option.bind (users db userID) active_connection_type = Some t"
    and "getUserDatabaseConfig cr ce db userID = Inr cfg"
  shows "ConnectionType cfg = t"
  using assms
  by (auto simp: getUserDatabaseConfig_def getUserDatabaseConfigAcross_def
           split: if_splits dest: load_type)

text \<open>A read whose two statements see the states before and after a commit that sets the
  active type to \<open>t\<close> and writes no table but that of \<open>t\<close>.\<close>

lemma straddling_read:
  assumes "Option.bind (users db' userID) active_connection_type = Some t"
    and "t \<noteq> ''postgresql'' \<Longrightarrow> database_configs db' = database_configs db"
    and "t \<noteq> ''ssh'' \<Longrightarrow> ssh_configs db' = ssh_configs db"
    and "t \<noteq> ''wireguard'' \<Longrightarrow> wireguard_configs db' = wireguard_configs db"
  shows "getUserDatabaseConfigAcross cr ce db db' userID = getUserDatabaseConfig cr ce db userID
       \<or> getUserDatabaseConfigAcross cr ce db db' userID = getUserDatabaseConfig cr ce db' userID"
proof (cases "Option.bind (users db userID) active_connection_type")
  case None
  then show ?thesis
    by (simp add: getUserDatabaseConfig_def getUserDatabaseConfigAcross_def)
next
  case (Some t0)
  show ?thesis
  proof (cases "t0 = t")
    case True
    with Some assms(1) show ?thesis
      by (simp add: getUserDatabaseConfig_def getUserDatabaseConfigAcross_def)
  next
    case False
    have p: "loadDatabaseConfig cr ce db' userID = loadDatabaseConfig cr ce db userID"
      if "t0 = ''postgresql''"
      using that False assms(2) by (intro load_frame(1)) simp
    have s: "loadSSHConfig cr ce db' userID = loadSSHConfig cr ce db userID" if "t0 = ''ssh''"
      using that False assms(3) by (intro load_frame(2)) simp
    have w: "loadWireguardConfig cr ce db' userID = loadWireguardConfig cr ce db userID"
      if "t0 = ''wireguard''"
      using that False assms(4) by (intro load_frame(3)) simp
    have "getUserDatabaseConfigAcross cr ce db db' userID = getUserDatabaseConfig cr ce db userID"
      using Some p s w
      by (simp add: getUserDatabaseConfig_def getUserDatabaseConfigAcross_def)
    then show ?thesis ..
  qed
qed

lemma closeExistingUserConnection_cache:
  "closeExistingUserConnection h w userID = (h1, w1) \<Longrightarrow> map_of (userDBPools h1) userID = None"
  by (auto simp: closeExistingUserConnection_def mapDelete_def Let_def map_of_eq_None_iff
           split: option.splits prod.splits)

lemma validateConfig_None:
  assumes "validateConfig config = None"
  shows "ConnectionType config = ''postgresql'' \<or> ConnectionType config = ''ssh'' \<or>
         ConnectionType config = ''wireguard''"
  using assms by (auto simp: validateConfig_def split: if_splits)

text \<open>What holds when every statement of the transaction went through.\<close>

lemma committed_facts:
  assumes v: "validateConfig config = None"
    and e: "ensureUserExists srv db userID userEmail = Inr tx1"
    and s: "saveByType cr ce srv rnd tx1 userID config = (Inr tx2, rnd')"
    and u: "updateUserConnectionFlags srv tx2 userID (ConnectionType config) = Inr db'"
  shows "Option.bind (users db' userID) active_connection_type = Some (ConnectionType config)"
    and "ConnectionType config \<noteq> ''postgresql'' \<Longrightarrow> database_configs db' = database_configs db"
    and "ConnectionType config \<noteq> ''ssh'' \<Longrightarrow> ssh_configs db' = ssh_configs db"
    and "ConnectionType config \<noteq> ''wireguard'' \<Longrightarrow> wireguard_configs db' = wireguard_configs db"
    and "fault srv ''select exists'' = None"
    and "users db userID = None \<Longrightarrow> fault srv ''insert user'' = None"
    and "fault srv ''update users'' = None"
    and "database_configs db' = database_configs tx2"
    and "ssh_configs db' = ssh_configs tx2"
    and "wireguard_configs db' = wireguard_configs tx2"
proof -
  note e1 = ensureUserExists_Inr [OF e]
  note s1 = saveByType_Inr [OF s]
  have "users tx2 userID \<noteq> None" using e1 s1(1) by simp
  note u1 = updateUserConnectionFlags_Inr [OF u this]
  show "Option.bind (users db' userID) active_connection_type = Some (ConnectionType config)"
    using u1 by simp
  show "database_configs db' = database_configs db" if "ConnectionType config \<noteq> ''postgresql''"
    using s1(2) [OF that] u1 e1 by simp
  show "ssh_configs db' = ssh_configs db" if "ConnectionType config \<noteq> ''ssh''"
    using s1(3) [OF that] u1 e1 by simp
  show "wireguard_configs db' = wireguard_configs db" if "ConnectionType config \<noteq> ''wireguard''"
    using s1(4) [OF that] u1 e1 by simp
  show "fault srv ''select exists'' = None" using e1 by simp
  show "fault srv ''insert user'' = None" if "users db userID = None" using e1 that by simp
  show "fault srv ''update users'' = None" using u1 by simp
  show "database_configs db' = database_configs tx2" using u1 by simp
  show "ssh_configs db' = ssh_configs tx2" using u1 by simp
  show "wireguard_configs db' = wireguard_configs tx2" using u1 by simp
qed

lemma read_active:
  assumes "Option.bind (users db userID) active_connection_type = Some t"
  shows "t = ''postgresql'' \<Longrightarrow>
           getUserDatabaseConfig cr ce db userID = loadDatabaseConfig cr ce db userID"
    and "t = ''ssh'' \<Longrightarrow> getUserDatabaseConfig cr ce db userID = loadSSHConfig cr ce db userID"
    and "t = ''wireguard'' \<Longrightarrow>
           getUserDatabaseConfig cr ce db userID = loadWireguardConfig cr ce db userID"
  using assms by (simp_all add: getUserDatabaseConfig_def getUserDatabaseConfigAcross_def)

lemma committed_direct:
  assumes t: "ConnectionType config = ''postgresql''"
    and s: "saveByType cr ce srv rnd tx1 userID config = (Inr tx2, rnd')"
    and a: "Option.bind (users db' userID) active_connection_type = Some (ConnectionType config)"
    and f: "database_configs db' = database_configs tx2"
  shows "fault srv ''upsert database_configs'' = None"
    and "NonceSize \<le> length rnd"
    and "map_option db_is_active (database_configs db' userID) = Some True"
    and "digest32 cr \<Longrightarrow> aeadCorrect cr \<Longrightarrow>
         getUserDatabaseConfig cr ce db' userID =
           Inr \<lparr>ConnectionType = ''postgresql'', DatabaseURL = DatabaseURL config,
                SSHConfig = None, WireguardConfig = None\<rparr>"
proof -
  from t s have "saveDatabaseConfig cr ce srv rnd tx1 userID config = (Inr tx2, rnd')"
    by (simp add: saveByType_def)
  from saveDatabaseConfig_row [OF this] obtain enc where
    enc: "EncryptConfig cr ce rnd userID ''postgresql'' (DatabaseURL config) = (Inr enc, rnd')"
    and fl: "fault srv ''upsert database_configs'' = None"
    and row: "database_configs tx2 userID =
                Some \<lparr>db_database_url_encrypted = enc, db_is_active = True\<rparr>"
    by blast
  have row': "database_configs db' userID =
                Some \<lparr>db_database_url_encrypted = enc, db_is_active = True\<rparr>"
    using row f by simp
  show "fault srv ''upsert database_configs'' = None" by (rule fl)
  show "NonceSize \<le> length rnd" by (rule EncryptConfig_entropy [OF enc])
  show "map_option db_is_active (database_configs db' userID) = Some True" using row' by simp
  show "getUserDatabaseConfig cr ce db' userID =
           Inr \<lparr>ConnectionType = ''postgresql'', DatabaseURL = DatabaseURL config,
                SSHConfig = None, WireguardConfig = None\<rparr>"
    if "digest32 cr" and "aeadCorrect cr"
    using read_active(1) [OF a t] loadDatabaseConfig_saved [OF that enc row'] by simp
qed

lemma committed_ssh:
  assumes t: "ConnectionType config = ''ssh''"
    and s: "saveByType cr ce srv rnd tx1 userID config = (Inr tx2, rnd')"
    and a: "Option.bind (users db' userID) active_connection_type = Some (ConnectionType config)"
    and f: "ssh_configs db' = ssh_configs tx2"
  shows "fault srv ''upsert ssh_configs'' = None"
    and "NonceSize \<le> length rnd"
    and "map_option ssh_is_active (ssh_configs db' userID) = Some True"
    and "\<exists>ssh n. SSHConfig config = Some ssh \<and> int4in srv (Port ssh) = Some n \<and>
           (digest32 cr \<longrightarrow> aeadCorrect cr \<longrightarrow>
            getUserDatabaseConfig cr ce db' userID =
              Inr \<lparr>ConnectionType = ''ssh'', DatabaseURL = DatabaseURL config,
                   SSHConfig = Some \<lparr>Host = Host ssh, Port = formatInt n, User = User ssh,
                                     KeyPath = KeyPath ssh\<rparr>,
                   WireguardConfig = None\<rparr>)"
proof -
  from t s obtain ssh where sc: "SSHConfig config = Some ssh"
    and sv: "saveSSHConfig cr ce srv rnd tx1 userID config ssh = (Inr tx2, rnd')"
    by (cases "SSHConfig config") (simp_all add: saveByType_def)
  from saveSSHConfig_row [OF sv] obtain eh eu ek ed n r1 r2 r3 where
    e1: "EncryptConfig cr ce rnd userID ''ssh'' (Host ssh) = (Inr eh, r1)" and
    e2: "EncryptConfig cr ce r1 userID ''ssh'' (User ssh) = (Inr eu, r2)" and
    e3: "EncryptConfig cr ce r2 userID ''ssh'' (KeyPath ssh) = (Inr ek, r3)" and
    e4: "EncryptConfig cr ce r3 userID ''ssh'' (DatabaseURL config) = (Inr ed, rnd')" and
    fl: "fault srv ''upsert ssh_configs'' = None" and n: "int4in srv (Port ssh) = Some n" and
    row: "ssh_configs tx2 userID =
             Some \<lparr>host_encrypted = eh, port = n, username_encrypted = eu,
                   key_path_encrypted = ek, ssh_database_url_encrypted = ed,
                   ssh_is_active = True, tunnel_status = ''disconnected''\<rparr>"
    by blast
  have row': "ssh_configs db' userID =
             Some \<lparr>host_encrypted = eh, port = n, username_encrypted = eu,
                   key_path_encrypted = ek, ssh_database_url_encrypted = ed,
                   ssh_is_active = True, tunnel_status = ''disconnected''\<rparr>"
    using row f by simp
  show "fault srv ''upsert ssh_configs'' = None" by (rule fl)
  show "NonceSize \<le> length rnd" by (rule EncryptConfig_entropy [OF e1])
  show "map_option ssh_is_active (ssh_configs db' userID) = Some True" using row' by simp
  have "getUserDatabaseConfig cr ce db' userID =
              Inr \<lparr>ConnectionType = ''ssh'', DatabaseURL = DatabaseURL config,
                   SSHConfig = Some \<lparr>Host = Host ssh, Port = formatInt n, User = User ssh,
                                     KeyPath = KeyPath ssh\<rparr>,
                   WireguardConfig = None\<rparr>"
    if "digest32 cr" and "aeadCorrect cr"
    using read_active(2) [OF a t] loadSSHConfig_saved [OF that e1 e2 e3 e4 row'] by simp
  with sc n show "\<exists>ssh n. SSHConfig config = Some ssh \<and> int4in srv (Port ssh) = Some n \<and>
           (digest32 cr \<longrightarrow> aeadCorrect cr \<longrightarrow>
            getUserDatabaseConfig cr ce db' userID =
              Inr \<lparr>ConnectionType = ''ssh'', DatabaseURL = DatabaseURL config,
                   SSHConfig = Some \<lparr>Host = Host ssh, Port = formatInt n, User = User ssh,
                                     KeyPath = KeyPath ssh\<rparr>,
                   WireguardConfig = None\<rparr>)"
    by blast
qed

lemma committed_wireguard:
  assumes t: "ConnectionType config = ''wireguard''"
    and s: "saveByType cr ce srv rnd tx1 userID config = (Inr tx2, rnd')"
    and a: "Option.bind (users db' userID) active_connection_type = Some (ConnectionType config)"
    and f: "wireguard_configs db' = wireguard_configs tx2"
  shows "fault srv ''upsert wireguard_configs'' = None"
    and "NonceSize \<le> length rnd"
    and "map_option wg_is_active (wireguard_configs db' userID) = Some True"
    and "\<exists>wg. WireguardConfig config = Some wg \<and>
           (digest32 cr \<longrightarrow> aeadCorrect cr \<longrightarrow>
            getUserDatabaseConfig cr ce db' userID =
              Inr \<lparr>ConnectionType = ''wireguard'', DatabaseURL = [], SSHConfig = None,
                   WireguardConfig = Some wg\<rparr>)"
proof -
  from t s obtain wg where wc: "WireguardConfig config = Some wg"
    and sv: "saveWireguardConfig cr ce srv rnd tx1 userID wg = (Inr tx2, rnd')"
    by (cases "WireguardConfig config") (simp_all add: saveByType_def)
  from saveWireguardConfig_row [OF sv] obtain ec ed r1 where
    e1: "EncryptConfig cr ce rnd userID ''wireguard'' (Config wg) = (Inr ec, r1)" and
    e2: "EncryptConfig cr ce r1 userID ''wireguard'' (InternalDBURL wg) = (Inr ed, rnd')" and
    fl: "fault srv ''upsert wireguard_configs'' = None" and
    row: "wireguard_configs tx2 userID =
             Some \<lparr>config_content_encrypted = ec, internal_db_url_encrypted = ed,
                   wg_is_active = True, vpn_status = ''disconnected''\<rparr>"
    by blast
  have row': "wireguard_configs db' userID =
             Some \<lparr>config_content_encrypted = ec, internal_db_url_encrypted = ed,
                   wg_is_active = True, vpn_status = ''disconnected''\<rparr>"
    using row f by simp
  show "fault srv ''upsert wireguard_configs'' = None" by (rule fl)
  show "NonceSize \<le> length rnd" by (rule EncryptConfig_entropy [OF e1])
  show "map_option wg_is_active (wireguard_configs db' userID) = Some True" using row' by simp
  have "getUserDatabaseConfig cr ce db' userID =
              Inr \<lparr>ConnectionType = ''wireguard'', DatabaseURL = [], SSHConfig = None,
                   WireguardConfig = Some wg\<rparr>"
    if "digest32 cr" and "aeadCorrect cr"
    using read_active(3) [OF a t] loadWireguardConfig_saved [OF that e1 e2 row'] by simp
  with wc show "\<exists>wg. WireguardConfig config = Some wg \<and>
           (digest32 cr \<longrightarrow> aeadCorrect cr \<longrightarrow>
            getUserDatabaseConfig cr ce db' userID =
              Inr \<lparr>ConnectionType = ''wireguard'', DatabaseURL = [], SSHConfig = None,
                   WireguardConfig = Some wg\<rparr>)"
    by blast
qed

text \<open>The two ways \<open>CreateDatabaseConfig\<close> ends: with an error and the state as it was,
  or with every statement of the transaction gone through.\<close>

lemma CreateDatabaseConfig_cases:
  assumes "CreateDatabaseConfig cr ce srv sys claims userID body = (resp, sys')"
  shows "(\<exists>code err msg. resp = ConfigError code err msg \<and> appDB sys' = appDB sys \<and>
            handler sys' = handler sys \<and> res sys' = res sys)
       \<or> (\<exists>c config tx1 tx2. claims = Some c \<and> body = Inr config \<and>
            validateConfig config = None \<and> fault srv ''begin'' = None \<and>
            ensureUserExists srv (appDB sys) userID (Email c) = Inr tx1 \<and>
            saveByType cr ce srv (entropy sys) tx1 userID config = (Inr tx2, entropy sys') \<and>
            updateUserConnectionFlags srv tx2 userID (ConnectionType config) = Inr (appDB sys') \<and>
            fault srv ''commit'' = None \<and>
            closeExistingUserConnection (handler sys) (res sys) userID = (handler sys', res sys') \<and>
            resp = ConfigSaved 200 (ConnectionType config))"
proof (cases claims)
  case None
  with assms show ?thesis by (auto simp: CreateDatabaseConfig_def)
next
  case (Some c)
  show ?thesis
  proof (cases "UserID c \<noteq> userID \<and> Role c \<noteq> ''admin''")
    case True
    with assms Some show ?thesis by (auto simp: CreateDatabaseConfig_def)
  next
    case na: False
    show ?thesis
    proof (cases body)
      case (Inl e)
      with assms Some na show ?thesis by (auto simp: CreateDatabaseConfig_def)
    next
      case (Inr config)
      show ?thesis
      proof (cases "validateConfig config")
        case (Some v)
        with assms \<open>claims = Some c\<close> na Inr show ?thesis
          by (cases v) (auto simp: CreateDatabaseConfig_def)
      next
        case None
        obtain x db1 rnd1 where txr:
          "saveTransaction cr ce srv (entropy sys) (appDB sys) userID (Email c) config
             = ((x, db1), rnd1)"
          by (cases "saveTransaction cr ce srv (entropy sys) (appDB sys) userID (Email c) config")
             auto
        show ?thesis
        proof (cases x)
          case (Some e)
          with txr have "db1 = appDB sys" by (auto dest: saveTransaction_error)
          with assms \<open>claims = Some c\<close> na \<open>body = Inr config\<close> None txr Some show ?thesis
            by (cases e) (auto simp: CreateDatabaseConfig_def)
        next
          case ok: None
          obtain h1 w1 where
            cl: "closeExistingUserConnection (handler sys) (res sys) userID = (h1, w1)"
            by (cases "closeExistingUserConnection (handler sys) (res sys) userID") auto
          have r: "resp = ConfigSaved 200 (ConnectionType config)"
            and s: "sys' = sys\<lparr>appDB := db1, handler := h1, res := w1, entropy := rnd1\<rparr>"
            using assms \<open>claims = Some c\<close> na \<open>body = Inr config\<close> None txr ok cl
            by (auto simp: CreateDatabaseConfig_def)
          from txr ok have
            "saveTransaction cr ce srv (entropy sys) (appDB sys) userID (Email c) config
               = ((None, db1), rnd1)"
            by simp
          from saveTransaction_ok [OF this] obtain tx1 tx2 where
            "fault srv ''begin'' = None"
            "ensureUserExists srv (appDB sys) userID (Email c) = Inr tx1"
            "saveByType cr ce srv (entropy sys) tx1 userID config = (Inr tx2, rnd1)"
            "updateUserConnectionFlags srv tx2 userID (ConnectionType config) = Inr db1"
            "fault srv ''commit'' = None"
            by blast
          with \<open>claims = Some c\<close> \<open>body = Inr config\<close> None cl r s
          have "\<exists>c config tx1 tx2. claims = Some c \<and> body = Inr config \<and>
            validateConfig config = None \<and> fault srv ''begin'' = None \<and>
            ensureUserExists srv (appDB sys) userID (Email c) = Inr tx1 \<and>
            saveByType cr ce srv (entropy sys) tx1 userID config = (Inr tx2, entropy sys') \<and>
            updateUserConnectionFlags srv tx2 userID (ConnectionType config) = Inr (appDB sys') \<and>
            fault srv ''commit'' = None \<and>
            closeExistingUserConnection (handler sys) (res sys) userID = (handler sys', res sys') \<and>
            resp = ConfigSaved 200 (ConnectionType config)"
            by simp
          then show ?thesis ..
        qed
      qed
    qed
  qed
qed

text \<open>
  Claim C7, as the code has it. The active variant of a user is the one named by
  \<open>users.active_connection_type\<close>; the flag \<open>is_active\<close> of a configuration row is set on
  saving and never cleared. For every call of \<open>CreateDatabaseConfig\<close>:
  \<^item> if it answers with an error, the application database, the caches and the open
    resources are as before: what the transaction had written is rolled back;
  \<^item> it answers with an error whenever a statement of the transaction fails (\<open>Begin\<close>,
    the look-up of the user, the insertion of a user that is missing, the upsert into
    the table of the type, the update of \<open>users\<close>, \<open>Commit\<close>), when the server does not
    read the port of an SSH configuration as an integer, and when the entropy source has
    fewer than 12 bytes left;
  \<^item> if it answers that type \<open>t\<close> was saved, then \<open>t\<close> is the type of the request and
    \<open>active_connection_type\<close> of the user is \<open>t\<close>; the row of the user in the table of
    \<open>t\<close> exists and has \<open>is_active\<close> set; with a 32-byte digest and an AEAD whose
    \<open>Open\<close> undoes \<open>Seal\<close>, \<open>getUserDatabaseConfig\<close> on the committed database succeeds
    and returns the configuration of the request (the port as the server read it);
    whatever it returns is of type \<open>t\<close>; the tables of the other two types are exactly
    as before, their \<open>is_active\<close> flags included; a read whose first statement sees the
    database before the commit and whose second sees it after returns what an
    uninterrupted read returns before the commit or what one returns after it, never a
    mixture; and no pool is cached for the user.
\<close>

theorem switch_is_one_commit:
  assumes "CreateDatabaseConfig cr ce srv sys claims userID body = (resp, sys')"
  shows "(\<forall>code err msg. resp = ConfigError code err msg \<longrightarrow>
            appDB sys' = appDB sys \<and> handler sys' = handler sys \<and> res sys' = res sys)
       \<and> (\<forall>config. body = Inr config \<longrightarrow>
            (fault srv ''begin'' \<noteq> None \<or> fault srv ''select exists'' \<noteq> None
             \<or> (users (appDB sys) userID = None \<and> fault srv ''insert user'' \<noteq> None)
             \<or> (ConnectionType config = ''postgresql'' \<and>
                   fault srv ''upsert database_configs'' \<noteq> None)
             \<or> (ConnectionType config = ''ssh'' \<and>
                   (fault srv ''upsert ssh_configs'' \<noteq> None \<or>
                    (\<forall>ssh. SSHConfig config = Some ssh \<longrightarrow> int4in srv (Port ssh) = None)))
             \<or> (ConnectionType config = ''wireguard'' \<and>
                   fault srv ''upsert wireguard_configs'' \<noteq> None)
             \<or> fault srv ''update users'' \<noteq> None \<or> fault srv ''commit'' \<noteq> None
             \<or> length (entropy sys) < NonceSize) \<longrightarrow>
            (\<exists>code err msg. resp = ConfigError code err msg))
       \<and> (\<forall>code t. resp = ConfigSaved code t \<longrightarrow>
            Option.bind (users (appDB sys') userID) active_connection_type = Some t
          \<and> (\<exists>config. body = Inr config \<and> ConnectionType config = t
               \<and> (t = ''postgresql'' \<longrightarrow> digest32 cr \<longrightarrow> aeadCorrect cr \<longrightarrow>
                    getUserDatabaseConfig cr ce (appDB sys') userID =
                      Inr \<lparr>ConnectionType = ''postgresql'', DatabaseURL = DatabaseURL config,
                           SSHConfig = None, WireguardConfig = None\<rparr>)
               \<and> (t = ''ssh'' \<longrightarrow>
                    (\<exists>ssh n. SSHConfig config = Some ssh \<and> int4in srv (Port ssh) = Some n \<and>
                       (digest32 cr \<longrightarrow> aeadCorrect cr \<longrightarrow>
                        getUserDatabaseConfig cr ce (appDB sys') userID =
                          Inr \<lparr>ConnectionType = ''ssh'', DatabaseURL = DatabaseURL config,
                               SSHConfig = Some \<lparr>Host = Host ssh, Port = formatInt n,
                                                 User = User ssh, KeyPath = KeyPath ssh\<rparr>,
                               WireguardConfig = None\<rparr>)))
               \<and> (t = ''wireguard'' \<longrightarrow>
                    (\<exists>wg. WireguardConfig config = Some wg \<and>
                       (digest32 cr \<longrightarrow> aeadCorrect cr \<longrightarrow>
                        getUserDatabaseConfig cr ce (appDB sys') userID =
                          Inr \<lparr>ConnectionType = ''wireguard'', DatabaseURL = [],
                               SSHConfig = None, WireguardConfig = Some wg\<rparr>))))
          \<and> (t = ''postgresql'' \<longrightarrow>
                 map_option db_is_active (database_configs (appDB sys') userID) = Some True)
          \<and> (t = ''ssh'' \<longrightarrow>
                 map_option ssh_is_active (ssh_configs (appDB sys') userID) = Some True)
          \<and> (t = ''wireguard'' \<longrightarrow>
                 map_option wg_is_active (wireguard_configs (appDB sys') userID) = Some True)
          \<and> (\<forall>cfg. getUserDatabaseConfig cr ce (appDB sys') userID = Inr cfg \<longrightarrow>
                 ConnectionType cfg = t)
          \<and> (t \<noteq> ''postgresql'' \<longrightarrow> database_configs (appDB sys') = database_configs (appDB sys))
          \<and> (t \<noteq> ''ssh'' \<longrightarrow> ssh_configs (appDB sys') = ssh_configs (appDB sys))
          \<and> (t \<noteq> ''wireguard'' \<longrightarrow>
                 wireguard_configs (appDB sys') = wireguard_configs (appDB sys))
          \<and> (getUserDatabaseConfigAcross cr ce (appDB sys) (appDB sys') userID =
                 getUserDatabaseConfig cr ce (appDB sys) userID
               \<or> getUserDatabaseConfigAcross cr ce (appDB sys) (appDB sys') userID =
                 getUserDatabaseConfig cr ce (appDB sys') userID)
          \<and> map_of (userDBPools (handler sys')) userID = None)"
  using CreateDatabaseConfig_cases [OF assms]
proof (elim disjE exE conjE)
  fix code err msg
  assume "resp = ConfigError code err msg" and "appDB sys' = appDB sys"
    and "handler sys' = handler sys" and "res sys' = res sys"
  then show ?thesis by simp
next
  fix c and config :: DatabaseConfig and tx1 tx2
  let ?t = "ConnectionType config"
  assume b: "body = Inr config" and v: "validateConfig config = None"
    and bg: "fault srv ''begin'' = None"
    and e: "ensureUserExists srv (appDB sys) userID (Email c) = Inr tx1"
    and s: "saveByType cr ce srv (entropy sys) tx1 userID config = (Inr tx2, entropy sys')"
    and u: "updateUserConnectionFlags srv tx2 userID ?t = Inr (appDB sys')"
    and cm: "fault srv ''commit'' = None"
    and cl: "closeExistingUserConnection (handler sys) (res sys) userID = (handler sys', res sys')"
    and r: "resp = ConfigSaved 200 ?t"
  note cf = committed_facts [OF v e s u]
  note pg = committed_direct [OF _ s cf(1) cf(8)]
  note sh = committed_ssh [OF _ s cf(1) cf(9)]
  note wg = committed_wireguard [OF _ s cf(1) cf(10)]
  have ty: "?t = ''postgresql'' \<or> ?t = ''ssh'' \<or> ?t = ''wireguard''"
    by (rule validateConfig_None [OF v])
  have en: "NonceSize \<le> length (entropy sys)"
    using ty pg(2) sh(2) wg(2) by blast
  have c1: "\<forall>code err msg. resp = ConfigError code err msg \<longrightarrow>
            appDB sys' = appDB sys \<and> handler sys' = handler sys \<and> res sys' = res sys"
    using r by simp
  have port: "\<not> (\<forall>ssh. SSHConfig config = Some ssh \<longrightarrow> int4in srv (Port ssh) = None)"
    if "?t = ''ssh''"
    using sh(4) [OF that] by auto
  have no: "\<not> (fault srv ''begin'' \<noteq> None \<or> fault srv ''select exists'' \<noteq> None
             \<or> (users (appDB sys) userID = None \<and> fault srv ''insert user'' \<noteq> None)
             \<or> (?t = ''postgresql'' \<and> fault srv ''upsert database_configs'' \<noteq> None)
             \<or> (?t = ''ssh'' \<and>
                   (fault srv ''upsert ssh_configs'' \<noteq> None \<or>
                    (\<forall>ssh. SSHConfig config = Some ssh \<longrightarrow> int4in srv (Port ssh) = None)))
             \<or> (?t = ''wireguard'' \<and> fault srv ''upsert wireguard_configs'' \<noteq> None)
             \<or> fault srv ''update users'' \<noteq> None \<or> fault srv ''commit'' \<noteq> None
             \<or> length (entropy sys) < NonceSize)"
  proof -
    have "\<not> length (entropy sys) < NonceSize" using en by simp
    moreover have "users (appDB sys) userID = None \<longrightarrow> fault srv ''insert user'' = None"
      using cf(6) by blast
    moreover have "?t = ''postgresql'' \<longrightarrow> fault srv ''upsert database_configs'' = None"
      using pg(1) by (rule impI)
    moreover have "?t = ''ssh'' \<longrightarrow> fault srv ''upsert ssh_configs'' = None"
      using sh(1) by (rule impI)
    moreover have "?t = ''wireguard'' \<longrightarrow> fault srv ''upsert wireguard_configs'' = None"
      using wg(1) by (rule impI)
    moreover have "?t = ''ssh'' \<longrightarrow>
        \<not> (\<forall>ssh. SSHConfig config = Some ssh \<longrightarrow> int4in srv (Port ssh) = None)"
      using port by (rule impI)
    ultimately show ?thesis using bg cf(5) cf(7) cm
      by (cases "users (appDB sys) userID") simp_all
  qed
  have c2: "\<forall>config. body = Inr config \<longrightarrow>
            (fault srv ''begin'' \<noteq> None \<or> fault srv ''select exists'' \<noteq> None
             \<or> (users (appDB sys) userID = None \<and> fault srv ''insert user'' \<noteq> None)
             \<or> (ConnectionType config = ''postgresql'' \<and>
                   fault srv ''upsert database_configs'' \<noteq> None)
             \<or> (ConnectionType config = ''ssh'' \<and>
                   (fault srv ''upsert ssh_configs'' \<noteq> None \<or>
                    (\<forall>ssh. SSHConfig config = Some ssh \<longrightarrow> int4in srv (Port ssh) = None)))
             \<or> (ConnectionType config = ''wireguard'' \<and>
                   fault srv ''upsert wireguard_configs'' \<noteq> None)
             \<or> fault srv ''update users'' \<noteq> None \<or> fault srv ''commit'' \<noteq> None
             \<or> length (entropy sys) < NonceSize) \<longrightarrow>
            (\<exists>code err msg. resp = ConfigError code err msg)"
  proof (intro allI impI)
    fix config'
    assume "body = Inr config'"
    with b have "config' = config" by simp
    moreover assume "fault srv ''begin'' \<noteq> None \<or> fault srv ''select exists'' \<noteq> None
             \<or> (users (appDB sys) userID = None \<and> fault srv ''insert user'' \<noteq> None)
             \<or> (ConnectionType config' = ''postgresql'' \<and>
                   fault srv ''upsert database_configs'' \<noteq> None)
             \<or> (ConnectionType config' = ''ssh'' \<and>
                   (fault srv ''upsert ssh_configs'' \<noteq> None \<or>
                    (\<forall>ssh. SSHConfig config' = Some ssh \<longrightarrow> int4in srv (Port ssh) = None)))
             \<or> (ConnectionType config' = ''wireguard'' \<and>
                   fault srv ''upsert wireguard_configs'' \<noteq> None)
             \<or> fault srv ''update users'' \<noteq> None \<or> fault srv ''commit'' \<noteq> None
             \<or> length (entropy sys) < NonceSize"
    ultimately show "\<exists>code err msg. resp = ConfigError code err msg" using no by simp
  qed
  have a: "Option.bind (users (appDB sys') userID) active_connection_type = Some ?t"
    by (rule cf(1))
  have rd: "\<exists>config'. body = Inr config' \<and> ConnectionType config' = ?t
               \<and> (?t = ''postgresql'' \<longrightarrow> digest32 cr \<longrightarrow> aeadCorrect cr \<longrightarrow>
                    getUserDatabaseConfig cr ce (appDB sys') userID =
                      Inr \<lparr>ConnectionType = ''postgresql'', DatabaseURL = DatabaseURL config',
                           SSHConfig = None, WireguardConfig = None\<rparr>)
               \<and> (?t = ''ssh'' \<longrightarrow>
                    (\<exists>ssh n. SSHConfig config' = Some ssh \<and> int4in srv (Port ssh) = Some n \<and>
                       (digest32 cr \<longrightarrow> aeadCorrect cr \<longrightarrow>
                        getUserDatabaseConfig cr ce (appDB sys') userID =
                          Inr \<lparr>ConnectionType = ''ssh'', DatabaseURL = DatabaseURL config',
                               SSHConfig = Some \<lparr>Host = Host ssh, Port = formatInt n,
                                                 User = User ssh, KeyPath = KeyPath ssh\<rparr>,
                               WireguardConfig = None\<rparr>)))
               \<and> (?t = ''wireguard'' \<longrightarrow>
                    (\<exists>wg. WireguardConfig config' = Some wg \<and>
                       (digest32 cr \<longrightarrow> aeadCorrect cr \<longrightarrow>
                        getUserDatabaseConfig cr ce (appDB sys') userID =
                          Inr \<lparr>ConnectionType = ''wireguard'', DatabaseURL = [],
                               SSHConfig = None, WireguardConfig = Some wg\<rparr>)))"
    using b pg(4) sh(4) wg(4) by (intro exI [of _ config]) blast
  have fl: "(?t = ''postgresql'' \<longrightarrow>
                 map_option db_is_active (database_configs (appDB sys') userID) = Some True)"
           "(?t = ''ssh'' \<longrightarrow>
                 map_option ssh_is_active (ssh_configs (appDB sys') userID) = Some True)"
           "(?t = ''wireguard'' \<longrightarrow>
                 map_option wg_is_active (wireguard_configs (appDB sys') userID) = Some True)"
    using pg(3) sh(3) wg(3) by blast+
  have tp: "\<forall>cfg. getUserDatabaseConfig cr ce (appDB sys') userID = Inr cfg \<longrightarrow>
                 ConnectionType cfg = ?t"
    using getUserDatabaseConfig_type [OF a] by blast
  have f1: "database_configs (appDB sys') = database_configs (appDB sys)" if "?t \<noteq> ''postgresql''"
    using cf(2) that by simp
  have f2: "ssh_configs (appDB sys') = ssh_configs (appDB sys)" if "?t \<noteq> ''ssh''"
    using cf(3) that by simp
  have f3: "wireguard_configs (appDB sys') = wireguard_configs (appDB sys)" if "?t \<noteq> ''wireguard''"
    using cf(4) that by simp
  have st: "getUserDatabaseConfigAcross cr ce (appDB sys) (appDB sys') userID =
            getUserDatabaseConfig cr ce (appDB sys) userID
        \<or> getUserDatabaseConfigAcross cr ce (appDB sys) (appDB sys') userID =
            getUserDatabaseConfig cr ce (appDB sys') userID"
    by (rule straddling_read [OF a f1 f2 f3])
  have ca: "map_of (userDBPools (handler sys')) userID = None"
    by (rule closeExistingUserConnection_cache [OF cl])
  have c3: "\<forall>code t. resp = ConfigSaved code t \<longrightarrow>
            Option.bind (users (appDB sys') userID) active_connection_type = Some t
          \<and> (\<exists>config. body = Inr config \<and> ConnectionType config = t
               \<and> (t = ''postgresql'' \<longrightarrow> digest32 cr \<longrightarrow> aeadCorrect cr \<longrightarrow>
                    getUserDatabaseConfig cr ce (appDB sys') userID =
                      Inr \<lparr>ConnectionType = ''postgresql'', DatabaseURL = DatabaseURL config,
                           SSHConfig = None, WireguardConfig = None\<rparr>)
               \<and> (t = ''ssh'' \<longrightarrow>
                    (\<exists>ssh n. SSHConfig config = Some ssh \<and> int4in srv (Port ssh) = Some n \<and>
                       (digest32 cr \<longrightarrow> aeadCorrect cr \<longrightarrow>
                        getUserDatabaseConfig cr ce (appDB sys') userID =
                          Inr \<lparr>ConnectionType = ''ssh'', DatabaseURL = DatabaseURL config,
                               SSHConfig = Some \<lparr>Host = Host ssh, Port = formatInt n,
                                                 User = User ssh, KeyPath = KeyPath ssh\<rparr>,
                               WireguardConfig = None\<rparr>)))
               \<and> (t = ''wireguard'' \<longrightarrow>
                    (\<exists>wg. WireguardConfig config = Some wg \<and>
                       (digest32 cr \<longrightarrow> aeadCorrect cr \<longrightarrow>
                        getUserDatabaseConfig cr ce (appDB sys') userID =
                          Inr \<lparr>ConnectionType = ''wireguard'', DatabaseURL = [],
                               SSHConfig = None, WireguardConfig = Some wg\<rparr>))))
          \<and> (t = ''postgresql'' \<longrightarrow>
                 map_option db_is_active (database_configs (appDB sys') userID) = Some True)
          \<and> (t = ''ssh'' \<longrightarrow>
                 map_option ssh_is_active (ssh_configs (appDB sys') userID) = Some True)
          \<and> (t = ''wireguard'' \<longrightarrow>
                 map_option wg_is_active (wireguard_configs (appDB sys') userID) = Some True)
          \<and> (\<forall>cfg. getUserDatabaseConfig cr ce (appDB sys') userID = Inr cfg \<longrightarrow>
                 ConnectionType cfg = t)
          \<and> (t \<noteq> ''postgresql'' \<longrightarrow> database_configs (appDB sys') = database_configs (appDB sys))
          \<and> (t \<noteq> ''ssh'' \<longrightarrow> ssh_configs (appDB sys') = ssh_configs (appDB sys))
          \<and> (t \<noteq> ''wireguard'' \<longrightarrow>
                 wireguard_configs (appDB sys') = wireguard_configs (appDB sys))
          \<and> (getUserDatabaseConfigAcross cr ce (appDB sys) (appDB sys') userID =
                 getUserDatabaseConfig cr ce (appDB sys) userID
               \<or> getUserDatabaseConfigAcross cr ce (appDB sys) (appDB sys') userID =
                 getUserDatabaseConfig cr ce (appDB sys') userID)
          \<and> map_of (userDBPools (handler sys')) userID = None"
  proof (intro allI impI)
    fix code t
    assume "resp = ConfigSaved code t"
    with r have t: "t = ?t" by simp
    show "Option.bind (users (appDB sys') userID) active_connection_type = Some t
          \<and> (\<exists>config. body = Inr config \<and> ConnectionType config = t
               \<and> (t = ''postgresql'' \<longrightarrow> digest32 cr \<longrightarrow> aeadCorrect cr \<longrightarrow>
                    getUserDatabaseConfig cr ce (appDB sys') userID =
                      Inr \<lparr>ConnectionType = ''postgresql'', DatabaseURL = DatabaseURL config,
                           SSHConfig = None, WireguardConfig = None\<rparr>)
               \<and> (t = ''ssh'' \<longrightarrow>
                    (\<exists>ssh n. SSHConfig config = Some ssh \<and> int4in srv (Port ssh) = Some n \<and>
                       (digest32 cr \<longrightarrow> aeadCorrect cr \<longrightarrow>
                        getUserDatabaseConfig cr ce (appDB sys') userID =
                          Inr \<lparr>ConnectionType = ''ssh'', DatabaseURL = DatabaseURL config,
                               SSHConfig = Some \<lparr>Host = Host ssh, Port = formatInt n,
                                                 User = User ssh, KeyPath = KeyPath ssh\<rparr>,
                               WireguardConfig = None\<rparr>)))
               \<and> (t = ''wireguard'' \<longrightarrow>
                    (\<exists>wg. WireguardConfig config = Some wg \<and>
                       (digest32 cr \<longrightarrow> aeadCorrect cr \<longrightarrow>
                        getUserDatabaseConfig cr ce (appDB sys') userID =
                          Inr \<lparr>ConnectionType = ''wireguard'', DatabaseURL = [],
                               SSHConfig = None, WireguardConfig = Some wg\<rparr>))))
          \<and> (t = ''postgresql'' \<longrightarrow>
                 map_option db_is_active (database_configs (appDB sys') userID) = Some True)
          \<and> (t = ''ssh'' \<longrightarrow>
                 map_option ssh_is_active (ssh_configs (appDB sys') userID) = Some True)
          \<and> (t = ''wireguard'' \<longrightarrow>
                 map_option wg_is_active (wireguard_configs (appDB sys') userID) = Some True)
          \<and> (\<forall>cfg. getUserDatabaseConfig cr ce (appDB sys') userID = Inr cfg \<longrightarrow>
                 ConnectionType cfg = t)
          \<and> (t \<noteq> ''postgresql'' \<longrightarrow> database_configs (appDB sys') = database_configs (appDB sys))
          \<and> (t \<noteq> ''ssh'' \<longrightarrow> ssh_configs (appDB sys') = ssh_configs (appDB sys))
          \<and> (t \<noteq> ''wireguard'' \<longrightarrow>
                 wireguard_configs (appDB sys') = wireguard_configs (appDB sys))
          \<and> (getUserDatabaseConfigAcross cr ce (appDB sys) (appDB sys') userID =
                 getUserDatabaseConfig cr ce (appDB sys) userID
               \<or> getUserDatabaseConfigAcross cr ce (appDB sys) (appDB sys') userID =
                 getUserDatabaseConfig cr ce (appDB sys') userID)
          \<and> map_of (userDBPools (handler sys')) userID = None"
      unfolding t
      apply (intro conjI)
      apply (rule a)
      apply (rule rd)
      apply (rule fl(1))
      apply (rule fl(2))
      apply (rule fl(3))
      apply (rule tp)
      using f1 apply blast
      using f2 apply blast
      using f3 apply blast
      apply (rule st)
      apply (rule ca)
      done
  qed
  from c1 c2 c3 show ?thesis by (intro conjI)
qed

text \<open>User \<open>u1\<close> has a direct configuration and saves an SSH one: the SSH configuration
  is what is read afterwards. On a server that refuses the commit the same request is
  answered with an error and the application database stays as it was.\<close>

lemma switch_response:
  "fst (CreateDatabaseConfig toyCrypto toyService plainServer afterDirect demoClaims ''u1''
          (Inr sshRequest)) = ConfigSaved 200 ''ssh''"
  by code_simp

lemma switch_run:
  "CreateDatabaseConfig toyCrypto toyService plainServer afterDirect demoClaims ''u1''
     (Inr sshRequest) = (ConfigSaved 200 ''ssh'', afterSwitch)"
  using switch_response by (simp add: afterSwitch_def prod_eq_iff)

lemma refused_run:
  "CreateDatabaseConfig toyCrypto toyService refusingServer afterDirect demoClaims ''u1''
     (Inr sshRequest) =
   (fst (CreateDatabaseConfig toyCrypto toyService refusingServer afterDirect demoClaims ''u1''
           (Inr sshRequest)),
    snd (CreateDatabaseConfig toyCrypto toyService refusingServer afterDirect demoClaims ''u1''
           (Inr sshRequest)))"
  by simp

theorem switch_is_one_commit_witness:
  "Option.bind (users (appDB afterSwitch) ''u1'') active_connection_type = Some ''ssh''
   \<and> getUserDatabaseConfig toyCrypto toyService (appDB afterSwitch) ''u1'' = Inr sshRequest
   \<and> map_option ssh_is_active (ssh_configs (appDB afterSwitch) ''u1'') = Some True
   \<and> database_configs (appDB afterSwitch) = database_configs (appDB afterDirect)
   \<and> (getUserDatabaseConfigAcross toyCrypto toyService (appDB afterDirect) (appDB afterSwitch) ''u1'' =
        getUserDatabaseConfig toyCrypto toyService (appDB afterDirect) ''u1''
      \<or> getUserDatabaseConfigAcross toyCrypto toyService (appDB afterDirect) (appDB afterSwitch) ''u1'' =
        getUserDatabaseConfig toyCrypto toyService (appDB afterSwitch) ''u1'')
   \<and> map_of (userDBPools (handler afterSwitch)) ''u1'' = None
   \<and> (\<exists>code err msg.
         fst (CreateDatabaseConfig toyCrypto toyService refusingServer afterDirect demoClaims ''u1''
                (Inr sshRequest)) = ConfigError code err msg)
   \<and> appDB (snd (CreateDatabaseConfig toyCrypto toyService refusingServer afterDirect demoClaims
                    ''u1'' (Inr sshRequest))) = appDB afterDirect"
proof -
  note saved = switch_is_one_commit [OF switch_run, THEN conjunct2, THEN conjunct2, rule_format,
                                    OF refl]
  note refused = switch_is_one_commit [OF refused_run]
  have a: "Option.bind (users (appDB afterSwitch) ''u1'') active_connection_type = Some ''ssh''"
    by (rule saved [THEN conjunct1])
  obtain config ssh n where c: "(Inr sshRequest :: string + DatabaseConfig) = Inr config"
    and s: "SSHConfig config = Some ssh" and n: "int4in plainServer (Port ssh) = Some n"
    and g: "getUserDatabaseConfig toyCrypto toyService (appDB afterSwitch) ''u1'' =
              Inr \<lparr>ConnectionType = ''ssh'', DatabaseURL = DatabaseURL config,
                   SSHConfig = Some \<lparr>Host = Host ssh, Port = formatInt n,
                                     User = User ssh, KeyPath = KeyPath ssh\<rparr>,
                   WireguardConfig = None\<rparr>"
    using saved [THEN conjunct2, THEN conjunct1] toy_digest32 toy_aeadCorrect by blast
  from c have "config = sshRequest" by simp
  with s have "ssh = \<lparr>Host = ''h'', Port = ''22'', User = ''u'', KeyPath = ''k''\<rparr>"
    by (simp add: sshRequest_def)
  moreover from this n have "n = 22" by (simp add: plainServer_def)
  moreover have "formatInt 22 = ''22''" by code_simp
  ultimately have r: "getUserDatabaseConfig toyCrypto toyService (appDB afterSwitch) ''u1'' =
                        Inr sshRequest"
    using g \<open>config = sshRequest\<close> by (simp add: sshRequest_def)
  have i: "map_option ssh_is_active (ssh_configs (appDB afterSwitch) ''u1'') = Some True"
    using saved [THEN conjunct2, THEN conjunct2, THEN conjunct2, THEN conjunct1] by simp
  have f: "database_configs (appDB afterSwitch) = database_configs (appDB afterDirect)"
    using saved [THEN conjunct2, THEN conjunct2, THEN conjunct2, THEN conjunct2, THEN conjunct2, THEN conjunct2, THEN conjunct1] by simp
  have st: "getUserDatabaseConfigAcross toyCrypto toyService (appDB afterDirect) (appDB afterSwitch) ''u1'' =
        getUserDatabaseConfig toyCrypto toyService (appDB afterDirect) ''u1''
      \<or> getUserDatabaseConfigAcross toyCrypto toyService (appDB afterDirect) (appDB afterSwitch) ''u1'' =
        getUserDatabaseConfig toyCrypto toyService (appDB afterSwitch) ''u1''"
    by (rule saved [THEN conjunct2, THEN conjunct2, THEN conjunct2, THEN conjunct2, THEN conjunct2, THEN conjunct2, THEN conjunct2, THEN conjunct2, THEN conjunct2, THEN conjunct1])
  have ca: "map_of (userDBPools (handler afterSwitch)) ''u1'' = None"
    by (rule saved [THEN conjunct2, THEN conjunct2, THEN conjunct2, THEN conjunct2, THEN conjunct2, THEN conjunct2, THEN conjunct2, THEN conjunct2, THEN conjunct2, THEN conjunct2])
  have "fault refusingServer ''commit'' \<noteq> None" by (simp add: refusingServer_def plainServer_def)
  with refused [THEN conjunct2, THEN conjunct1, rule_format, OF refl]
  have e: "\<exists>code err msg.
         fst (CreateDatabaseConfig toyCrypto toyService refusingServer afterDirect demoClaims ''u1''
                (Inr sshRequest)) = ConfigError code err msg"
    by blast
  with refused [THEN conjunct1]
  have k: "appDB (snd (CreateDatabaseConfig toyCrypto toyService refusingServer afterDirect demoClaims
                    ''u1'' (Inr sshRequest))) = appDB afterDirect"
    by blast
  from a r i f st ca e k show ?thesis by (intro conjI)
qed

text \<open>
  Claim C7 as stated fails on the flags. After the switch from the direct to the SSH
  configuration the row of the previous variant still has \<open>is_active = true\<close>, as the new
  one has, and both \<open>has_..._config\<close> flags of the user are set: two variants are marked
  active, and only \<open>active_connection_type\<close> tells which one is read.
\<close>

theorem previous_variant_stays_flagged_active:
  "map_option active_connection_type (users (appDB afterDirect) ''u1'') = Some (Some ''postgresql'')
   \<and> map_option active_connection_type (users (appDB afterSwitch) ''u1'') = Some (Some ''ssh'')
   \<and> map_option db_is_active (database_configs (appDB afterSwitch) ''u1'') = Some True
   \<and> map_option ssh_is_active (ssh_configs (appDB afterSwitch) ''u1'') = Some True
   \<and> map_option has_database_url_config (users (appDB afterSwitch) ''u1'') = Some True
   \<and> map_option has_ssh_config (users (appDB afterSwitch) ''u1'') = Some True"
  by code_simp

end
